theory Spec2Isabelle
  imports Complex_Main
begin

section \<open>Data model (src/core/types.ts)\<close>

text \<open>
  The interfaces of \<^verbatim>\<open>types.ts\<close>. An optional member \<^verbatim>\<open>m?: T\<close> is a \<open>T option\<close>,
  \<open>None\<close> standing for \<^verbatim>\<open>undefined\<close>. Strings are lists of characters; the structural
  schema restricts entity, field and enum names to ASCII letters and digits. JSON numbers
  without a declared integer type are rationals; \<^verbatim>\<open>minLength\<close> and \<^verbatim>\<open>maxLength\<close> are
  declared by the schema as integers with minimum 0, hence naturals.
\<close>

datatype DataTypeKind =
  StringType | NumberType | BooleanType | DateType | ArrayType | ObjectType | EnumType

datatype JsonValue =
  JNull
  | JBool bool
  | JNumber rat
  | JString string
  | JArray "JsonValue list"
  | JObject "(string \<times> JsonValue) list"

record ValidationRules =
  vr_min :: "rat option"
  vr_max :: "rat option"
  vr_minLength :: "nat option"
  vr_maxLength :: "nat option"
  vr_pattern :: "string option"
  vr_email :: "bool option"
  vr_url :: "bool option"
  vr_uuid :: "bool option"
  vr_custom :: "string list option"

text \<open>
  The member \<^verbatim>\<open>enum\<close> of a DataType is declared \<^verbatim>\<open>string[]\<close>, and the structural schema
  accepts only an array of strings. The code nevertheless tests \<^verbatim>\<open>Array.isArray\<close> on it
  and has branches for a value that is not an array; \<open>EnumString\<close> is such a value (a bare
  string), kept so that these branches are part of the model.
\<close>

datatype EnumMember = EnumArray "string list" | EnumString string

datatype DataType = DataType
  (dt_type: DataTypeKind)
  (dt_format: "string option")
  (dt_items: "DataType option")
  (dt_properties: "(string \<times> DataType) list option")
  (dt_enum: "EnumMember option")
  (dt_required: "bool option")
  (dt_nullable: "bool option")
  (dt_default: "JsonValue option")
  (dt_description: "string option")
  (dt_validation: "ValidationRules option")

datatype RelationshipType = OneToOne | OneToMany | ManyToOne | ManyToMany

datatype OnDelete = CASCADE | SET_NULL | RESTRICT

record Relationship =
  rel_type :: RelationshipType
  rel_target :: string
  rel_foreignKey :: "string option"
  rel_joinTable :: "string option"
  rel_cascade :: "bool option"
  rel_eager :: "bool option"
  rel_onDelete :: "OnDelete option"

datatype GenerationStrategy = GenUuid | GenIncrement | GenTimestamp

record EntityField =
  fld_name :: string
  fld_dataType :: DataType
  fld_relationship :: "Relationship option"
  fld_isPrimaryKey :: "bool option"
  fld_isUnique :: "bool option"
  fld_isIndexed :: "bool option"
  fld_isGenerated :: "bool option"
  fld_generationStrategy :: "GenerationStrategy option"

record Entity =
  ent_name :: string
  ent_tableName :: "string option"
  ent_description :: "string option"
  ent_fields :: "EntityField list"
  ent_timestamps :: "bool option"
  ent_softDelete :: "bool option"

record EnumDefinition =
  enum_name :: string
  enum_values :: "string list"
  enum_description :: "string option"

record DataModel =
  dm_name :: string
  dm_version :: string
  dm_description :: "string option"
  dm_entities :: "Entity list"
  dm_enums :: "EnumDefinition list option"

subsection \<open>JavaScript truthiness of optional members\<close>

text \<open>\<^verbatim>\<open>if (s)\<close> on an optional string: \<^verbatim>\<open>undefined\<close> and the empty string are falsy.\<close>

definition truthyString :: "string option \<Rightarrow> bool" where
  "truthyString s = (case s of None \<Rightarrow> False | Some x \<Rightarrow> x \<noteq> [])"

text \<open>\<^verbatim>\<open>if (n)\<close> on an optional length: \<^verbatim>\<open>undefined\<close> and 0 are falsy.\<close>

definition truthyNat :: "nat option \<Rightarrow> bool" where
  "truthyNat n = (case n of None \<Rightarrow> False | Some k \<Rightarrow> k \<noteq> 0)"

text \<open>\<^verbatim>\<open>if (b)\<close> on an optional boolean: only \<^verbatim>\<open>true\<close> is truthy.\<close>

definition truthyBool :: "bool option \<Rightarrow> bool" where
  "truthyBool b = (b = Some True)"

text \<open>\<^verbatim>\<open>dataType.validation?.maxLength\<close>: \<^verbatim>\<open>undefined\<close> when there is no validation.\<close>

definition validationMaxLength :: "DataType \<Rightarrow> nat option" where
  "validationMaxLength dt =
     (case dt_validation dt of None \<Rightarrow> None | Some v \<Rightarrow> vr_maxLength v)"

section \<open>Column types (NestJSGenerator.dataTypeToColumnType)\<close>

definition dataTypeToColumnType :: "DataType \<Rightarrow> string" where
  "dataTypeToColumnType dataType =
     (case dt_type dataType of
        StringType \<Rightarrow>
          if dt_format dataType = Some ''uuid'' then ''uuid''
          else if (case validationMaxLength dataType of
                     None \<Rightarrow> False
                   | Some maxLength \<Rightarrow> maxLength \<noteq> 0 \<and> maxLength \<le> 255) then ''varchar''
          else ''text''
      | NumberType \<Rightarrow>
          if dt_format dataType = Some ''int32'' then ''int''
          else if dt_format dataType = Some ''int64'' then ''bigint''
          else ''decimal''
      | BooleanType \<Rightarrow> ''boolean''
      | DateType \<Rightarrow> if dt_format dataType = Some ''date'' then ''date'' else ''timestamp''
      | ArrayType \<Rightarrow> ''json''
      | ObjectType \<Rightarrow> ''json''
      | EnumType \<Rightarrow> ''enum'')"

section \<open>JavaScript objects and optional assignments\<close>

text \<open>
  An object used as a dictionary is an association list in insertion order.
  \<^verbatim>\<open>obj[k] = v\<close> replaces the value of a key that is present, in place, and appends a new
  key otherwise. This holds for the keys that the structural schema admits as names of
  entities, fields and enums (a letter followed by letters and digits): they are neither
  \<^verbatim>\<open>__proto__\<close>, which JavaScript assigns as the prototype, nor integers, which JavaScript
  lists first. The same list models a \<^verbatim>\<open>Map\<close>, for every key.
\<close>

fun objSet :: "(string \<times> 'v) list \<Rightarrow> string \<Rightarrow> 'v \<Rightarrow> (string \<times> 'v) list" where
  "objSet [] k v = [(k, v)]"
| "objSet ((k', v') # kvs) k v =
     (if k' = k then (k', v) # kvs else (k', v') # objSet kvs k v)"

definition objKeys :: "(string \<times> 'v) list \<Rightarrow> string list" where
  "objKeys obj = map fst obj"

definition objGet :: "(string \<times> 'v) list \<Rightarrow> string \<Rightarrow> 'v option" where
  "objGet obj k = map_of obj k"

text \<open>\<^verbatim>\<open>if (s) target.k = s\<close> for an optional string \<open>s\<close>.\<close>

definition whenTruthyString :: "string option \<Rightarrow> (string \<Rightarrow> 'a \<Rightarrow> 'a) \<Rightarrow> 'a \<Rightarrow> 'a" where
  "whenTruthyString s assign target =
     (case s of None \<Rightarrow> target | Some x \<Rightarrow> if x = [] then target else assign x target)"

text \<open>\<^verbatim>\<open>if (n) target.k = n\<close> for an optional length \<open>n\<close>.\<close>

definition whenTruthyNat :: "nat option \<Rightarrow> (nat \<Rightarrow> 'a \<Rightarrow> 'a) \<Rightarrow> 'a \<Rightarrow> 'a" where
  "whenTruthyNat n assign target =
     (case n of None \<Rightarrow> target | Some k \<Rightarrow> if k = 0 then target else assign k target)"

text \<open>\<^verbatim>\<open>if (x !== undefined) target.k = x\<close>.\<close>

definition whenDefined :: "'b option \<Rightarrow> ('b \<Rightarrow> 'a \<Rightarrow> 'a) \<Rightarrow> 'a \<Rightarrow> 'a" where
  "whenDefined x assign target = (case x of None \<Rightarrow> target | Some y \<Rightarrow> assign y target)"

text \<open>\<^verbatim>\<open>s || d\<close> for an optional string \<open>s\<close>.\<close>

definition orElse :: "string option \<Rightarrow> string \<Rightarrow> string" where
  "orElse s d = (case s of None \<Rightarrow> d | Some x \<Rightarrow> if x = [] then d else x)"

section \<open>Property objects of the specification documents\<close>

text \<open>
  The object that \<^verbatim>\<open>dataTypeToOpenAPIProperty\<close> and \<^verbatim>\<open>dataTypeToAsyncAPIProperty\<close>
  build: one optional member per key that either function may assign. Two property
  objects are equal when they have the same keys with the same values.
\<close>

datatype Property = Property
  (p_description: "string option")
  (p_type: "string option")
  (p_format: "string option")
  (p_minLength: "nat option")
  (p_maxLength: "nat option")
  (p_pattern: "string option")
  (p_minimum: "rat option")
  (p_maximum: "rat option")
  (p_items: "Property option")
  (p_properties: "(string \<times> Property) list option")
  (p_enum: "string list option")
  (p_ref: "string option")
  (p_default: "JsonValue option")
  (p_nullable: "bool option")

fun set_type :: "string \<Rightarrow> Property \<Rightarrow> Property" where
  "set_type v (Property d t f mn mx pt lo hi it ps en rf df nl) =
     Property d (Some v) f mn mx pt lo hi it ps en rf df nl"

fun set_format :: "string \<Rightarrow> Property \<Rightarrow> Property" where
  "set_format v (Property d t f mn mx pt lo hi it ps en rf df nl) =
     Property d t (Some v) mn mx pt lo hi it ps en rf df nl"

fun set_minLength :: "nat \<Rightarrow> Property \<Rightarrow> Property" where
  "set_minLength v (Property d t f mn mx pt lo hi it ps en rf df nl) =
     Property d t f (Some v) mx pt lo hi it ps en rf df nl"

fun set_maxLength :: "nat \<Rightarrow> Property \<Rightarrow> Property" where
  "set_maxLength v (Property d t f mn mx pt lo hi it ps en rf df nl) =
     Property d t f mn (Some v) pt lo hi it ps en rf df nl"

fun set_pattern :: "string \<Rightarrow> Property \<Rightarrow> Property" where
  "set_pattern v (Property d t f mn mx pt lo hi it ps en rf df nl) =
     Property d t f mn mx (Some v) lo hi it ps en rf df nl"

fun set_minimum :: "rat \<Rightarrow> Property \<Rightarrow> Property" where
  "set_minimum v (Property d t f mn mx pt lo hi it ps en rf df nl) =
     Property d t f mn mx pt (Some v) hi it ps en rf df nl"

fun set_maximum :: "rat \<Rightarrow> Property \<Rightarrow> Property" where
  "set_maximum v (Property d t f mn mx pt lo hi it ps en rf df nl) =
     Property d t f mn mx pt lo (Some v) it ps en rf df nl"

fun set_items :: "Property \<Rightarrow> Property \<Rightarrow> Property" where
  "set_items v (Property d t f mn mx pt lo hi it ps en rf df nl) =
     Property d t f mn mx pt lo hi (Some v) ps en rf df nl"

fun set_properties :: "(string \<times> Property) list \<Rightarrow> Property \<Rightarrow> Property" where
  "set_properties v (Property d t f mn mx pt lo hi it ps en rf df nl) =
     Property d t f mn mx pt lo hi it (Some v) en rf df nl"

fun set_enum :: "string list \<Rightarrow> Property \<Rightarrow> Property" where
  "set_enum v (Property d t f mn mx pt lo hi it ps en rf df nl) =
     Property d t f mn mx pt lo hi it ps (Some v) rf df nl"

fun set_ref :: "string \<Rightarrow> Property \<Rightarrow> Property" where
  "set_ref v (Property d t f mn mx pt lo hi it ps en rf df nl) =
     Property d t f mn mx pt lo hi it ps en (Some v) df nl"

fun set_default :: "JsonValue \<Rightarrow> Property \<Rightarrow> Property" where
  "set_default v (Property d t f mn mx pt lo hi it ps en rf df nl) =
     Property d t f mn mx pt lo hi it ps en rf (Some v) nl"

fun set_nullable :: "bool \<Rightarrow> Property \<Rightarrow> Property" where
  "set_nullable v (Property d t f mn mx pt lo hi it ps en rf df nl) =
     Property d t f mn mx pt lo hi it ps en rf df (Some v)"

text \<open>The literal \<^verbatim>\<open>{ description: dataType.description }\<close> both mappers start from.\<close>

definition newProperty :: "string option \<Rightarrow> Property" where
  "newProperty d =
     Property d None None None None None None None None None None None None None"

section \<open>OpenAPI property mapper (OpenAPIGenerator.dataTypeToOpenAPIProperty)\<close>

text \<open>
  The \<^verbatim>\<open>enum\<close> case: an array is truthy and passes \<^verbatim>\<open>Array.isArray\<close>, so every array
  takes the first branch. The second branch is reached by a truthy value that is not an
  array; for a non-empty bare string, index 0 is its first character.
\<close>

fun dataTypeToOpenAPIProperty :: "DataType \<Rightarrow> Property" where
  "dataTypeToOpenAPIProperty
     (DataType type format items properties enum required nullable dflt description validation) =
     (let property = newProperty description;
          property =
            (case type of
               StringType \<Rightarrow>
                 (let property = set_type ''string'' property;
                      property = whenTruthyString format set_format property
                  in case validation of
                       None \<Rightarrow> property
                     | Some v \<Rightarrow>
                         (let property = whenTruthyNat (vr_minLength v) set_minLength property;
                              property = whenTruthyNat (vr_maxLength v) set_maxLength property
                          in whenTruthyString (vr_pattern v) set_pattern property))
             | NumberType \<Rightarrow>
                 (let property =
                        set_type (if format = Some ''int32'' \<or> format = Some ''int64''
                                  then ''integer'' else ''number'') property;
                      property = whenTruthyString format set_format property
                  in case validation of
                       None \<Rightarrow> property
                     | Some v \<Rightarrow>
                         (let property = whenDefined (vr_min v) set_minimum property
                          in whenDefined (vr_max v) set_maximum property))
             | BooleanType \<Rightarrow> set_type ''boolean'' property
             | DateType \<Rightarrow>
                 set_format (orElse format ''date-time'') (set_type ''string'' property)
             | ArrayType \<Rightarrow>
                 (let property = set_type ''array'' property
                  in case items of
                       None \<Rightarrow> property
                     | Some item \<Rightarrow> set_items (dataTypeToOpenAPIProperty item) property)
             | ObjectType \<Rightarrow>
                 (let property = set_type ''object'' property
                  in case properties of
                       None \<Rightarrow> property
                     | Some entries \<Rightarrow>
                         set_properties
                           (foldl (\<lambda>obj (key, value).
                                     objSet obj key (dataTypeToOpenAPIProperty value))
                                  [] entries)
                           property)
             | EnumType \<Rightarrow>
                 (case enum of
                    None \<Rightarrow> property
                  | Some (EnumArray values) \<Rightarrow> set_enum values (set_type ''string'' property)
                  | Some (EnumString s) \<Rightarrow>
                      (case s of
                         [] \<Rightarrow> property
                       | c # _ \<Rightarrow> set_ref (''#/components/schemas/'' @ [c]) property)));
          property = whenDefined dflt set_default property;
          property = (if truthyBool nullable then set_nullable True property else property)
      in property)"

section \<open>AsyncAPI property mapper (AsyncAPIGenerator.dataTypeToAsyncAPIProperty)\<close>

fun dataTypeToAsyncAPIProperty :: "DataType \<Rightarrow> Property" where
  "dataTypeToAsyncAPIProperty
     (DataType type format items properties enum required nullable dflt description validation) =
     (let property = newProperty description;
          property =
            (case type of
               StringType \<Rightarrow>
                 whenTruthyString format set_format (set_type ''string'' property)
             | NumberType \<Rightarrow>
                 (let property =
                        set_type (if format = Some ''int32'' \<or> format = Some ''int64''
                                  then ''integer'' else ''number'') property
                  in whenTruthyString format set_format property)
             | BooleanType \<Rightarrow> set_type ''boolean'' property
             | DateType \<Rightarrow>
                 set_format (orElse format ''date-time'') (set_type ''string'' property)
             | ArrayType \<Rightarrow>
                 (let property = set_type ''array'' property
                  in case items of
                       None \<Rightarrow> property
                     | Some item \<Rightarrow> set_items (dataTypeToAsyncAPIProperty item) property)
             | ObjectType \<Rightarrow>
                 (let property = set_type ''object'' property
                  in case properties of
                       None \<Rightarrow> property
                     | Some entries \<Rightarrow>
                         set_properties
                           (foldl (\<lambda>obj (key, value).
                                     objSet obj key (dataTypeToAsyncAPIProperty value))
                                  [] entries)
                           property)
             | EnumType \<Rightarrow>
                 (case enum of
                    None \<Rightarrow> property
                  | Some (EnumArray values) \<Rightarrow> set_enum values (set_type ''string'' property)
                  | Some (EnumString s) \<Rightarrow>
                      (case s of
                         [] \<Rightarrow> property
                       | c # _ \<Rightarrow> set_ref (''#/components/schemas/'' @ [c]) property)));
          property = whenDefined dflt set_default property
      in property)"

section \<open>Exceptions\<close>

text \<open>
  A thrown value is either an \<^verbatim>\<open>Error\<close> object, with its message, or some other value,
  kept as the text \<^verbatim>\<open>String(value)\<close> gives for it. A function that may throw returns
  \<open>Exception + 'a\<close>, with \<open>Inl\<close> for the thrown value.
\<close>

datatype Exception = Error string | NonError string

text \<open>\<^verbatim>\<open>error instanceof Error ? error.message : String(error)\<close>\<close>

fun errorText :: "Exception \<Rightarrow> string" where
  "errorText (Error message) = message"
| "errorText (NonError text) = text"

text \<open>\<^verbatim>\<open>xs.join(sep)\<close>\<close>

fun join :: "string \<Rightarrow> string list \<Rightarrow> string" where
  "join sep [] = []"
| "join sep [x] = x"
| "join sep (x # y # ys) = x @ sep @ join sep (y # ys)"

definition newline :: string where
  "newline = [CHR 0x0A]"

fun relationshipTypeName :: "RelationshipType \<Rightarrow> string" where
  "relationshipTypeName OneToOne = ''oneToOne''"
| "relationshipTypeName OneToMany = ''oneToMany''"
| "relationshipTypeName ManyToOne = ''manyToOne''"
| "relationshipTypeName ManyToMany = ''manyToMany''"

section \<open>Business rules of the parser (DataModelParser.validateBusinessRules)\<close>

text \<open>
  The function keeps a set \<^verbatim>\<open>entityNames\<close> and an array \<^verbatim>\<open>errors\<close>, runs three loops
  over the entities, and throws one \<^verbatim>\<open>Error\<close> when \<^verbatim>\<open>errors\<close> is not empty. Each loop is a
  left fold that passes on what the loop mutates.
\<close>

text \<open>First loop: duplicate entity names.\<close>

definition checkDuplicateEntityNames ::
  "Entity list \<Rightarrow> string set \<times> string list \<Rightarrow> string set \<times> string list" where
  "checkDuplicateEntityNames entities start =
     foldl (\<lambda>(entityNames, errors) entity.
              (insert (ent_name entity) entityNames,
               if ent_name entity \<in> entityNames
               then errors @ [''Duplicate entity name: '' @ ent_name entity]
               else errors))
           start entities"

text \<open>Second loop, body of the inner loop over the fields of one entity.\<close>

definition parserCheckRelationship ::
  "string set \<Rightarrow> Entity \<Rightarrow> string list \<Rightarrow> EntityField \<Rightarrow> string list" where
  "parserCheckRelationship entityNames entity errors field =
     (case fld_relationship field of
        None \<Rightarrow> errors
      | Some relationship \<Rightarrow>
          (let targetEntity = rel_target relationship;
               errors =
                 (if targetEntity \<notin> entityNames
                  then errors @ [''Entity '' @ ent_name entity @ ''.'' @ fld_name field @ '': ''
                                 @ ''relationship target '' @ [CHR 0x27] @ targetEntity
                                 @ [CHR 0x27] @ '' does not exist'']
                  else errors);
               errors =
                 (if rel_type relationship \<in> {ManyToOne, OneToOne}
                     \<and> \<not> truthyString (rel_foreignKey relationship)
                  then errors @ [''Entity '' @ ent_name entity @ ''.'' @ fld_name field @ '': ''
                                 @ relationshipTypeName (rel_type relationship)
                                 @ '' relationship requires foreignKey'']
                  else errors);
               errors =
                 (if rel_type relationship = ManyToMany
                     \<and> \<not> truthyString (rel_joinTable relationship)
                  then errors @ [''Entity '' @ ent_name entity @ ''.'' @ fld_name field @ '': ''
                                 @ ''manyToMany relationship requires joinTable'']
                  else errors)
           in errors))"

text \<open>Second loop, body for one entity: its fields, then the primary-key check.\<close>

definition parserCheckEntity :: "string set \<Rightarrow> string list \<Rightarrow> Entity \<Rightarrow> string list" where
  "parserCheckEntity entityNames errors entity =
     (let errors = foldl (parserCheckRelationship entityNames entity) errors (ent_fields entity);
          primaryKeys = filter (\<lambda>f. truthyBool (fld_isPrimaryKey f)) (ent_fields entity)
      in if length primaryKeys = 0
         then errors @ [''Entity '' @ ent_name entity
                        @ '': must have at least one primary key field'']
         else errors)"

text \<open>
  Third loop, body for one field. \<^verbatim>\<open>enumRef\<close> is \<^verbatim>\<open>field.dataType.enum[0]\<close>: the first
  element of an array, the first character of a bare string, \<^verbatim>\<open>undefined\<close> when there is
  none. The error is pushed when \<^verbatim>\<open>enumRef\<close> is truthy, is not the name of a defined enum,
  and \<^verbatim>\<open>field.dataType.enum\<close> is not an array.
\<close>

fun enumTruthy :: "EnumMember \<Rightarrow> bool" where
  "enumTruthy (EnumArray values) = True"
| "enumTruthy (EnumString s) = (s \<noteq> [])"

fun isArray :: "EnumMember \<Rightarrow> bool" where
  "isArray (EnumArray values) = True"
| "isArray (EnumString s) = False"

fun enumFirst :: "EnumMember \<Rightarrow> string option" where
  "enumFirst (EnumArray []) = None"
| "enumFirst (EnumArray (v # values)) = Some v"
| "enumFirst (EnumString []) = None"
| "enumFirst (EnumString (c # s)) = Some [c]"

definition parserCheckEnumReference ::
  "string set \<Rightarrow> Entity \<Rightarrow> string list \<Rightarrow> EntityField \<Rightarrow> string list" where
  "parserCheckEnumReference enumNames entity errors field =
     (case dt_enum (fld_dataType field) of
        None \<Rightarrow> errors
      | Some enum \<Rightarrow>
          if dt_type (fld_dataType field) = EnumType \<and> enumTruthy enum
          then (case enumFirst enum of
                  None \<Rightarrow> errors
                | Some enumRef \<Rightarrow>
                    if enumRef \<noteq> [] \<and> enumRef \<notin> enumNames \<and> \<not> isArray enum
                    then errors @ [''Entity '' @ ent_name entity @ ''.'' @ fld_name field
                                   @ '': '' @ ''enum reference '' @ [CHR 0x27] @ enumRef
                                   @ [CHR 0x27] @ '' does not exist'']
                    else errors)
          else errors)"

text \<open>The array \<^verbatim>\<open>errors\<close> as it stands when the three loops are done.\<close>

definition parserBusinessRuleErrors :: "DataModel \<Rightarrow> string list" where
  "parserBusinessRuleErrors dataModel =
     (let (entityNames, errors) = checkDuplicateEntityNames (dm_entities dataModel) ({}, []);
          errors = foldl (parserCheckEntity entityNames) errors (dm_entities dataModel);
          enumNames = (case dm_enums dataModel of
                         None \<Rightarrow> {}
                       | Some enums \<Rightarrow> set (map enum_name enums));
          errors = foldl (\<lambda>errors entity.
                            foldl (parserCheckEnumReference enumNames entity) errors
                                  (ent_fields entity))
                         errors (dm_entities dataModel)
      in errors)"

definition DataModelParser_validateBusinessRules :: "DataModel \<Rightarrow> Exception + unit" where
  "DataModelParser_validateBusinessRules dataModel =
     (let errors = parserBusinessRuleErrors dataModel
      in if length errors > 0
         then Inl (Error (''Business rule validation failed:'' @ newline @ join newline errors))
         else Inr ())"

section \<open>The validate command (ValidateCommand)\<close>

text \<open>
  The object \<^verbatim>\<open>result\<close> that the checks of the command push their messages to. Every check
  takes it and returns it updated.
\<close>

record ValidationResult =
  valid :: bool
  errors :: "string list"
  warnings :: "string list"

definition pushError :: "string \<Rightarrow> ValidationResult \<Rightarrow> ValidationResult" where
  "pushError message result = result\<lparr>errors := errors result @ [message]\<rparr>"

definition pushWarning :: "string \<Rightarrow> ValidationResult \<Rightarrow> ValidationResult" where
  "pushWarning message result = result\<lparr>warnings := warnings result @ [message]\<rparr>"

definition quoted :: "string \<Rightarrow> string" where
  "quoted s = [CHR 0x27] @ s @ [CHR 0x27]"

subsection \<open>validateEntityRelationships\<close>

definition checkFieldRelationship ::
  "string set \<Rightarrow> Entity \<Rightarrow> ValidationResult \<Rightarrow> EntityField \<Rightarrow> ValidationResult" where
  "checkFieldRelationship entityNames entity result field =
     (case fld_relationship field of
        None \<Rightarrow> result
      | Some relationship \<Rightarrow>
          (let result =
                 (if rel_target relationship \<notin> entityNames
                  then pushError (''Entity '' @ ent_name entity @ ''.'' @ fld_name field
                                  @ '': relationship target '' @ quoted (rel_target relationship)
                                  @ '' does not exist'') result
                  else result);
               result =
                 (if rel_type relationship = ManyToMany
                     \<and> \<not> truthyString (rel_joinTable relationship)
                  then pushWarning (''Entity '' @ ent_name entity @ ''.'' @ fld_name field
                                    @ '': manyToMany relationship should specify joinTable'') result
                  else result);
               result =
                 (if rel_type relationship \<in> {ManyToOne, OneToOne}
                     \<and> \<not> truthyString (rel_foreignKey relationship)
                  then pushWarning (''Entity '' @ ent_name entity @ ''.'' @ fld_name field
                                    @ '': '' @ relationshipTypeName (rel_type relationship)
                                    @ '' relationship should specify foreignKey'') result
                  else result)
           in result))"

definition validateEntityRelationships :: "DataModel \<Rightarrow> ValidationResult \<Rightarrow> ValidationResult" where
  "validateEntityRelationships dataModel result =
     (let entityNames = set (map ent_name (dm_entities dataModel))
      in foldl (\<lambda>result entity.
                  foldl (checkFieldRelationship entityNames entity) result (ent_fields entity))
               result (dm_entities dataModel))"

subsection \<open>validateEntityFields and validateFieldDataType\<close>

definition validateFieldDataType ::
  "string \<Rightarrow> EntityField \<Rightarrow> bool \<Rightarrow> ValidationResult \<Rightarrow> ValidationResult" where
  "validateFieldDataType entityName field strict result =
     (let dataType = fld_dataType field;
          here = ''Entity '' @ entityName @ ''.'' @ fld_name field;
          result =
            (if dt_type dataType = EnumType
                \<and> (case dt_enum dataType of
                      None \<Rightarrow> True
                    | Some (EnumArray values) \<Rightarrow> length values = 0
                    | Some (EnumString s) \<Rightarrow> True)
             then pushError (here @ '': enum type must have at least one value'') result
             else result);
          result =
            (if dt_type dataType = ArrayType \<and> dt_items dataType = None
             then pushWarning (here @ '': array type should specify items type'') result
             else result);
          result =
            (case dt_validation dataType of
               None \<Rightarrow> result
             | Some v \<Rightarrow>
                 if dt_type dataType = StringType
                 then (case (vr_minLength v, vr_maxLength v) of
                         (Some minLength, Some maxLength) \<Rightarrow>
                           if minLength > maxLength
                           then pushError
                                  (here @ '': minLength cannot be greater than maxLength'') result
                           else result
                       | _ \<Rightarrow> result)
                 else result);
          result =
            (case dt_validation dataType of
               None \<Rightarrow> result
             | Some v \<Rightarrow>
                 if dt_type dataType = NumberType
                 then (case (vr_min v, vr_max v) of
                         (Some lo, Some hi) \<Rightarrow>
                           if lo > hi
                           then pushError (here @ '': min cannot be greater than max'') result
                           else result
                       | _ \<Rightarrow> result)
                 else result);
          result =
            (if strict
             then (let result =
                         (if \<not> truthyString (dt_description dataType)
                          then pushWarning (here @ '': missing field description'') result
                          else result)
                   in if dt_type dataType = StringType
                         \<and> \<not> truthyNat (validationMaxLength dataType)
                      then pushWarning
                             (here @ '': string field should have maxLength constraint'') result
                      else result)
             else result)
      in result)"

definition checkEntityFields :: "bool \<Rightarrow> ValidationResult \<Rightarrow> Entity \<Rightarrow> ValidationResult" where
  "checkEntityFields strict result entity =
     (let (fieldNames, result) =
            foldl (\<lambda>(fieldNames, result) field.
                     (let result =
                            (if fld_name field \<in> fieldNames
                             then pushError (''Entity '' @ ent_name entity
                                             @ '': duplicate field name '' @ quoted (fld_name field))
                                            result
                             else result)
                      in (insert (fld_name field) fieldNames,
                          validateFieldDataType (ent_name entity) field strict result)))
                  ({}, result) (ent_fields entity);
          primaryKeys = filter (\<lambda>f. truthyBool (fld_isPrimaryKey f)) (ent_fields entity);
          result =
            (if length primaryKeys = 0
             then pushError (''Entity '' @ ent_name entity
                             @ '': must have at least one primary key field'') result
             else result);
          generatedPrimaryKeys = filter (\<lambda>f. truthyBool (fld_isGenerated f)) primaryKeys
      in if length generatedPrimaryKeys > 1
         then pushError (''Entity '' @ ent_name entity
                         @ '': cannot have multiple generated primary keys'') result
         else result)"

definition validateEntityFields ::
  "DataModel \<Rightarrow> bool \<Rightarrow> ValidationResult \<Rightarrow> ValidationResult" where
  "validateEntityFields dataModel strict result =
     foldl (checkEntityFields strict) result (dm_entities dataModel)"

subsection \<open>validateNamingConventions\<close>

definition isUpper :: "char \<Rightarrow> bool" where
  "isUpper c = (65 \<le> (of_char c :: nat) \<and> (of_char c :: nat) \<le> 90)"

definition isLower :: "char \<Rightarrow> bool" where
  "isLower c = (97 \<le> (of_char c :: nat) \<and> (of_char c :: nat) \<le> 122)"

definition isDigit :: "char \<Rightarrow> bool" where
  "isDigit c = (48 \<le> (of_char c :: nat) \<and> (of_char c :: nat) \<le> 57)"

text \<open>\<^verbatim>\<open>/^[A-Z][a-zA-Z0-9]*$/\<close>\<close>

fun isPascalCase :: "string \<Rightarrow> bool" where
  "isPascalCase [] = False"
| "isPascalCase (c # cs) = (isUpper c \<and> list_all (\<lambda>x. isLower x \<or> isUpper x \<or> isDigit x) cs)"

text \<open>\<^verbatim>\<open>/^[a-z][a-zA-Z0-9]*$/\<close>\<close>

fun isCamelCase :: "string \<Rightarrow> bool" where
  "isCamelCase [] = False"
| "isCamelCase (c # cs) = (isLower c \<and> list_all (\<lambda>x. isLower x \<or> isUpper x \<or> isDigit x) cs)"

text \<open>\<^verbatim>\<open>/^[A-Z][A-Z0-9_]*$/\<close>\<close>

fun isUpperSnakeCase :: "string \<Rightarrow> bool" where
  "isUpperSnakeCase [] = False"
| "isUpperSnakeCase (c # cs) =
     (isUpper c \<and> list_all (\<lambda>x. isUpper x \<or> isDigit x \<or> x = CHR ''_'') cs)"

definition validateNamingConventions ::
  "DataModel \<Rightarrow> bool \<Rightarrow> ValidationResult \<Rightarrow> ValidationResult" where
  "validateNamingConventions dataModel strict result =
     (let result =
            foldl (\<lambda>result entity.
                     (let result =
                            (if \<not> isPascalCase (ent_name entity)
                             then pushWarning (''Entity '' @ ent_name entity
                                               @ '': name should be in PascalCase'') result
                             else result)
                      in foldl (\<lambda>result field.
                                  if \<not> isCamelCase (fld_name field)
                                  then pushWarning
                                         (''Entity '' @ ent_name entity @ ''.'' @ fld_name field
                                          @ '': field name should be in camelCase'') result
                                  else result)
                               result (ent_fields entity)))
                  result (dm_entities dataModel)
      in case dm_enums dataModel of
           None \<Rightarrow> result
         | Some enums \<Rightarrow>
             foldl (\<lambda>result enumDef.
                      (let result =
                             (if \<not> isPascalCase (enum_name enumDef)
                              then pushWarning (''Enum '' @ enum_name enumDef
                                                @ '': name should be in PascalCase'') result
                              else result)
                       in foldl (\<lambda>result value.
                                   if strict \<and> \<not> isUpperSnakeCase value
                                   then pushWarning
                                          (''Enum '' @ enum_name enumDef @ ''.'' @ value
                                           @ '': value should be in UPPER_CASE'') result
                                   else result)
                                result (enum_values enumDef)))
                   result enums)"

subsection \<open>checkCircularRelationships\<close>

text \<open>
  The relationship graph is a \<^verbatim>\<open>Map\<close> from entity name to the array of targets. For each
  entity the key is set to a fresh empty array, which replaces the array of an earlier
  entity of the same name; then the target of every field with a relationship whose type
  is not \<^verbatim>\<open>oneToMany\<close> is pushed to the array found under the entity's name.
\<close>

definition graphPush ::
  "(string \<times> string list) list \<Rightarrow> string \<Rightarrow> string \<Rightarrow> (string \<times> string list) list" where
  "graphPush entityGraph name target =
     (case objGet entityGraph name of
        None \<Rightarrow> entityGraph
      | Some targets \<Rightarrow> objSet entityGraph name (targets @ [target]))"

definition addEntityToGraph ::
  "(string \<times> string list) list \<Rightarrow> Entity \<Rightarrow> (string \<times> string list) list" where
  "addEntityToGraph entityGraph entity =
     foldl (\<lambda>entityGraph field.
              case fld_relationship field of
                None \<Rightarrow> entityGraph
              | Some relationship \<Rightarrow>
                  if rel_type relationship \<noteq> OneToMany
                  then graphPush entityGraph (ent_name entity) (rel_target relationship)
                  else entityGraph)
           (objSet entityGraph (ent_name entity) []) (ent_fields entity)"

definition buildRelationshipGraph :: "DataModel \<Rightarrow> (string \<times> string list) list" where
  "buildRelationshipGraph dataModel = foldl addEntityToGraph [] (dm_entities dataModel)"

record DfsState =
  visited :: "string set"
  recursionStack :: "string set"

text \<open>\<^verbatim>\<open>entityGraph.get(node) || []\<close>\<close>

definition neighborsOf :: "(string \<times> string list) list \<Rightarrow> string \<Rightarrow> string list" where
  "neighborsOf entityGraph node = (case objGet entityGraph node of None \<Rightarrow> [] | Some ns \<Rightarrow> ns)"

text \<open>
  The measure of the search: the targets of the graph that are not yet visited, and then
  the neighbours still to be looked at.
\<close>

definition graphTargets :: "(string \<times> string list) list \<Rightarrow> string set" where
  "graphTargets entityGraph = (\<Union>ns \<in> snd ` set entityGraph. set ns)"

definition dfsUnvisited ::
  "(string \<times> string list) list \<times> string \<times> DfsState +
   (string \<times> string list) list \<times> string \<times> string list \<times> DfsState \<Rightarrow> nat" where
  "dfsUnvisited call =
     (case call of
        Inl (g, node, st) \<Rightarrow> card (graphTargets g - insert node (visited st))
      | Inr (g, node, ns, st) \<Rightarrow> card ((graphTargets g \<union> set ns) - visited st))"

definition dfsPending ::
  "(string \<times> string list) list \<times> string \<times> DfsState +
   (string \<times> string list) list \<times> string \<times> string list \<times> DfsState \<Rightarrow> nat" where
  "dfsPending call =
     (case call of
        Inl (g, node, st) \<Rightarrow> Suc (length (neighborsOf g node))
      | Inr (g, node, ns, st) \<Rightarrow> length ns)"

text \<open>
  The closure \<^verbatim>\<open>hasCycle\<close> with the two sets it mutates passed in and out.
  \<open>visitNeighbors\<close> is its \<^verbatim>\<open>for\<close> loop over the neighbours of \<open>node\<close>: it returns
  \<^verbatim>\<open>true\<close> from inside the loop without removing \<open>node\<close> from the recursion stack, and
  removes it only when the loop runs to its end.
\<close>

function hasCycle :: "(string \<times> string list) list \<Rightarrow> string \<Rightarrow> DfsState \<Rightarrow> bool \<times> DfsState"
  and visitNeighbors ::
    "(string \<times> string list) list \<Rightarrow> string \<Rightarrow> string list \<Rightarrow> DfsState \<Rightarrow> bool \<times> DfsState"
where
  "hasCycle entityGraph node st =
     visitNeighbors entityGraph node (neighborsOf entityGraph node)
       (st\<lparr>visited := insert node (visited st),
           recursionStack := insert node (recursionStack st)\<rparr>)"
| "visitNeighbors entityGraph node [] st =
     (False, st\<lparr>recursionStack := recursionStack st - {node}\<rparr>)"
| "visitNeighbors entityGraph node (neighbor # rest) st =
     (if neighbor \<notin> visited st then
        (let (found, st') = hasCycle entityGraph neighbor st
         in if found then (True, st') else visitNeighbors entityGraph node rest st')
      else if neighbor \<in> recursionStack st then (True, st)
      else visitNeighbors entityGraph node rest st)"
  by pat_completeness auto


termination
proof (relation "dfsUnvisited <*mlex*> measure dfsPending")
  show "wf (dfsUnvisited <*mlex*> measure dfsPending)"
    by (simp add: wf_mlex)
next
  fix entityGraph :: "(string \<times> string list) list" and node st
  have "set (neighborsOf entityGraph node) \<subseteq> graphTargets entityGraph"
  proof (cases "map_of entityGraph node")
    case None
    then show ?thesis by (simp add: neighborsOf_def objGet_def)
  next
    case (Some ns)
    then have "(node, ns) \<in> set entityGraph" by (rule map_of_SomeD)
    then have "set ns \<subseteq> graphTargets entityGraph"
      by (force simp: graphTargets_def)
    then show ?thesis using Some by (simp add: neighborsOf_def objGet_def)
  qed
  then have "graphTargets entityGraph \<union> set (neighborsOf entityGraph node) = graphTargets entityGraph"
    by blast
  then show "(Inr (entityGraph, node, neighborsOf entityGraph node,
               st\<lparr>visited := insert node (visited st),
                   recursionStack := insert node (recursionStack st)\<rparr>),
              Inl (entityGraph, node, st)) \<in> dfsUnvisited <*mlex*> measure dfsPending"
    by (intro mlex_leq) (simp_all add: dfsUnvisited_def dfsPending_def)
next
  fix entityGraph :: "(string \<times> string list) list" and node neighbor rest and st :: DfsState
  assume unvisited: "neighbor \<notin> visited st"
  have fin: "finite ((graphTargets entityGraph \<union> set (neighbor # rest)) - visited st)"
    by (simp add: graphTargets_def)
  have "graphTargets entityGraph - insert neighbor (visited st)
        \<subset> (graphTargets entityGraph \<union> set (neighbor # rest)) - visited st"
    using unvisited by auto
  then show "(Inl (entityGraph, neighbor, st), Inr (entityGraph, node, neighbor # rest, st))
             \<in> dfsUnvisited <*mlex*> measure dfsPending"
    using fin by (intro mlex_less) (simp add: dfsUnvisited_def psubset_card_mono)
next
  fix entityGraph :: "(string \<times> string list) list" and node neighbor rest and st :: DfsState
    and x found st'
  assume call: "x = hasCycle entityGraph neighbor st" "(found, st') = x"
    and dom: "hasCycle_visitNeighbors_dom (Inl (entityGraph, neighbor, st))"
  have mono:
    "hasCycle_visitNeighbors_dom (Inl (g, n, s)) \<Longrightarrow> visited s \<subseteq> visited (snd (hasCycle g n s))"
    "hasCycle_visitNeighbors_dom (Inr (g, n, ns, s)) \<Longrightarrow>
       visited s \<subseteq> visited (snd (visitNeighbors g n ns s))" for g n ns s
  proof (induct rule: hasCycle_visitNeighbors.pinduct)
    case (1 g n s)
    then show ?case by (auto simp: hasCycle.psimps)
  next
    case (2 g n s)
    then show ?case by (simp add: visitNeighbors.psimps)
  next
    case (3 g n neighbor rest s)
    show ?case
    proof (cases "neighbor \<notin> visited s")
      case True
      obtain found s' where call: "hasCycle g neighbor s = (found, s')"
        by (cases "hasCycle g neighbor s")
      have first: "visited s \<subseteq> visited s'"
        using "3.hyps"(2)[OF True] call by simp
      show ?thesis
      proof (cases found)
        case True
        then show ?thesis using first call \<open>neighbor \<notin> visited s\<close> "3.hyps"(1)
          by (simp add: visitNeighbors.psimps)
      next
        case False
        have "visited s' \<subseteq> visited (snd (visitNeighbors g n rest s'))"
          using "3.hyps"(3)[OF \<open>neighbor \<notin> visited s\<close> refl call[symmetric] False] .
        then show ?thesis using first call False \<open>neighbor \<notin> visited s\<close> "3.hyps"(1)
          by (auto simp add: visitNeighbors.psimps)
      qed
    next
      case False
      then show ?thesis using "3.hyps"(1) "3.hyps"(4)
        by (auto simp add: visitNeighbors.psimps)
    qed
  qed
  have sub: "visited st \<subseteq> visited st'"
    using mono(1)[OF dom] call by (metis snd_conv)
  have fin: "finite ((graphTargets entityGraph \<union> set (neighbor # rest)) - visited st)"
    by (simp add: graphTargets_def)
  have "(graphTargets entityGraph \<union> set rest) - visited st'
        \<subseteq> (graphTargets entityGraph \<union> set (neighbor # rest)) - visited st"
    using sub by auto
  then show "(Inr (entityGraph, node, rest, st'), Inr (entityGraph, node, neighbor # rest, st))
             \<in> dfsUnvisited <*mlex*> measure dfsPending"
    using fin by (intro mlex_leq) (simp_all add: dfsUnvisited_def dfsPending_def card_mono)
next
  fix entityGraph :: "(string \<times> string list) list" and node neighbor rest and st :: DfsState
  have fin: "finite ((graphTargets entityGraph \<union> set (neighbor # rest)) - visited st)"
    by (simp add: graphTargets_def)
  have "(graphTargets entityGraph \<union> set rest) - visited st
        \<subseteq> (graphTargets entityGraph \<union> set (neighbor # rest)) - visited st"
    by auto
  then show "(Inr (entityGraph, node, rest, st), Inr (entityGraph, node, neighbor # rest, st))
             \<in> dfsUnvisited <*mlex*> measure dfsPending"
    using fin by (intro mlex_leq) (simp_all add: dfsUnvisited_def dfsPending_def card_mono)
qed


text \<open>The equation of \<open>hasCycle\<close> is unfolded only on request.\<close>

declare hasCycle.simps [simp del]

definition circularWarning :: "string \<Rightarrow> string" where
  "circularWarning entityName =
     ''Potential circular relationship detected involving entity '' @ entityName"

definition checkCircularRelationships :: "DataModel \<Rightarrow> ValidationResult \<Rightarrow> ValidationResult" where
  "checkCircularRelationships dataModel result =
     (let entityGraph = buildRelationshipGraph dataModel
      in snd (foldl (\<lambda>(st, result) entity.
                       if ent_name entity \<notin> visited st
                       then (let (found, st') = hasCycle entityGraph (ent_name entity) st
                             in if found
                                then (st', pushWarning (circularWarning (ent_name entity)) result)
                                else (st', result))
                       else (st, result))
                    (\<lparr>visited = {}, recursionStack = {}\<rparr>, result)
                    (dm_entities dataModel)))"

subsection \<open>validateBusinessRules of the command, and validateDataModel\<close>

text \<open>\<^verbatim>\<open>validateRelationshipLogic\<close> has an empty body.\<close>

definition validateRelationshipLogic :: "DataModel \<Rightarrow> ValidationResult \<Rightarrow> ValidationResult" where
  "validateRelationshipLogic dataModel result = result"

definition ValidateCommand_validateBusinessRules ::
  "DataModel \<Rightarrow> ValidationResult \<Rightarrow> ValidationResult" where
  "ValidateCommand_validateBusinessRules dataModel result =
     validateRelationshipLogic dataModel (checkCircularRelationships dataModel result)"

text \<open>
  The data that \<^verbatim>\<open>JSON.parse\<close> or \<^verbatim>\<open>yaml.parse\<close> returns, with the verdict of the structural
  schema on it: a document that fails the schema, with the text the parser builds from
  the schema errors (\<^verbatim>\<open>instancePath: message\<close> joined by commas, or
  \<^verbatim>\<open>Unknown validation error\<close>), or a document that passes it, which is a data model of
  the types above. The schema validator itself is outside this model.
\<close>

datatype Document =
  NotConforming string
  | Conforming DataModel

text \<open>
  \<^verbatim>\<open>validateAndParse\<close>: the structural schema first, then the business rules, whose
  exception leaves the function.
\<close>

fun validateAndParse :: "Document \<Rightarrow> Exception + DataModel" where
  "validateAndParse (NotConforming schemaErrors) =
     Inl (Error (''Data model validation failed: '' @ schemaErrors))"
| "validateAndParse (Conforming data) =
     (case DataModelParser_validateBusinessRules data of
        Inl e \<Rightarrow> Inl e
      | Inr _ \<Rightarrow> Inr data)"

text \<open>
  \<^verbatim>\<open>parseFromJson\<close>, given the outcome of \<^verbatim>\<open>JSON.parse\<close> on the text: only the parse is
  inside the \<^verbatim>\<open>try\<close>; \<^verbatim>\<open>validateAndParse\<close> runs after it.
\<close>

definition parseFromJson :: "Exception + Document \<Rightarrow> Exception + DataModel" where
  "parseFromJson parsed =
     (case parsed of
        Inl error \<Rightarrow> Inl (Error (''Invalid JSON: '' @ errorText error))
      | Inr data \<Rightarrow> validateAndParse data)"

text \<open>
  \<^verbatim>\<open>parseFromYaml\<close>, given the outcome of \<^verbatim>\<open>yaml.parse\<close> on the text: the \<^verbatim>\<open>try\<close> encloses
  the parse and \<^verbatim>\<open>validateAndParse\<close>, so whatever either throws, the errors of the schema
  and of the business rules included, is thrown again as \<^verbatim>\<open>Invalid YAML: ...\<close>.
\<close>

definition parseFromYaml :: "Exception + Document \<Rightarrow> Exception + DataModel" where
  "parseFromYaml parsed =
     (case (case parsed of Inl error \<Rightarrow> Inl error | Inr data \<Rightarrow> validateAndParse data) of
        Inl error \<Rightarrow> Inl (Error (''Invalid YAML: '' @ errorText error))
      | Inr dataModel \<Rightarrow> Inr dataModel)"

text \<open>
  What is at the path given to \<^verbatim>\<open>parseFromFile\<close> and \<^verbatim>\<open>validateDataModel\<close>: no file; a
  file that cannot be read, with the exception of \<^verbatim>\<open>fs.readFile\<close>; or a file, with its
  extension in lower case and the outcome of parsing its text (by \<^verbatim>\<open>JSON.parse\<close> or
  \<^verbatim>\<open>yaml.parse\<close>, as the extension selects). Reading and parsing text are outside this
  model.
\<close>

datatype ModelFile =
  FileNotFound string
  | Unreadable Exception
  | FileContent string "Exception + Document"

fun parseFromFile :: "ModelFile \<Rightarrow> Exception + DataModel" where
  "parseFromFile (FileNotFound filePath) =
     Inl (Error (''Data model file not found: '' @ filePath))"
| "parseFromFile (Unreadable error) = Inl error"
| "parseFromFile (FileContent ext parsed) =
     (if ext = ''.json'' then parseFromJson parsed
      else if ext = ''.yaml'' \<or> ext = ''.yml'' then parseFromYaml parsed
      else Inl (Error (''Unsupported file format: '' @ ext)))"

text \<open>
  \<^verbatim>\<open>validateDataModel\<close>: a missing file is reported without calling the parser; every
  exception of the parser is caught and reported; the checks of the command run on the
  model that the parser returns. The construction of the parser, which reads the
  structural schema from a file of the package, is taken to succeed; it is inside the
  same \<^verbatim>\<open>try\<close>.
\<close>

definition validateDataModel :: "ModelFile \<Rightarrow> bool \<Rightarrow> ValidationResult \<Rightarrow> ValidationResult" where
  "validateDataModel file strict result =
     (case file of
        FileNotFound modelPath \<Rightarrow> pushError (''Data model file not found: '' @ modelPath) result
      | _ \<Rightarrow>
          (case parseFromFile file of
             Inl error \<Rightarrow> pushError (''Data model validation failed: '' @ errorText error) result
           | Inr dataModel \<Rightarrow>
               (let result = validateEntityRelationships dataModel result;
                    result = validateEntityFields dataModel strict result;
                    result = validateNamingConventions dataModel strict result;
                    result = ValidateCommand_validateBusinessRules dataModel result
                in result\<lparr>valid := (length (errors result) = 0)\<rparr>)))"

text \<open>The object \<^verbatim>\<open>results.model\<close> that \<^verbatim>\<open>execute\<close> passes to \<^verbatim>\<open>validateDataModel\<close>.\<close>

definition newResult :: ValidationResult where
  "newResult = \<lparr>valid = False, errors = [], warnings = []\<rparr>"

section \<open>Schemas of the specification documents\<close>

text \<open>
  An entry of \<^verbatim>\<open>components.schemas\<close>: an object schema with properties and a list of
  required names, or a string schema with its enum values.
\<close>

record Schema =
  s_type :: string
  s_description :: "string option"
  s_properties :: "(string \<times> Property) list option"
  s_required :: "string list option"
  s_enum :: "string list option"

definition objectSchema :: "string option \<Rightarrow> Schema" where
  "objectSchema description =
     \<lparr>s_type = ''object'', s_description = description, s_properties = Some [],
      s_required = Some [], s_enum = None\<rparr>"

text \<open>\<^verbatim>\<open>schema.properties[name] = property\<close>\<close>

definition setSchemaProperty :: "string \<Rightarrow> Property \<Rightarrow> Schema \<Rightarrow> Schema" where
  "setSchemaProperty name property schema =
     schema\<lparr>s_properties := Some (objSet (case s_properties schema of None \<Rightarrow> [] | Some ps \<Rightarrow> ps)
                                         name property)\<rparr>"

text \<open>\<^verbatim>\<open>schema.required.push(name)\<close>\<close>

definition pushRequired :: "string \<Rightarrow> Schema \<Rightarrow> Schema" where
  "pushRequired name schema =
     schema\<lparr>s_required := Some ((case s_required schema of None \<Rightarrow> [] | Some rs \<Rightarrow> rs) @ [name])\<rparr>"

definition schemaProperties :: "Schema \<Rightarrow> (string \<times> Property) list" where
  "schemaProperties schema = (case s_properties schema of None \<Rightarrow> [] | Some ps \<Rightarrow> ps)"

text \<open>The two timestamp properties that both entity schemas add.\<close>

definition timestampProperty :: "string \<Rightarrow> Property" where
  "timestampProperty description =
     set_format ''date-time'' (set_type ''string'' (newProperty (Some description)))"

definition addTimestamps :: "Entity \<Rightarrow> Schema \<Rightarrow> Schema" where
  "addTimestamps entity schema =
     (if truthyBool (ent_timestamps entity)
      then setSchemaProperty ''updatedAt'' (timestampProperty ''Last update timestamp'')
             (setSchemaProperty ''createdAt'' (timestampProperty ''Creation timestamp'') schema)
      else schema)"

section \<open>OpenAPI schemas (OpenAPIGenerator)\<close>

definition entityToSchema :: "Entity \<Rightarrow> Schema" where
  "entityToSchema entity =
     (let schema = objectSchema (ent_description entity);
          schema =
            foldl (\<lambda>schema field.
                     if fld_relationship field \<noteq> None then schema
                     else (let schema = setSchemaProperty (fld_name field)
                                          (dataTypeToOpenAPIProperty (fld_dataType field)) schema
                           in if truthyBool (dt_required (fld_dataType field))
                              then pushRequired (fld_name field) schema
                              else schema))
                  schema (ent_fields entity)
      in addTimestamps entity schema)"

definition entityToCreateDto :: "Entity \<Rightarrow> Schema" where
  "entityToCreateDto entity =
     (let schema = objectSchema (Some (''Data transfer object for creating '' @ ent_name entity))
      in foldl (\<lambda>schema field.
                  if truthyBool (fld_isGenerated field) \<or> truthyBool (fld_isPrimaryKey field)
                     \<or> fld_relationship field \<noteq> None
                  then schema
                  else (let schema = setSchemaProperty (fld_name field)
                                       (dataTypeToOpenAPIProperty (fld_dataType field)) schema
                        in if truthyBool (dt_required (fld_dataType field))
                           then pushRequired (fld_name field) schema
                           else schema))
               schema (ent_fields entity))"

definition entityToUpdateDto :: "Entity \<Rightarrow> Schema" where
  "entityToUpdateDto entity =
     (let createDto = entityToCreateDto entity
      in createDto\<lparr>s_description :=
                      Some (''Data transfer object for updating '' @ ent_name entity),
                    s_required := Some []\<rparr>)"

section \<open>AsyncAPI document (AsyncAPIGenerator)\<close>

definition entityToAsyncAPISchema :: "Entity \<Rightarrow> Schema" where
  "entityToAsyncAPISchema entity =
     (let schema = objectSchema (ent_description entity);
          schema =
            foldl (\<lambda>schema field.
                     if fld_relationship field \<noteq> None then schema
                     else (let schema = setSchemaProperty (fld_name field)
                                          (dataTypeToAsyncAPIProperty (fld_dataType field)) schema
                           in if truthyBool (dt_required (fld_dataType field))
                              then pushRequired (fld_name field) schema
                              else schema))
                  schema (ent_fields entity)
      in addTimestamps entity schema)"

definition refProperty :: "string \<Rightarrow> Property" where
  "refProperty target = set_ref target (newProperty None)"

definition generateEventSchema :: "Entity \<Rightarrow> Schema" where
  "generateEventSchema entity =
     \<lparr>s_type = ''object'',
      s_description = Some (''Event payload for '' @ ent_name entity @ '' operations''),
      s_properties =
        Some [(''metadata'', refProperty ''#/components/schemas/EventMetadata''),
              (''data'', refProperty (''#/components/schemas/'' @ ent_name entity)),
              (''previousData'',
               set_ref (''#/components/schemas/'' @ ent_name entity)
                 (newProperty (Some ''Previous state for update/delete events'')))],
      s_required = Some [''metadata'', ''data''],
      s_enum = None\<rparr>"

definition describedString :: "string option \<Rightarrow> string \<Rightarrow> Property" where
  "describedString format description =
     whenTruthyString format set_format (set_type ''string'' (newProperty (Some description)))"

definition eventMetadataSchema :: Schema where
  "eventMetadataSchema =
     \<lparr>s_type = ''object'', s_description = None,
      s_properties =
        Some [(''eventId'', describedString (Some ''uuid'') ''Unique event identifier''),
              (''eventType'', describedString None ''Type of the event''),
              (''timestamp'', describedString (Some ''date-time'') ''Event timestamp''),
              (''version'', describedString None ''Event schema version''),
              (''source'', describedString None ''Event source service''),
              (''correlationId'', describedString (Some ''uuid'') ''Correlation ID for tracing'')],
      s_required = Some [''eventId'', ''eventType'', ''timestamp'', ''version'', ''source''],
      s_enum = None\<rparr>"

definition enumSchema :: "EnumDefinition \<Rightarrow> Schema" where
  "enumSchema enumDef =
     \<lparr>s_type = ''string'', s_description = enum_description enumDef, s_properties = None,
      s_required = None, s_enum = Some (enum_values enumDef)\<rparr>"

text \<open>
  A channel has a description and one operation, under \<^verbatim>\<open>publish\<close> or \<^verbatim>\<open>subscribe\<close>; the
  operation refers to its message by a \<^verbatim>\<open>$ref\<close>.
\<close>

record Operation =
  op_operationId :: string
  op_summary :: string
  op_message :: string

record Channel =
  ch_description :: string
  ch_publish :: "Operation option"
  ch_subscribe :: "Operation option"

text \<open>
  A message definition. The payload of an entity message is a \<^verbatim>\<open>$ref\<close> to the event
  schema; the health-check message carries a constant inline schema, whose content is not
  part of this model, and the constant \<^verbatim>\<open>examples\<close> member of a created message is left
  out.
\<close>

datatype Payload = PayloadRef string | PayloadInline

record Message =
  msg_name :: string
  msg_title :: string
  msg_summary :: string
  msg_contentType :: string
  msg_traits :: "string list option"
  msg_payload :: Payload

record Info =
  info_title :: string
  info_version :: string
  info_description :: "string option"
  info_contact :: "string option"

record Server =
  srv_url :: string
  srv_protocol :: string
  srv_description :: string

record AsyncAPISpec =
  spec_asyncapi :: string
  spec_info :: Info
  spec_servers :: "(string \<times> Server) list"
  spec_channels :: "(string \<times> Channel) list"
  spec_messages :: "(string \<times> Message) list"
  spec_schemas :: "(string \<times> Schema) list"
  spec_messageTraits :: "string list option"

record Project =
  prj_name :: string
  prj_description :: "string option"
  prj_version :: string
  prj_author :: "string option"

record Features =
  ft_authentication :: "bool option"
  ft_testing :: "bool option"

record ProjectConfig =
  cfg_project :: Project
  cfg_features :: Features

text \<open>\<^verbatim>\<open>String.prototype.toLowerCase\<close> on the characters a name can consist of.\<close>

definition toLowerCase :: "string \<Rightarrow> string" where
  "toLowerCase s = map (\<lambda>c. if isUpper c then char_of ((of_char c :: nat) + 32) else c) s"

definition generateServers :: "(string \<times> Server) list" where
  "generateServers =
     [(''development'', \<lparr>srv_url = ''localhost:5672'', srv_protocol = ''amqp'',
                          srv_description = ''Development RabbitMQ server''\<rparr>),
      (''production'', \<lparr>srv_url = ''message-broker.example.com:5672'', srv_protocol = ''amqp'',
                         srv_description = ''Production RabbitMQ server''\<rparr>),
      (''redis'', \<lparr>srv_url = ''localhost:6379'', srv_protocol = ''redis'',
                    srv_description = ''Redis server for real-time events''\<rparr>)]"

definition setSchema :: "string \<Rightarrow> Schema \<Rightarrow> AsyncAPISpec \<Rightarrow> AsyncAPISpec" where
  "setSchema name schema spec = spec\<lparr>spec_schemas := objSet (spec_schemas spec) name schema\<rparr>"

definition setChannel :: "string \<Rightarrow> Channel \<Rightarrow> AsyncAPISpec \<Rightarrow> AsyncAPISpec" where
  "setChannel name channel spec =
     spec\<lparr>spec_channels := objSet (spec_channels spec) name channel\<rparr>"

definition setMessage :: "string \<Rightarrow> Message \<Rightarrow> AsyncAPISpec \<Rightarrow> AsyncAPISpec" where
  "setMessage name message spec =
     spec\<lparr>spec_messages := objSet (spec_messages spec) name message\<rparr>"

definition generateSchemas :: "DataModel \<Rightarrow> AsyncAPISpec \<Rightarrow> AsyncAPISpec" where
  "generateSchemas dataModel spec =
     (let spec = foldl (\<lambda>spec entity.
                          setSchema (ent_name entity @ ''Event'') (generateEventSchema entity)
                            (setSchema (ent_name entity) (entityToAsyncAPISchema entity) spec))
                       spec (dm_entities dataModel);
          spec = (case dm_enums dataModel of
                    None \<Rightarrow> spec
                  | Some enums \<Rightarrow>
                      foldl (\<lambda>spec enumDef. setSchema (enum_name enumDef) (enumSchema enumDef) spec)
                            spec enums)
      in setSchema ''EventMetadata'' eventMetadataSchema spec)"

definition entityMessage :: "string \<Rightarrow> string \<Rightarrow> string \<Rightarrow> Message" where
  "entityMessage entityName event eventLower =
     \<lparr>msg_name = entityName @ event,
      msg_title = entityName @ '' '' @ event,
      msg_summary = ''A '' @ entityName @ '' was '' @ eventLower,
      msg_contentType = ''application/json'',
      msg_traits = Some [''#/components/messageTraits/commonHeaders''],
      msg_payload = PayloadRef (''#/components/schemas/'' @ entityName @ ''Event'')\<rparr>"

definition generateMessages :: "Entity \<Rightarrow> AsyncAPISpec \<Rightarrow> AsyncAPISpec" where
  "generateMessages entity spec =
     (let entityName = ent_name entity;
          spec = setMessage (entityName @ ''CreatedMessage'')
                   (entityMessage entityName ''Created'' ''created'') spec;
          spec = setMessage (entityName @ ''UpdatedMessage'')
                   (entityMessage entityName ''Updated'' ''updated'') spec;
          spec = setMessage (entityName @ ''DeletedMessage'')
                   (entityMessage entityName ''Deleted'' ''deleted'') spec
      in spec)"

definition generateSystemMessages :: "AsyncAPISpec \<Rightarrow> AsyncAPISpec" where
  "generateSystemMessages spec =
     setMessage ''HealthCheckMessage''
       \<lparr>msg_name = ''HealthCheck'', msg_title = ''System Health Check'',
        msg_summary = ''System health status information'',
        msg_contentType = ''application/json'', msg_traits = None,
        msg_payload = PayloadInline\<rparr> spec"

definition entityChannel :: "Entity \<Rightarrow> string \<Rightarrow> string \<Rightarrow> Channel" where
  "entityChannel entity event eventLower =
     \<lparr>ch_description = ent_name entity @ '' '' @ eventLower @ '' events'',
      ch_publish =
        Some \<lparr>op_operationId = ''on'' @ ent_name entity @ event,
               op_summary = ''Handle '' @ ent_name entity @ '' '' @ eventLower @ '' event'',
               op_message = ''#/components/messages/'' @ ent_name entity @ event @ ''Message''\<rparr>,
      ch_subscribe = None\<rparr>"

definition generateEntityChannels :: "AsyncAPISpec \<Rightarrow> Entity \<Rightarrow> AsyncAPISpec" where
  "generateEntityChannels spec entity =
     (let entityName = toLowerCase (ent_name entity);
          spec = setChannel (entityName @ ''.created'')
                   (entityChannel entity ''Created'' ''created'') spec;
          spec = setChannel (entityName @ ''.updated'')
                   (entityChannel entity ''Updated'' ''updated'') spec;
          spec = setChannel (entityName @ ''.deleted'')
                   (entityChannel entity ''Deleted'' ''deleted'') spec
      in generateMessages entity spec)"

definition generateChannels :: "DataModel \<Rightarrow> AsyncAPISpec \<Rightarrow> AsyncAPISpec" where
  "generateChannels dataModel spec =
     (let spec = foldl generateEntityChannels spec (dm_entities dataModel);
          spec = setChannel ''system.health''
                   \<lparr>ch_description = ''System health check events'',
                    ch_publish = None,
                    ch_subscribe =
                      Some \<lparr>op_operationId = ''publishHealthCheck'',
                             op_summary = ''Publish system health status'',
                             op_message = ''#/components/messages/HealthCheckMessage''\<rparr>\<rparr>
                   spec
      in generateSystemMessages spec)"

text \<open>The key of the one message trait; the constant header schema under it is left out.\<close>

definition generateMessageTraits :: "AsyncAPISpec \<Rightarrow> AsyncAPISpec" where
  "generateMessageTraits spec = spec\<lparr>spec_messageTraits := Some [''commonHeaders'']\<rparr>"

definition generateAsyncAPISpec :: "ProjectConfig \<Rightarrow> DataModel \<Rightarrow> AsyncAPISpec" where
  "generateAsyncAPISpec config dataModel =
     (let project = cfg_project config;
          spec = \<lparr>spec_asyncapi = ''2.6.0'',
                  spec_info = \<lparr>info_title = prj_name project @ '' Events'',
                               info_version = prj_version project,
                               info_description =
                                 Some (''Event-driven API for '' @ prj_name project),
                               info_contact = None\<rparr>,
                  spec_servers = generateServers,
                  spec_channels = [], spec_messages = [], spec_schemas = [],
                  spec_messageTraits = None\<rparr>;
          spec = (if truthyString (prj_author project)
                  then spec\<lparr>spec_info := (spec_info spec)\<lparr>info_contact := prj_author project\<rparr>\<rparr>
                  else spec);
          spec = generateSchemas dataModel spec;
          spec = generateChannels dataModel spec;
          spec = generateMessageTraits spec
      in spec)"

section \<open>OpenAPI document (OpenAPIGenerator.generateOpenAPISpec)\<close>

text \<open>
  The members of the document. A response is either a reference
  \<^verbatim>\<open>{ $ref: ... }\<close> or a description with an optional \<^verbatim>\<open>content\<close> that maps a media
  type to \<^verbatim>\<open>{ schema: ... }\<close>; the inline schemas of parameters and responses are
  property objects. \<^verbatim>\<open>info.contact\<close> is \<^verbatim>\<open>{ name: ... }\<close> and is kept as the name.
\<close>

record MediaType =
  mt_schema :: Property

datatype Response = ResponseRef string | Response string "(string \<times> MediaType) list option"

record Parameter =
  par_name :: string
  par_in :: string
  par_required :: "bool option"
  par_description :: string
  par_schema :: Property

record RequestBody =
  rb_required :: bool
  rb_content :: "(string \<times> MediaType) list"

record OpenAPIOperation =
  oop_tags :: "string list"
  oop_summary :: string
  oop_description :: string
  oop_parameters :: "Parameter list option"
  oop_requestBody :: "RequestBody option"
  oop_responses :: "(string \<times> Response) list"

record PathItem =
  path_get :: "OpenAPIOperation option"
  path_post :: "OpenAPIOperation option"
  path_put :: "OpenAPIOperation option"
  path_delete :: "OpenAPIOperation option"

record SecurityScheme =
  sec_type :: string
  sec_scheme :: string
  sec_bearerFormat :: string

record Components =
  comp_schemas :: "(string \<times> Schema) list"
  comp_responses :: "(string \<times> Response) list"
  comp_securitySchemes :: "(string \<times> SecurityScheme) list option"

record Tag =
  tag_name :: string
  tag_description :: string

record OpenAPIInfo =
  oinfo_title :: string
  oinfo_description :: "string option"
  oinfo_version :: string
  oinfo_contact :: "string option"

record OpenAPIServer =
  osrv_url :: string
  osrv_description :: string

record OpenAPISpec =
  oas_openapi :: string
  oas_info :: OpenAPIInfo
  oas_servers :: "OpenAPIServer list"
  oas_paths :: "(string \<times> PathItem) list"
  oas_components :: Components
  oas_security :: "(string \<times> string list) list list option"
  oas_tags :: "Tag list"

text \<open>\<^verbatim>\<open>{ 'application/json': { schema: schema } }\<close>\<close>

definition jsonContent :: "Property \<Rightarrow> (string \<times> MediaType) list" where
  "jsonContent schema = [(''application/json'', \<lparr>mt_schema = schema\<rparr>)]"

text \<open>\<^verbatim>\<open>spec.components.schemas[name] = schema\<close>\<close>

definition setComponentSchema :: "string \<Rightarrow> Schema \<Rightarrow> OpenAPISpec \<Rightarrow> OpenAPISpec" where
  "setComponentSchema name schema spec =
     spec\<lparr>oas_components :=
            (oas_components spec)
              \<lparr>comp_schemas := objSet (comp_schemas (oas_components spec)) name schema\<rparr>\<rparr>"

definition integerProperty :: "rat option \<Rightarrow> rat option \<Rightarrow> Property" where
  "integerProperty minimum maximum =
     whenDefined maximum set_maximum
       (whenDefined minimum set_minimum (set_type ''integer'' (newProperty None)))"

definition paginationMetaSchema :: Schema where
  "paginationMetaSchema =
     \<lparr>s_type = ''object'', s_description = None,
      s_properties =
        Some [(''page'', integerProperty (Some 1) None),
              (''limit'', integerProperty (Some 1) (Some 100)),
              (''total'', integerProperty (Some 0) None),
              (''totalPages'', integerProperty (Some 0) None)],
      s_required = Some [''page'', ''limit'', ''total'', ''totalPages''],
      s_enum = None\<rparr>"

definition errorResponseSchema :: Schema where
  "errorResponseSchema =
     \<lparr>s_type = ''object'', s_description = None,
      s_properties =
        Some [(''statusCode'', set_type ''integer'' (newProperty None)),
              (''message'', set_type ''string'' (newProperty None)),
              (''error'', set_type ''string'' (newProperty None)),
              (''timestamp'', set_format ''date-time'' (set_type ''string'' (newProperty None))),
              (''path'', set_type ''string'' (newProperty None))],
      s_required = Some [''statusCode'', ''message'', ''timestamp'', ''path''],
      s_enum = None\<rparr>"

definition OpenAPIGenerator_generateSchemas :: "DataModel \<Rightarrow> OpenAPISpec \<Rightarrow> OpenAPISpec" where
  "OpenAPIGenerator_generateSchemas dataModel spec =
     (let spec =
            foldl (\<lambda>spec entity.
                     (let spec = setComponentSchema (ent_name entity) (entityToSchema entity) spec;
                          spec = setComponentSchema (''Create'' @ ent_name entity @ ''Dto'')
                                   (entityToCreateDto entity) spec
                      in setComponentSchema (''Update'' @ ent_name entity @ ''Dto'')
                           (entityToUpdateDto entity) spec))
                  spec (dm_entities dataModel);
          spec = (case dm_enums dataModel of
                    None \<Rightarrow> spec
                  | Some enums \<Rightarrow>
                      foldl (\<lambda>spec enumDef.
                               setComponentSchema (enum_name enumDef) (enumSchema enumDef) spec)
                            spec enums);
          spec = setComponentSchema ''PaginationMeta'' paginationMetaSchema spec
      in setComponentSchema ''ErrorResponse'' errorResponseSchema spec)"

text \<open>The parameter \<^verbatim>\<open>id\<close> of the operations on one entity.\<close>

definition idParameter :: "Entity \<Rightarrow> Parameter" where
  "idParameter entity =
     \<lparr>par_name = ''id'', par_in = ''path'', par_required = Some True,
      par_description = ent_name entity @ '' ID'',
      par_schema = set_type ''string'' (newProperty None)\<rparr>"

definition entityRef :: "Entity \<Rightarrow> Property" where
  "entityRef entity = refProperty (''#/components/schemas/'' @ ent_name entity)"

definition generateListOperation :: "Entity \<Rightarrow> OpenAPIOperation" where
  "generateListOperation entity =
     \<lparr>oop_tags = [ent_name entity],
      oop_summary = ''List '' @ ent_name entity @ ''s'',
      oop_description = ''Retrieve a paginated list of '' @ ent_name entity @ ''s'',
      oop_parameters =
        Some [\<lparr>par_name = ''page'', par_in = ''query'', par_required = None,
                par_description = ''Page number'',
                par_schema = set_default (JNumber 1) (integerProperty (Some 1) None)\<rparr>,
              \<lparr>par_name = ''limit'', par_in = ''query'', par_required = None,
                par_description = ''Number of items per page'',
                par_schema = set_default (JNumber 10) (integerProperty (Some 1) (Some 100))\<rparr>,
              \<lparr>par_name = ''sort'', par_in = ''query'', par_required = None,
                par_description =
                  ''Sort field and direction (e.g., '' @ [CHR 0x22] @ ''name:asc'' @ [CHR 0x22]
                  @ '')'',
                par_schema = set_type ''string'' (newProperty None)\<rparr>],
      oop_requestBody = None,
      oop_responses =
        [(''200'',
          Response ''Successful response''
            (Some (jsonContent
               (set_properties
                  [(''data'', set_items (entityRef entity) (set_type ''array'' (newProperty None))),
                   (''meta'', refProperty ''#/components/schemas/PaginationMeta'')]
                  (set_type ''object'' (newProperty None)))))),
         (''400'', ResponseRef ''#/components/responses/BadRequest''),
         (''500'', ResponseRef ''#/components/responses/InternalServerError'')]\<rparr>"

definition generateCreateOperation :: "Entity \<Rightarrow> OpenAPIOperation" where
  "generateCreateOperation entity =
     \<lparr>oop_tags = [ent_name entity],
      oop_summary = ''Create '' @ ent_name entity,
      oop_description = ''Create a new '' @ ent_name entity,
      oop_parameters = None,
      oop_requestBody =
        Some \<lparr>rb_required = True,
               rb_content =
                 jsonContent
                   (refProperty (''#/components/schemas/Create'' @ ent_name entity @ ''Dto''))\<rparr>,
      oop_responses =
        [(''201'', Response ''Created successfully'' (Some (jsonContent (entityRef entity)))),
         (''400'', ResponseRef ''#/components/responses/BadRequest''),
         (''500'', ResponseRef ''#/components/responses/InternalServerError'')]\<rparr>"

definition generateGetOperation :: "Entity \<Rightarrow> OpenAPIOperation" where
  "generateGetOperation entity =
     \<lparr>oop_tags = [ent_name entity],
      oop_summary = ''Get '' @ ent_name entity,
      oop_description = ''Retrieve a '' @ ent_name entity @ '' by ID'',
      oop_parameters = Some [idParameter entity],
      oop_requestBody = None,
      oop_responses =
        [(''200'', Response ''Successful response'' (Some (jsonContent (entityRef entity)))),
         (''404'', ResponseRef ''#/components/responses/NotFound''),
         (''500'', ResponseRef ''#/components/responses/InternalServerError'')]\<rparr>"

definition generateUpdateOperation :: "Entity \<Rightarrow> OpenAPIOperation" where
  "generateUpdateOperation entity =
     \<lparr>oop_tags = [ent_name entity],
      oop_summary = ''Update '' @ ent_name entity,
      oop_description = ''Update a '' @ ent_name entity @ '' by ID'',
      oop_parameters = Some [idParameter entity],
      oop_requestBody =
        Some \<lparr>rb_required = True,
               rb_content =
                 jsonContent
                   (refProperty (''#/components/schemas/Update'' @ ent_name entity @ ''Dto''))\<rparr>,
      oop_responses =
        [(''200'', Response ''Updated successfully'' (Some (jsonContent (entityRef entity)))),
         (''400'', ResponseRef ''#/components/responses/BadRequest''),
         (''404'', ResponseRef ''#/components/responses/NotFound''),
         (''500'', ResponseRef ''#/components/responses/InternalServerError'')]\<rparr>"

definition generateDeleteOperation :: "Entity \<Rightarrow> OpenAPIOperation" where
  "generateDeleteOperation entity =
     \<lparr>oop_tags = [ent_name entity],
      oop_summary = ''Delete '' @ ent_name entity,
      oop_description = ''Delete a '' @ ent_name entity @ '' by ID'',
      oop_parameters = Some [idParameter entity],
      oop_requestBody = None,
      oop_responses =
        [(''204'', Response ''Deleted successfully'' None),
         (''404'', ResponseRef ''#/components/responses/NotFound''),
         (''500'', ResponseRef ''#/components/responses/InternalServerError'')]\<rparr>"

text \<open>\<^verbatim>\<open>spec.paths[path] = item\<close>\<close>

definition setPath :: "string \<Rightarrow> PathItem \<Rightarrow> OpenAPISpec \<Rightarrow> OpenAPISpec" where
  "setPath path item spec = spec\<lparr>oas_paths := objSet (oas_paths spec) path item\<rparr>"

definition generatePaths :: "DataModel \<Rightarrow> OpenAPISpec \<Rightarrow> OpenAPISpec" where
  "generatePaths dataModel spec =
     foldl (\<lambda>spec entity.
              (let entityPath = ''/'' @ toLowerCase (ent_name entity) @ ''s'';
                   entityIdPath = entityPath @ ''/{id}'';
                   spec = setPath entityPath
                            \<lparr>path_get = Some (generateListOperation entity),
                             path_post = Some (generateCreateOperation entity),
                             path_put = None, path_delete = None\<rparr> spec
               in setPath entityIdPath
                    \<lparr>path_get = Some (generateGetOperation entity),
                     path_post = None,
                     path_put = Some (generateUpdateOperation entity),
                     path_delete = Some (generateDeleteOperation entity)\<rparr> spec))
           spec (dm_entities dataModel)"

definition generateCommonResponses :: "(string \<times> Response) list" where
  "generateCommonResponses =
     [(''BadRequest'',
       Response ''Bad Request''
         (Some (jsonContent (refProperty ''#/components/schemas/ErrorResponse'')))),
      (''NotFound'',
       Response ''Resource not found''
         (Some (jsonContent (refProperty ''#/components/schemas/ErrorResponse'')))),
      (''InternalServerError'',
       Response ''Internal Server Error''
         (Some (jsonContent (refProperty ''#/components/schemas/ErrorResponse''))))]"

definition addSecuritySchemes :: "OpenAPISpec \<Rightarrow> OpenAPISpec" where
  "addSecuritySchemes spec =
     spec\<lparr>oas_components :=
            (oas_components spec)
              \<lparr>comp_securitySchemes :=
                 Some [(''bearerAuth'',
                        \<lparr>sec_type = ''http'', sec_scheme = ''bearer'',
                         sec_bearerFormat = ''JWT''\<rparr>)]\<rparr>,
          oas_security := Some [[(''bearerAuth'', [])]]\<rparr>"

definition generateTags :: "DataModel \<Rightarrow> OpenAPISpec \<Rightarrow> OpenAPISpec" where
  "generateTags dataModel spec =
     foldl (\<lambda>spec entity.
              spec\<lparr>oas_tags :=
                     oas_tags spec
                     @ [\<lparr>tag_name = ent_name entity,
                         tag_description =
                           orElse (ent_description entity) (ent_name entity @ '' operations'')\<rparr>]\<rparr>)
           spec (dm_entities dataModel)"

definition generateOpenAPISpec :: "ProjectConfig \<Rightarrow> DataModel \<Rightarrow> OpenAPISpec" where
  "generateOpenAPISpec config dataModel =
     (let project = cfg_project config;
          spec = \<lparr>oas_openapi = ''3.0.3'',
                  oas_info = \<lparr>oinfo_title = prj_name project,
                              oinfo_description = prj_description project,
                              oinfo_version = prj_version project,
                              oinfo_contact = None\<rparr>,
                  oas_servers =
                    [\<lparr>osrv_url = ''http://localhost:3000'',
                      osrv_description = ''Development server''\<rparr>,
                     \<lparr>osrv_url = ''https://api.example.com'',
                      osrv_description = ''Production server''\<rparr>],
                  oas_paths = [],
                  oas_components = \<lparr>comp_schemas = [], comp_responses = generateCommonResponses,
                                    comp_securitySchemes = None\<rparr>,
                  oas_security = None,
                  oas_tags = []\<rparr>;
          spec = (if truthyString (prj_author project)
                  then spec\<lparr>oas_info := (oas_info spec)\<lparr>oinfo_contact := prj_author project\<rparr>\<rparr>
                  else spec);
          spec = OpenAPIGenerator_generateSchemas dataModel spec;
          spec = generatePaths dataModel spec;
          spec = (if truthyBool (ft_authentication (cfg_features config))
                  then addSecuritySchemes spec else spec)
      in generateTags dataModel spec)"

section \<open>The public entry points of the generators\<close>

datatype FileType = Source | Config | Documentation | Test

record GeneratedFile =
  file_path :: string
  file_content :: string
  file_type :: FileType
  file_language :: "string option"

record GenerationResult =
  gr_success :: bool
  gr_files :: "GeneratedFile list"
  gr_errors :: "string list"
  gr_warnings :: "string list"

text \<open>The object returned at the end of the \<^verbatim>\<open>try\<close> block and the one of the \<^verbatim>\<open>catch\<close> block.\<close>

definition succeeded :: "GeneratedFile list \<Rightarrow> GenerationResult" where
  "succeeded files = \<lparr>gr_success = True, gr_files = files, gr_errors = [], gr_warnings = []\<rparr>"

definition failed :: "Exception \<Rightarrow> GenerationResult" where
  "failed error =
     \<lparr>gr_success = False, gr_files = [], gr_errors = [errorText error], gr_warnings = []\<rparr>"

text \<open>
  \<^verbatim>\<open>OpenAPIGenerator.generate\<close> and \<^verbatim>\<open>AsyncAPIGenerator.generate\<close> build the document from
  the configuration and the data model and serialise it twice, all inside the \<^verbatim>\<open>try\<close>
  block. The two serialisers \<^verbatim>\<open>JSON.stringify\<close> and \<^verbatim>\<open>yaml.stringify\<close> are arguments,
  with \<open>Inl\<close> for a thrown value; they run in the order of the array literal.
\<close>

definition OpenAPIGenerator_generate ::
  "(OpenAPISpec \<Rightarrow> Exception + string) \<Rightarrow> (OpenAPISpec \<Rightarrow> Exception + string)
   \<Rightarrow> ProjectConfig \<Rightarrow> DataModel \<Rightarrow> GenerationResult" where
  "OpenAPIGenerator_generate jsonStringify yamlStringify config dataModel =
     (let spec = generateOpenAPISpec config dataModel
      in case jsonStringify spec of
           Inl error \<Rightarrow> failed error
         | Inr json \<Rightarrow>
             (case yamlStringify spec of
                Inl error \<Rightarrow> failed error
              | Inr yaml \<Rightarrow>
                  succeeded [\<lparr>file_path = ''openapi.json'', file_content = json,
                               file_type = Config, file_language = Some ''json''\<rparr>,
                             \<lparr>file_path = ''openapi.yaml'', file_content = yaml,
                               file_type = Config, file_language = Some ''yaml''\<rparr>]))"

definition AsyncAPIGenerator_generate ::
  "(AsyncAPISpec \<Rightarrow> Exception + string) \<Rightarrow> (AsyncAPISpec \<Rightarrow> Exception + string)
   \<Rightarrow> ProjectConfig \<Rightarrow> DataModel \<Rightarrow> GenerationResult" where
  "AsyncAPIGenerator_generate jsonStringify yamlStringify config dataModel =
     (let spec = generateAsyncAPISpec config dataModel
      in case jsonStringify spec of
           Inl error \<Rightarrow> failed error
         | Inr json \<Rightarrow>
             (case yamlStringify spec of
                Inl error \<Rightarrow> failed error
              | Inr yaml \<Rightarrow>
                  succeeded [\<lparr>file_path = ''asyncapi.json'', file_content = json,
                               file_type = Config, file_language = Some ''json''\<rparr>,
                             \<lparr>file_path = ''asyncapi.yaml'', file_content = yaml,
                               file_type = Config, file_language = Some ''yaml''\<rparr>]))"

text \<open>
  The private methods of \<^verbatim>\<open>NestJSGenerator\<close> that produce the text of one file, for the
  configuration and the data model of the generator. The text of the templates is
  outside this model: each method is an argument that gives the text it returns, or
  \<open>Inl\<close> for the value it throws. \<open>packageJson\<close> is the \<^verbatim>\<open>JSON.stringify\<close> of the object
  that \<^verbatim>\<open>generatePackageJson\<close> builds.
\<close>

record NestJSTemplates =
  packageJson :: "Exception + string"
  generateMainFile :: "Exception + string"
  generateAppModule :: "Exception + string"
  generateAppController :: "Exception + string"
  generateAppService :: "Exception + string"
  generateEntityClass :: "Entity \<Rightarrow> Exception + string"
  generateCreateDto :: "Entity \<Rightarrow> Exception + string"
  generateUpdateDto :: "Entity \<Rightarrow> Exception + string"
  generateService :: "Entity \<Rightarrow> Exception + string"
  generateController :: "Entity \<Rightarrow> Exception + string"
  generateModule :: "Entity \<Rightarrow> Exception + string"
  generateDatabaseConfig :: "Exception + string"
  generateEnvExample :: "Exception + string"
  generateAuthModule :: "Exception + string"
  generateAuthService :: "Exception + string"
  generateAuthController :: "Exception + string"
  generateJwtStrategy :: "Exception + string"
  generateLoginDto :: "Exception + string"
  generateRegisterDto :: "Exception + string"
  generateTsConfig :: "Exception + string"
  generateNestCliConfig :: "Exception + string"
  generateEslintConfig :: "Exception + string"
  generatePrettierConfig :: "Exception + string"
  generateJestConfig :: "Exception + string"
  generateE2EJestConfig :: "Exception + string"

text \<open>
  \<^verbatim>\<open>files.push({ path, content, type, language })\<close>: the content is evaluated when the
  object literal is, and the method is left when that throws.
\<close>

definition pushFile ::
  "string \<Rightarrow> Exception + string \<Rightarrow> FileType \<Rightarrow> string option
   \<Rightarrow> Exception + GeneratedFile list \<Rightarrow> Exception + GeneratedFile list" where
  "pushFile path content type language files =
     (case files of
        Inl error \<Rightarrow> Inl error
      | Inr fs \<Rightarrow>
          (case content of
             Inl error \<Rightarrow> Inl error
           | Inr text \<Rightarrow>
               Inr (fs @ [\<lparr>file_path = path, file_content = text, file_type = type,
                            file_language = language\<rparr>])))"

definition generatePackageJson :: "NestJSTemplates \<Rightarrow> Exception + GeneratedFile" where
  "generatePackageJson templates =
     (case packageJson templates of
        Inl error \<Rightarrow> Inl error
      | Inr text \<Rightarrow>
          Inr \<lparr>file_path = ''package.json'', file_content = text, file_type = Config,
               file_language = Some ''json''\<rparr>)"

definition generateAppFiles :: "NestJSTemplates \<Rightarrow> Exception + GeneratedFile list" where
  "generateAppFiles templates =
     (let files = Inr [];
          files = pushFile ''src/main.ts'' (generateMainFile templates)
                    Source (Some ''typescript'') files;
          files = pushFile ''src/app.module.ts'' (generateAppModule templates)
                    Source (Some ''typescript'') files;
          files = pushFile ''src/app.controller.ts'' (generateAppController templates)
                    Source (Some ''typescript'') files;
          files = pushFile ''src/app.service.ts'' (generateAppService templates)
                    Source (Some ''typescript'') files
      in files)"

definition generateEntityFiles ::
  "NestJSTemplates \<Rightarrow> Entity \<Rightarrow> Exception + GeneratedFile list" where
  "generateEntityFiles templates entity =
     (let files = Inr [];
          entityName = ent_name entity;
          entityPath = toLowerCase entityName;
          files = pushFile (''src/'' @ entityPath @ ''/'' @ entityPath @ ''.entity.ts'')
                    (generateEntityClass templates entity) Source (Some ''typescript'') files;
          files = pushFile (''src/'' @ entityPath @ ''/dto/create-'' @ entityPath @ ''.dto.ts'')
                    (generateCreateDto templates entity) Source (Some ''typescript'') files;
          files = pushFile (''src/'' @ entityPath @ ''/dto/update-'' @ entityPath @ ''.dto.ts'')
                    (generateUpdateDto templates entity) Source (Some ''typescript'') files;
          files = pushFile (''src/'' @ entityPath @ ''/'' @ entityPath @ ''.service.ts'')
                    (generateService templates entity) Source (Some ''typescript'') files;
          files = pushFile (''src/'' @ entityPath @ ''/'' @ entityPath @ ''.controller.ts'')
                    (generateController templates entity) Source (Some ''typescript'') files;
          files = pushFile (''src/'' @ entityPath @ ''/'' @ entityPath @ ''.module.ts'')
                    (generateModule templates entity) Source (Some ''typescript'') files
      in files)"

definition generateDatabaseFiles :: "NestJSTemplates \<Rightarrow> Exception + GeneratedFile list" where
  "generateDatabaseFiles templates =
     (let files = Inr [];
          files = pushFile ''src/config/database.config.ts'' (generateDatabaseConfig templates)
                    Source (Some ''typescript'') files;
          files = pushFile ''.env.example'' (generateEnvExample templates) Config None files
      in files)"

definition generateAuthFiles :: "NestJSTemplates \<Rightarrow> Exception + GeneratedFile list" where
  "generateAuthFiles templates =
     (let files = Inr [];
          files = pushFile ''src/auth/auth.module.ts'' (generateAuthModule templates)
                    Source (Some ''typescript'') files;
          files = pushFile ''src/auth/auth.service.ts'' (generateAuthService templates)
                    Source (Some ''typescript'') files;
          files = pushFile ''src/auth/auth.controller.ts'' (generateAuthController templates)
                    Source (Some ''typescript'') files;
          files = pushFile ''src/auth/strategies/jwt.strategy.ts'' (generateJwtStrategy templates)
                    Source (Some ''typescript'') files;
          files = pushFile ''src/auth/dto/login.dto.ts'' (generateLoginDto templates)
                    Source (Some ''typescript'') files;
          files = pushFile ''src/auth/dto/register.dto.ts'' (generateRegisterDto templates)
                    Source (Some ''typescript'') files
      in files)"

definition generateConfigFiles :: "NestJSTemplates \<Rightarrow> Exception + GeneratedFile list" where
  "generateConfigFiles templates =
     (let files = Inr [];
          files = pushFile ''tsconfig.json'' (generateTsConfig templates)
                    Config (Some ''json'') files;
          files = pushFile ''nest-cli.json'' (generateNestCliConfig templates)
                    Config (Some ''json'') files;
          files = pushFile ''.eslintrc.js'' (generateEslintConfig templates)
                    Config (Some ''javascript'') files;
          files = pushFile ''.prettierrc'' (generatePrettierConfig templates)
                    Config (Some ''json'') files
      in files)"

definition generateTestFiles :: "NestJSTemplates \<Rightarrow> Exception + GeneratedFile list" where
  "generateTestFiles templates =
     (let files = Inr [];
          files = pushFile ''jest.config.js'' (generateJestConfig templates)
                    Config (Some ''javascript'') files;
          files = pushFile ''test/jest-e2e.json'' (generateE2EJestConfig templates)
                    Config (Some ''json'') files
      in files)"

text \<open>\<^verbatim>\<open>files.push(...await step)\<close>, leaving the \<^verbatim>\<open>try\<close> block when the step throws.\<close>

definition pushFiles ::
  "Exception + GeneratedFile list \<Rightarrow> Exception + GeneratedFile list
   \<Rightarrow> Exception + GeneratedFile list" where
  "pushFiles files step =
     (case files of
        Inl error \<Rightarrow> Inl error
      | Inr fs \<Rightarrow> (case step of Inl error \<Rightarrow> Inl error | Inr new \<Rightarrow> Inr (fs @ new)))"

definition NestJSGenerator_generate ::
  "NestJSTemplates \<Rightarrow> ProjectConfig \<Rightarrow> DataModel \<Rightarrow> GenerationResult" where
  "NestJSGenerator_generate templates config dataModel =
     (let files = Inr [];
          files = pushFiles files (case generatePackageJson templates of
                                     Inl error \<Rightarrow> Inl error
                                   | Inr file \<Rightarrow> Inr [file]);
          files = pushFiles files (generateAppFiles templates);
          files = foldl (\<lambda>files entity. pushFiles files (generateEntityFiles templates entity))
                        files (dm_entities dataModel);
          files = pushFiles files (generateDatabaseFiles templates);
          files = (if truthyBool (ft_authentication (cfg_features config))
                   then pushFiles files (generateAuthFiles templates) else files);
          files = pushFiles files (generateConfigFiles templates);
          files = (if truthyBool (ft_testing (cfg_features config))
                   then pushFiles files (generateTestFiles templates) else files)
      in case files of
           Inl error \<Rightarrow> failed error
         | Inr fs \<Rightarrow> succeeded fs)"

section \<open>The sample model (DataModelParser.generateSample)\<close>

text \<open>A DataType with only \<^verbatim>\<open>type\<close> and, when given, \<^verbatim>\<open>format\<close>.\<close>

definition plainType :: "DataTypeKind \<Rightarrow> string option \<Rightarrow> DataType" where
  "plainType kind format = DataType kind format None None None None None None None None"

definition noRules :: ValidationRules where
  "noRules = \<lparr>vr_min = None, vr_max = None, vr_minLength = None, vr_maxLength = None,
              vr_pattern = None, vr_email = None, vr_url = None, vr_uuid = None,
              vr_custom = None\<rparr>"

text \<open>A field with only \<^verbatim>\<open>name\<close> and \<^verbatim>\<open>dataType\<close>.\<close>

definition plainField :: "string \<Rightarrow> DataType \<Rightarrow> EntityField" where
  "plainField name dataType =
     \<lparr>fld_name = name, fld_dataType = dataType, fld_relationship = None,
      fld_isPrimaryKey = None, fld_isUnique = None, fld_isIndexed = None,
      fld_isGenerated = None, fld_generationStrategy = None\<rparr>"

definition relationTo :: "RelationshipType \<Rightarrow> string \<Rightarrow> string option \<Rightarrow> Relationship" where
  "relationTo kind target foreignKey =
     \<lparr>rel_type = kind, rel_target = target, rel_foreignKey = foreignKey, rel_joinTable = None,
      rel_cascade = None, rel_eager = None, rel_onDelete = None\<rparr>"

definition idField :: EntityField where
  "idField = (plainField ''id'' (plainType StringType (Some ''uuid'')))
               \<lparr>fld_isPrimaryKey := Some True, fld_isGenerated := Some True,
                fld_generationStrategy := Some GenUuid\<rparr>"

definition sampleUser :: Entity where
  "sampleUser =
     \<lparr>ent_name = ''User'', ent_tableName = None,
      ent_description = Some ''User entity for authentication and authorization'',
      ent_fields =
        [idField,
         (plainField ''email''
            (DataType StringType (Some ''email'') None None None None None None None
               (Some (noRules\<lparr>vr_email := Some True\<rparr>))))
           \<lparr>fld_isUnique := Some True\<rparr>,
         plainField ''name''
           (DataType StringType None None None None None None None None
              (Some (noRules\<lparr>vr_minLength := Some 2, vr_maxLength := Some 100\<rparr>))),
         plainField ''role''
           (DataType EnumType None None None (Some (EnumArray [''UserRole''])) None None None
              None None),
         (plainField ''posts''
            (DataType ArrayType None (Some (plainType ObjectType None)) None None None None None
               None None))
           \<lparr>fld_relationship := Some (relationTo OneToMany ''Post'' (Some ''authorId''))\<rparr>],
      ent_timestamps = Some True, ent_softDelete = None\<rparr>"

definition samplePost :: Entity where
  "samplePost =
     \<lparr>ent_name = ''Post'', ent_tableName = None,
      ent_description = Some ''Blog post entity'',
      ent_fields =
        [idField,
         plainField ''title''
           (DataType StringType None None None None None None None None
              (Some (noRules\<lparr>vr_minLength := Some 1, vr_maxLength := Some 200\<rparr>))),
         plainField ''content'' (plainType StringType None),
         plainField ''published''
           (DataType BooleanType None None None None None None (Some (JBool False)) None None),
         plainField ''authorId'' (plainType StringType (Some ''uuid'')),
         (plainField ''author'' (plainType ObjectType None))
           \<lparr>fld_relationship := Some (relationTo ManyToOne ''User'' (Some ''authorId''))\<rparr>],
      ent_timestamps = Some True, ent_softDelete = None\<rparr>"

definition generateSample :: DataModel where
  "generateSample =
     \<lparr>dm_name = ''BlogAPI'', dm_version = ''1.0.0'',
      dm_description = Some ''A simple blog API data model'',
      dm_entities = [sampleUser, samplePost],
      dm_enums = Some [\<lparr>enum_name = ''UserRole'',
                        enum_values = [''ADMIN'', ''USER'', ''MODERATOR''],
                        enum_description = Some ''User roles for authorization''\<rparr>]\<rparr>"

section \<open>Definitions used to state the properties\<close>

text \<open>
  A property object without the keys that only the OpenAPI mapper assigns: the constraints
  \<^verbatim>\<open>minLength\<close>, \<^verbatim>\<open>maxLength\<close>, \<^verbatim>\<open>pattern\<close>, \<^verbatim>\<open>minimum\<close>, \<^verbatim>\<open>maximum\<close>, and \<^verbatim>\<open>nullable\<close>,
  removed at every level of nesting.
\<close>

fun withoutConstraints :: "Property \<Rightarrow> Property" where
  "withoutConstraints (Property d t f mn mx pt lo hi it ps en rf df nl) =
     Property d t f None None None None None
       (map_option withoutConstraints it)
       (map_option (map (\<lambda>(k, v). (k, withoutConstraints v))) ps)
       en rf df None"

text \<open>A string DataType whose only other member is \<^verbatim>\<open>validation.maxLength\<close>.\<close>

definition stringWithMaxLength :: "nat \<Rightarrow> DataType" where
  "stringWithMaxLength n =
     DataType StringType None None None None None None None None
       (Some (noRules\<lparr>vr_maxLength := Some n\<rparr>))"

text \<open>An enum DataType whose only other member is the array \<^verbatim>\<open>enum\<close>.\<close>

definition enumOf :: "string list \<Rightarrow> DataType" where
  "enumOf values =
     DataType EnumType None None None (Some (EnumArray values)) None None None None None"

text \<open>
  The files of the backend, as a table: for each file its path, its kind, its language
  and the outcome of the method that gives its text. The six files of an entity are in
  the folder named by the entity's name in lower case.
\<close>

type_synonym PlannedFile = "string \<times> FileType \<times> string option \<times> (Exception + string)"

definition entityFileTable :: "NestJSTemplates \<Rightarrow> Entity \<Rightarrow> PlannedFile list" where
  "entityFileTable templates entity =
     (let name = toLowerCase (ent_name entity)
      in [(''src/'' @ name @ ''/'' @ name @ ''.entity.ts'', Source, Some ''typescript'',
           generateEntityClass templates entity),
          (''src/'' @ name @ ''/dto/create-'' @ name @ ''.dto.ts'', Source, Some ''typescript'',
           generateCreateDto templates entity),
          (''src/'' @ name @ ''/dto/update-'' @ name @ ''.dto.ts'', Source, Some ''typescript'',
           generateUpdateDto templates entity),
          (''src/'' @ name @ ''/'' @ name @ ''.service.ts'', Source, Some ''typescript'',
           generateService templates entity),
          (''src/'' @ name @ ''/'' @ name @ ''.controller.ts'', Source, Some ''typescript'',
           generateController templates entity),
          (''src/'' @ name @ ''/'' @ name @ ''.module.ts'', Source, Some ''typescript'',
           generateModule templates entity)])"

text \<open>
  The whole table, in the order the files are produced: the package file, the
  application, the entities of the model in their order, the database, the
  authentication when \<^verbatim>\<open>features.authentication\<close> is set, the configuration, and the test
  configuration when \<^verbatim>\<open>features.testing\<close> is set.
\<close>

definition backendFileTable ::
  "NestJSTemplates \<Rightarrow> ProjectConfig \<Rightarrow> DataModel \<Rightarrow> PlannedFile list" where
  "backendFileTable templates config dataModel =
     [(''package.json'', Config, Some ''json'', packageJson templates),
      (''src/main.ts'', Source, Some ''typescript'', generateMainFile templates),
      (''src/app.module.ts'', Source, Some ''typescript'', generateAppModule templates),
      (''src/app.controller.ts'', Source, Some ''typescript'', generateAppController templates),
      (''src/app.service.ts'', Source, Some ''typescript'', generateAppService templates)]
     @ concat (map (entityFileTable templates) (dm_entities dataModel))
     @ [(''src/config/database.config.ts'', Source, Some ''typescript'',
         generateDatabaseConfig templates),
        (''.env.example'', Config, None, generateEnvExample templates)]
     @ (if ft_authentication (cfg_features config) = Some True
        then [(''src/auth/auth.module.ts'', Source, Some ''typescript'',
               generateAuthModule templates),
              (''src/auth/auth.service.ts'', Source, Some ''typescript'',
               generateAuthService templates),
              (''src/auth/auth.controller.ts'', Source, Some ''typescript'',
               generateAuthController templates),
              (''src/auth/strategies/jwt.strategy.ts'', Source, Some ''typescript'',
               generateJwtStrategy templates),
              (''src/auth/dto/login.dto.ts'', Source, Some ''typescript'',
               generateLoginDto templates),
              (''src/auth/dto/register.dto.ts'', Source, Some ''typescript'',
               generateRegisterDto templates)]
        else [])
     @ [(''tsconfig.json'', Config, Some ''json'', generateTsConfig templates),
        (''nest-cli.json'', Config, Some ''json'', generateNestCliConfig templates),
        (''.eslintrc.js'', Config, Some ''javascript'', generateEslintConfig templates),
        (''.prettierrc'', Config, Some ''json'', generatePrettierConfig templates)]
     @ (if ft_testing (cfg_features config) = Some True
        then [(''jest.config.js'', Config, Some ''javascript'', generateJestConfig templates),
              (''test/jest-e2e.json'', Config, Some ''json'', generateE2EJestConfig templates)]
        else [])"

text \<open>The outcome of the template of a planned file, and the file written with a text.\<close>

fun outcome :: "PlannedFile \<Rightarrow> Exception + string" where
  "outcome (path, type, language, content) = content"

fun written :: "PlannedFile \<Rightarrow> string \<Rightarrow> GeneratedFile" where
  "written (path, type, language, content) text =
     \<lparr>file_path = path, file_content = text, file_type = type, file_language = language\<rparr>"

text \<open>What a planned file adds to the list of files: its file, or the thrown value.\<close>

definition attempt :: "PlannedFile \<Rightarrow> Exception + GeneratedFile list" where
  "attempt planned =
     (case outcome planned of
        Inl error \<Rightarrow> Inl error
      | Inr text \<Rightarrow> Inr [written planned text])"

text \<open>Templates that all return: each gives a text that names it.\<close>

definition namedTemplates :: NestJSTemplates where
  "namedTemplates =
     \<lparr>packageJson = Inr ''package'',
      generateMainFile = Inr ''main'',
      generateAppModule = Inr ''app module'',
      generateAppController = Inr ''app controller'',
      generateAppService = Inr ''app service'',
      generateEntityClass = (\<lambda>entity. Inr (''entity '' @ ent_name entity)),
      generateCreateDto = (\<lambda>entity. Inr (''create '' @ ent_name entity)),
      generateUpdateDto = (\<lambda>entity. Inr (''update '' @ ent_name entity)),
      generateService = (\<lambda>entity. Inr (''service '' @ ent_name entity)),
      generateController = (\<lambda>entity. Inr (''controller '' @ ent_name entity)),
      generateModule = (\<lambda>entity. Inr (''module '' @ ent_name entity)),
      generateDatabaseConfig = Inr ''database'',
      generateEnvExample = Inr ''env'',
      generateAuthModule = Inr ''auth module'',
      generateAuthService = Inr ''auth service'',
      generateAuthController = Inr ''auth controller'',
      generateJwtStrategy = Inr ''jwt'',
      generateLoginDto = Inr ''login'',
      generateRegisterDto = Inr ''register'',
      generateTsConfig = Inr ''tsconfig'',
      generateNestCliConfig = Inr ''nest-cli'',
      generateEslintConfig = Inr ''eslint'',
      generatePrettierConfig = Inr ''prettier'',
      generateJestConfig = Inr ''jest'',
      generateE2EJestConfig = Inr ''e2e''\<rparr>"

text \<open>The fields that the loop of \<^verbatim>\<open>entityToCreateDto\<close> skips.\<close>

definition skippedInCreateDto :: "EntityField \<Rightarrow> bool" where
  "skippedInCreateDto field =
     (truthyBool (fld_isGenerated field) \<or> truthyBool (fld_isPrimaryKey field)
      \<or> fld_relationship field \<noteq> None)"

text \<open>The keys of the \<^verbatim>\<open>properties\<close> object of a schema.\<close>

definition propertyNames :: "Schema \<Rightarrow> string set" where
  "propertyNames schema = set (objKeys (schemaProperties schema))"

text \<open>The project section and the features of the configuration of the blog sample.\<close>

definition sampleConfig :: ProjectConfig where
  "sampleConfig =
     \<lparr>cfg_project =
        \<lparr>prj_name = ''BlogAPI'',
         prj_description = Some ''Blog platform API generated with CodeForge'',
         prj_version = ''1.0.0'', prj_author = Some ''CodeForge User''\<rparr>,
      cfg_features = \<lparr>ft_authentication = Some True, ft_testing = Some True\<rparr>\<rparr>"

text \<open>The names of the three channels of an entity, in the order they are assigned.\<close>

definition entityChannelNames :: "Entity \<Rightarrow> string list" where
  "entityChannelNames entity =
     [toLowerCase (ent_name entity) @ ''.created'',
      toLowerCase (ent_name entity) @ ''.updated'',
      toLowerCase (ent_name entity) @ ''.deleted'']"

text \<open>The \<^verbatim>\<open>$ref\<close> of the message of a channel's operation.\<close>

definition channelMessage :: "Channel \<Rightarrow> string option" where
  "channelMessage channel =
     (case ch_publish channel of
        Some operation \<Rightarrow> Some (op_message operation)
      | None \<Rightarrow> map_option op_message (ch_subscribe channel))"

text \<open>A channel is bound to a message definition of the document.\<close>

definition boundToMessage :: "AsyncAPISpec \<Rightarrow> Channel \<Rightarrow> bool" where
  "boundToMessage spec channel =
     (\<exists>m \<in> set (objKeys (spec_messages spec)).
        channelMessage channel = Some (''#/components/messages/'' @ m))"

text \<open>
  The sample model without its enum definitions: the field \<^verbatim>\<open>role\<close> of User still has the
  one-element array \<^verbatim>\<open>['UserRole']\<close> under \<^verbatim>\<open>enum\<close>, and no enum of that name is defined.
\<close>

definition sampleWithoutEnums :: DataModel where
  "sampleWithoutEnums = generateSample\<lparr>dm_enums := None\<rparr>"

text \<open>
  The sample model with the \<^verbatim>\<open>foreignKey\<close> of the manyToOne relationship \<^verbatim>\<open>Post.author\<close>
  removed.
\<close>

definition sampleWithoutForeignKey :: DataModel where
  "sampleWithoutForeignKey =
     generateSample
       \<lparr>dm_entities :=
          [sampleUser,
           samplePost
             \<lparr>ent_fields :=
                butlast (ent_fields samplePost)
                @ [(plainField ''author'' (plainType ObjectType None))
                     \<lparr>fld_relationship := Some (relationTo ManyToOne ''User'' None)\<rparr>]\<rparr>]\<rparr>"

text \<open>
  A model that breaks three rules of the parser at once: its only entity has no primary
  key, and its only field has a manyToOne relationship, without \<^verbatim>\<open>foreignKey\<close>, to an
  entity that does not exist.
\<close>

definition commentModel :: DataModel where
  "commentModel =
     \<lparr>dm_name = ''Comments'', dm_version = ''1.0.0'', dm_description = None,
      dm_entities =
        [\<lparr>ent_name = ''Comment'', ent_tableName = None, ent_description = None,
          ent_fields =
            [(plainField ''post'' (plainType ObjectType None))
               \<lparr>fld_relationship := Some (relationTo ManyToOne ''Post'' None)\<rparr>],
          ent_timestamps = None, ent_softDelete = None\<rparr>],
      dm_enums = None\<rparr>"

text \<open>
  The violations of the parser's business rules, stated rule by rule. An entity whose name
  is the name of an earlier entity is a duplicate. A relationship violates up to three
  rules: its target is not an entity name, it is manyToOne or oneToOne without a foreign
  key, it is manyToMany without a join table. An entity without a primary-key field
  violates one rule. A value under \<^verbatim>\<open>enum\<close> violates the reference rule only when it is not
  an array: for an array the rule reports nothing.
\<close>

definition duplicateNameViolations :: "Entity list \<Rightarrow> string list" where
  "duplicateNameViolations entities =
     [''Duplicate entity name: '' @ ent_name (entities ! i).
        i \<leftarrow> [0..<length entities],
        ent_name (entities ! i) \<in> set (map ent_name (take i entities))]"

definition relationshipViolations :: "string set \<Rightarrow> Entity \<Rightarrow> EntityField \<Rightarrow> string list" where
  "relationshipViolations entityNames entity field =
     (case fld_relationship field of
        None \<Rightarrow> []
      | Some relationship \<Rightarrow>
          (if rel_target relationship \<in> entityNames then []
           else [''Entity '' @ ent_name entity @ ''.'' @ fld_name field @ '': relationship target ''
                 @ quoted (rel_target relationship) @ '' does not exist''])
          @ (if rel_type relationship \<in> {ManyToOne, OneToOne}
                \<and> \<not> truthyString (rel_foreignKey relationship)
             then [''Entity '' @ ent_name entity @ ''.'' @ fld_name field @ '': ''
                   @ relationshipTypeName (rel_type relationship)
                   @ '' relationship requires foreignKey'']
             else [])
          @ (if rel_type relationship = ManyToMany
                \<and> \<not> truthyString (rel_joinTable relationship)
             then [''Entity '' @ ent_name entity @ ''.'' @ fld_name field
                   @ '': manyToMany relationship requires joinTable'']
             else []))"

definition entityViolations :: "string set \<Rightarrow> Entity \<Rightarrow> string list" where
  "entityViolations entityNames entity =
     concat (map (relationshipViolations entityNames entity) (ent_fields entity))
     @ (if \<exists>f \<in> set (ent_fields entity). truthyBool (fld_isPrimaryKey f) then []
        else [''Entity '' @ ent_name entity @ '': must have at least one primary key field''])"

definition enumReferenceViolations :: "string set \<Rightarrow> Entity \<Rightarrow> EntityField \<Rightarrow> string list" where
  "enumReferenceViolations enumNames entity field =
     (case dt_enum (fld_dataType field) of
        Some (EnumString (c # s)) \<Rightarrow>
          if dt_type (fld_dataType field) = EnumType \<and> [c] \<notin> enumNames
          then [''Entity '' @ ent_name entity @ ''.'' @ fld_name field @ '': enum reference ''
                @ quoted [c] @ '' does not exist'']
          else []
      | _ \<Rightarrow> [])"

definition businessRuleViolations :: "DataModel \<Rightarrow> string list" where
  "businessRuleViolations dataModel =
     duplicateNameViolations (dm_entities dataModel)
     @ concat (map (entityViolations (set (map ent_name (dm_entities dataModel))))
                   (dm_entities dataModel))
     @ concat (map (\<lambda>entity.
                      concat (map (enumReferenceViolations
                                     (case dm_enums dataModel of
                                        None \<Rightarrow> {}
                                      | Some enums \<Rightarrow> set (map enum_name enums))
                                     entity)
                                  (ent_fields entity)))
                   (dm_entities dataModel))"

text \<open>The messages of a list, each on a line of its own.\<close>

fun joinedLines :: "string list \<Rightarrow> string" where
  "joinedLines [] = []"
| "joinedLines [message] = message"
| "joinedLines (message # rest) = message @ [CHR 0x0A] @ joinedLines rest"

text \<open>A result that keeps the messages of an earlier result and may have more at the end.\<close>

definition onlyAppends :: "ValidationResult \<Rightarrow> ValidationResult \<Rightarrow> bool" where
  "onlyAppends before after =
     (\<exists>moreErrors moreWarnings.
        errors after = errors before @ moreErrors
        \<and> warnings after = warnings before @ moreWarnings)"

text \<open>
  The checks of the command that \<^verbatim>\<open>validateDataModel\<close> runs on a model the parser
  accepts, in the order of the source.
\<close>

definition commandChecks :: "DataModel \<Rightarrow> bool \<Rightarrow> ValidationResult \<Rightarrow> ValidationResult" where
  "commandChecks dataModel strict result =
     ValidateCommand_validateBusinessRules dataModel
       (validateNamingConventions dataModel strict
          (validateEntityFields dataModel strict
             (validateEntityRelationships dataModel result)))"














section \<open>The entity names of the sample model in lower case\<close>

lemma sample_lower_case:
  "toLowerCase ''User'' = ''user''" "toLowerCase ''Post'' = ''post''"
  by code_simp+


section \<open>Column types\<close>

text \<open>
  Claim C8, as amended. The column-type mapper is the following table. For a string
  DataType it returns \<^verbatim>\<open>uuid\<close> when the format is uuid; otherwise \<^verbatim>\<open>varchar\<close> when
  \<^verbatim>\<open>validation.maxLength\<close> is set, is not 0 and is at most 255; otherwise \<^verbatim>\<open>text\<close>. For a
  number it returns \<^verbatim>\<open>int\<close> for int32, \<^verbatim>\<open>bigint\<close> for int64 and \<^verbatim>\<open>decimal\<close> otherwise.
  Boolean gives \<^verbatim>\<open>boolean\<close>, date gives \<^verbatim>\<open>date\<close> when the format is date and
  \<^verbatim>\<open>timestamp\<close> otherwise, array and object give \<^verbatim>\<open>json\<close>, enum gives \<^verbatim>\<open>enum\<close>.
\<close>

theorem dataTypeToColumnType_table:
  "dataTypeToColumnType (DataType StringType fmt it ps en rq nl df ds v) =
     (if fmt = Some ''uuid'' then ''uuid''
      else if (\<exists>r n. v = Some r \<and> vr_maxLength r = Some n \<and> 0 < n \<and> n \<le> 255)
      then ''varchar'' else ''text'')
   \<and> dataTypeToColumnType (DataType NumberType fmt it ps en rq nl df ds v) =
     (if fmt = Some ''int32'' then ''int''
      else if fmt = Some ''int64'' then ''bigint'' else ''decimal'')
   \<and> dataTypeToColumnType (DataType BooleanType fmt it ps en rq nl df ds v) = ''boolean''
   \<and> dataTypeToColumnType (DataType DateType fmt it ps en rq nl df ds v) =
     (if fmt = Some ''date'' then ''date'' else ''timestamp'')
   \<and> dataTypeToColumnType (DataType ArrayType fmt it ps en rq nl df ds v) = ''json''
   \<and> dataTypeToColumnType (DataType ObjectType fmt it ps en rq nl df ds v) = ''json''
   \<and> dataTypeToColumnType (DataType EnumType fmt it ps en rq nl df ds v) = ''enum''"
  by (auto simp add: dataTypeToColumnType_def validationMaxLength_def split: option.splits)

text \<open>
  Claim C8 as stated fails for a string DataType with \<^verbatim>\<open>maxLength\<close> 0: the length is set
  and at most 255, and the column type is \<^verbatim>\<open>text\<close>, because the mapper tests the length
  for truthiness.
\<close>

theorem dataTypeToColumnType_maxLength_zero:
  "dataTypeToColumnType (stringWithMaxLength 0) = ''text''
   \<and> dataTypeToColumnType (stringWithMaxLength 0) \<noteq> ''varchar''"
  by (simp add: dataTypeToColumnType_def validationMaxLength_def stringWithMaxLength_def
      noRules_def)

section \<open>Property mappers\<close>

text \<open>
  For an array under \<^verbatim>\<open>enum\<close>, whatever its length, the OpenAPI mapper assigns the type
  \<^verbatim>\<open>string\<close> and the array itself as \<^verbatim>\<open>enum\<close>; it assigns no \<^verbatim>\<open>$ref\<close>.
\<close>

lemma dataTypeToOpenAPIProperty_enum_array:
  "dataTypeToOpenAPIProperty
     (DataType EnumType fmt it ps (Some (EnumArray values)) rq nl df ds v)
   = (let property = set_enum values (set_type ''string'' (newProperty ds));
          property = whenDefined df set_default property
      in if truthyBool nl then set_nullable True property else property)"
  by (simp add: Let_def)

text \<open>
  Claim C5 at the DataType of the field \<^verbatim>\<open>role\<close> of the sample model, whose \<^verbatim>\<open>enum\<close> is
  the one-element array naming the defined enum \<^verbatim>\<open>UserRole\<close>. The claim expects a
  \<^verbatim>\<open>$ref\<close> to \<^verbatim>\<open>#/components/schemas/UserRole\<close>; the mapper returns an inline string
  schema whose only enum value is the text \<^verbatim>\<open>UserRole\<close>, and no \<^verbatim>\<open>$ref\<close>.
\<close>

theorem dataTypeToOpenAPIProperty_enum_reference_inlined:
  "p_ref (dataTypeToOpenAPIProperty (enumOf [''UserRole''])) = None
   \<and> p_type (dataTypeToOpenAPIProperty (enumOf [''UserRole''])) = Some ''string''
   \<and> p_enum (dataTypeToOpenAPIProperty (enumOf [''UserRole''])) = Some [''UserRole'']"
  by (simp add: enumOf_def newProperty_def whenDefined_def truthyBool_def)

lemma objSet_map_values:
  "map (\<lambda>(k, v). (k, g v)) (objSet obj k x) = objSet (map (\<lambda>(k, v). (k, g v)) obj) k (g x)"
  by (induction obj) auto

lemma foldl_objSet_map_values:
  assumes "\<And>k v. (k, v) \<in> set entries \<Longrightarrow> f2 v = g (f1 v)"
  shows "foldl (\<lambda>obj (key, value). objSet obj key (f2 value))
           (map (\<lambda>(k, v). (k, g v)) acc) entries
       = map (\<lambda>(k, v). (k, g v))
           (foldl (\<lambda>obj (key, value). objSet obj key (f1 value)) acc entries)"
  using assms
proof (induction entries arbitrary: acc)
  case Nil
  then show ?case by simp
next
  case (Cons e entries)
  obtain k v where e: "e = (k, v)" by (cases e)
  have first: "f2 v = g (f1 v)" using Cons.prems[of k v] e by simp
  have others: "\<And>k v. (k, v) \<in> set entries \<Longrightarrow> f2 v = g (f1 v)"
    using Cons.prems by (meson list.set_intros(2))
  show ?case using Cons.IH[of "objSet acc k (f1 v)", OF others] first e
    by (simp add: objSet_map_values)
qed

lemma withoutConstraints_assign [simp]:
  "withoutConstraints (set_type a p) = set_type a (withoutConstraints p)"
  "withoutConstraints (set_format b p) = set_format b (withoutConstraints p)"
  "withoutConstraints (set_minLength n p) = withoutConstraints p"
  "withoutConstraints (set_maxLength n p) = withoutConstraints p"
  "withoutConstraints (set_pattern b p) = withoutConstraints p"
  "withoutConstraints (set_minimum r p) = withoutConstraints p"
  "withoutConstraints (set_maximum r p) = withoutConstraints p"
  "withoutConstraints (set_enum vs p) = set_enum vs (withoutConstraints p)"
  "withoutConstraints (set_ref b p) = set_ref b (withoutConstraints p)"
  "withoutConstraints (set_default j p) = set_default j (withoutConstraints p)"
  "withoutConstraints (set_nullable c p) = withoutConstraints p"
  "withoutConstraints (set_items q p) = set_items (withoutConstraints q) (withoutConstraints p)"
  "withoutConstraints (set_properties kvs p) =
     set_properties (map (\<lambda>(k, v). (k, withoutConstraints v)) kvs) (withoutConstraints p)"
  "withoutConstraints (newProperty d) = newProperty d"
  by (cases p; simp add: newProperty_def)+

lemma withoutConstraints_when [simp]:
  "withoutConstraints (whenTruthyString s set_format p) =
     whenTruthyString s set_format (withoutConstraints p)"
  "withoutConstraints (whenTruthyString s set_pattern p) = withoutConstraints p"
  "withoutConstraints (whenTruthyNat n set_minLength p) = withoutConstraints p"
  "withoutConstraints (whenTruthyNat n set_maxLength p) = withoutConstraints p"
  "withoutConstraints (whenDefined r set_minimum p) = withoutConstraints p"
  "withoutConstraints (whenDefined r set_maximum p) = withoutConstraints p"
  "withoutConstraints (whenDefined j set_default p) =
     whenDefined j set_default (withoutConstraints p)"
  by (simp_all add: whenTruthyString_def whenTruthyNat_def whenDefined_def split: option.splits)

text \<open>
  Claim C6, as amended. For every DataType, the AsyncAPI property mapper returns the
  object of the OpenAPI property mapper without the keys \<^verbatim>\<open>minLength\<close>, \<^verbatim>\<open>maxLength\<close>,
  \<^verbatim>\<open>pattern\<close>, \<^verbatim>\<open>minimum\<close>, \<^verbatim>\<open>maximum\<close> and \<^verbatim>\<open>nullable\<close>, at every level of nesting;
  description, type, format, items, properties, enum, \<^verbatim>\<open>$ref\<close> and default are the same.
\<close>

theorem dataTypeToAsyncAPIProperty_refines:
  "dataTypeToAsyncAPIProperty dt = withoutConstraints (dataTypeToOpenAPIProperty dt)"
proof (induction dt)
  case (DataType ty fmt items props en req nul dflt descr val)
  have items: "\<And>item. items = Some item \<Longrightarrow>
      dataTypeToAsyncAPIProperty item = withoutConstraints (dataTypeToOpenAPIProperty item)"
    using DataType.IH(1) by simp
  have props: "\<And>entries. props = Some entries \<Longrightarrow>
      foldl (\<lambda>obj (key, value). objSet obj key (dataTypeToAsyncAPIProperty value)) [] entries
      = map (\<lambda>(k, v). (k, withoutConstraints v))
          (foldl (\<lambda>obj (key, value). objSet obj key (dataTypeToOpenAPIProperty value))
                 [] entries)"
  proof -
    fix entries assume p: "props = Some entries"
    have "\<And>k v. (k, v) \<in> set entries \<Longrightarrow>
        dataTypeToAsyncAPIProperty v = withoutConstraints (dataTypeToOpenAPIProperty v)"
      using DataType.IH(2) p by fastforce
    from foldl_objSet_map_values[of entries dataTypeToAsyncAPIProperty withoutConstraints
           dataTypeToOpenAPIProperty "[]", OF this]
    show "foldl (\<lambda>obj (key, value). objSet obj key (dataTypeToAsyncAPIProperty value))
            [] entries
      = map (\<lambda>(k, v). (k, withoutConstraints v))
          (foldl (\<lambda>obj (key, value). objSet obj key (dataTypeToOpenAPIProperty value))
                 [] entries)"
      by simp
  qed
  show ?case
  proof (cases ty)
    case StringType
    then show ?thesis by (simp add: Let_def split: option.splits)
  next
    case NumberType
    then show ?thesis by (simp add: Let_def split: option.splits)
  next
    case BooleanType
    then show ?thesis by (simp add: Let_def)
  next
    case DateType
    then show ?thesis by (simp add: Let_def)
  next
    case ArrayType
    then show ?thesis using items by (simp add: Let_def split: option.splits)
  next
    case ObjectType
    then show ?thesis using props by (simp add: Let_def split: option.splits)
  next
    case EnumType
    then show ?thesis
      by (simp add: Let_def split: option.splits EnumMember.splits list.splits)
  qed
qed

text \<open>
  Claim C6 as stated fails for a string DataType with \<^verbatim>\<open>maxLength\<close> 100: the OpenAPI
  property carries \<^verbatim>\<open>maxLength\<close>, the AsyncAPI property does not.
\<close>

theorem dataTypeToAsyncAPIProperty_differs:
  "dataTypeToAsyncAPIProperty (stringWithMaxLength 100)
   \<noteq> dataTypeToOpenAPIProperty (stringWithMaxLength 100)"
  by (simp add: stringWithMaxLength_def noRules_def newProperty_def whenDefined_def
      whenTruthyString_def whenTruthyNat_def truthyBool_def)

section \<open>The generators never throw\<close>

lemma pushFiles_Inl [simp]: "pushFiles (Inl e) step = Inl e"
  by (simp add: pushFiles_def)

lemma foldl_pushFiles_Inl [simp]: "foldl pushFiles (Inl e) steps = Inl e"
  by (induction steps) simp_all

lemma steps_split:
  fixes steps :: "(Exception + 'a) list"
  shows "(\<exists>fss. steps = map Inr fss) \<or> (\<exists>before e rest. steps = map Inr before @ Inl e # rest)"
proof (induction steps)
  case Nil
  then show ?case by simp
next
  case (Cons s steps)
  show ?case
  proof (cases s)
    case (Inl e)
    then have "s # steps = map Inr [] @ Inl e # steps" by simp
    then have "\<exists>before e rest. s # steps = map Inr before @ Inl e # rest"
      by (intro exI[of _ "[]"] exI[of _ e] exI[of _ steps])
    then show ?thesis ..
  next
    case (Inr fs)
    from Cons.IH show ?thesis
    proof
      assume "\<exists>fss. steps = map Inr fss"
      then obtain fss where "steps = map Inr fss" ..
      then have "s # steps = map Inr (fs # fss)" using Inr by simp
      then show ?thesis by (intro disjI1 exI[of _ "fs # fss"])
    next
      assume "\<exists>before e rest. steps = map Inr before @ Inl e # rest"
      then obtain before e rest where "steps = map Inr before @ Inl e # rest" by blast
      then have "s # steps = map Inr (fs # before) @ Inl e # rest" using Inr by simp
      then have "\<exists>before e rest. s # steps = map Inr before @ Inl e # rest"
        by (intro exI[of _ "fs # before"] exI[of _ e] exI[of _ rest])
      then show ?thesis ..
    qed
  qed
qed

lemma pushFiles_empty: "pushFiles (Inr []) step = step" "pushFiles files (Inr []) = files"
  by (simp_all add: pushFiles_def split: sum.splits)

lemma pushFiles_assoc:
  "pushFiles files (pushFiles a b) = pushFiles (pushFiles files a) b"
  by (simp add: pushFiles_def split: sum.splits)

lemma pushFiles_foldl:
  "pushFiles files (foldl pushFiles start steps) = foldl pushFiles (pushFiles files start) steps"
  by (induction steps arbitrary: start) (simp_all add: pushFiles_assoc)

lemma pushFile_attempt:
  "pushFile path content type language files =
     pushFiles files (attempt (path, type, language, content))"
  by (simp add: pushFile_def pushFiles_def attempt_def split: sum.splits)

lemma generatePackageJson_table:
  "(case generatePackageJson templates of Inl error \<Rightarrow> Inl error | Inr file \<Rightarrow> Inr [file]) =
     attempt (''package.json'', Config, Some ''json'', packageJson templates)"
  by (simp add: generatePackageJson_def attempt_def split: sum.splits)

lemma generateAppFiles_table:
  "generateAppFiles templates =
     foldl pushFiles (Inr [])
       (map attempt
          [(''src/main.ts'', Source, Some ''typescript'', generateMainFile templates),
           (''src/app.module.ts'', Source, Some ''typescript'', generateAppModule templates),
           (''src/app.controller.ts'', Source, Some ''typescript'',
            generateAppController templates),
           (''src/app.service.ts'', Source, Some ''typescript'', generateAppService templates)])"
  by (simp add: generateAppFiles_def Let_def pushFile_attempt pushFiles_empty)

lemma generateEntityFiles_table:
  "generateEntityFiles templates entity =
     foldl pushFiles (Inr []) (map attempt (entityFileTable templates entity))"
  by (simp add: generateEntityFiles_def entityFileTable_def Let_def pushFile_attempt
      pushFiles_empty)

lemma entity_loop_table:
  "foldl (\<lambda>files entity. pushFiles files (generateEntityFiles templates entity)) files entities =
     foldl pushFiles files (map attempt (concat (map (entityFileTable templates) entities)))"
  by (induction entities arbitrary: files)
     (simp_all add: generateEntityFiles_table pushFiles_foldl pushFiles_empty)

lemma generateDatabaseFiles_table:
  "generateDatabaseFiles templates =
     foldl pushFiles (Inr [])
       (map attempt
          [(''src/config/database.config.ts'', Source, Some ''typescript'',
            generateDatabaseConfig templates),
           (''.env.example'', Config, None, generateEnvExample templates)])"
  by (simp add: generateDatabaseFiles_def Let_def pushFile_attempt pushFiles_empty)

lemma generateAuthFiles_table:
  "generateAuthFiles templates =
     foldl pushFiles (Inr [])
       (map attempt
          [(''src/auth/auth.module.ts'', Source, Some ''typescript'',
            generateAuthModule templates),
           (''src/auth/auth.service.ts'', Source, Some ''typescript'',
            generateAuthService templates),
           (''src/auth/auth.controller.ts'', Source, Some ''typescript'',
            generateAuthController templates),
           (''src/auth/strategies/jwt.strategy.ts'', Source, Some ''typescript'',
            generateJwtStrategy templates),
           (''src/auth/dto/login.dto.ts'', Source, Some ''typescript'',
            generateLoginDto templates),
           (''src/auth/dto/register.dto.ts'', Source, Some ''typescript'',
            generateRegisterDto templates)])"
  by (simp add: generateAuthFiles_def Let_def pushFile_attempt pushFiles_empty)

lemma generateConfigFiles_table:
  "generateConfigFiles templates =
     foldl pushFiles (Inr [])
       (map attempt
          [(''tsconfig.json'', Config, Some ''json'', generateTsConfig templates),
           (''nest-cli.json'', Config, Some ''json'', generateNestCliConfig templates),
           (''.eslintrc.js'', Config, Some ''javascript'', generateEslintConfig templates),
           (''.prettierrc'', Config, Some ''json'', generatePrettierConfig templates)])"
  by (simp add: generateConfigFiles_def Let_def pushFile_attempt pushFiles_empty)

lemma generateTestFiles_table:
  "generateTestFiles templates =
     foldl pushFiles (Inr [])
       (map attempt
          [(''jest.config.js'', Config, Some ''javascript'', generateJestConfig templates),
           (''test/jest-e2e.json'', Config, Some ''json'', generateE2EJestConfig templates)])"
  by (simp add: generateTestFiles_def Let_def pushFile_attempt pushFiles_empty)

lemma NestJSGenerator_generate_table:
  "NestJSGenerator_generate templates config dataModel =
     (case foldl pushFiles (Inr []) (map attempt (backendFileTable templates config dataModel)) of
        Inl error \<Rightarrow> failed error
      | Inr fs \<Rightarrow> succeeded fs)"
proof -
  have auth: "truthyBool (ft_authentication (cfg_features config)) =
      (ft_authentication (cfg_features config) = Some True)"
    and testing: "truthyBool (ft_testing (cfg_features config)) =
      (ft_testing (cfg_features config) = Some True)"
    by (auto simp add: truthyBool_def split: option.splits)
  show ?thesis
    unfolding NestJSGenerator_generate_def backendFileTable_def Let_def auth testing
      entity_loop_table generatePackageJson_table generateAppFiles_table
      generateDatabaseFiles_table generateAuthFiles_table generateConfigFiles_table
      generateTestFiles_table pushFiles_foldl pushFiles_empty
    by (simp add: pushFiles_empty)
qed

lemma pushFiles_Inr:
  "pushFiles (Inr fs) (Inr new) = Inr (fs @ new)" "pushFiles (Inr fs) (Inl e) = Inl e"
  by (simp_all add: pushFiles_def)

lemma attempt_outcome:
  "outcome planned = Inr text \<Longrightarrow> attempt planned = Inr [written planned text]"
  "outcome planned = Inl e \<Longrightarrow> attempt planned = Inl e"
  by (simp_all add: attempt_def)

lemma attempt_simps:
  "attempt (path, type, language, Inr text) =
     Inr [\<lparr>file_path = path, file_content = text, file_type = type,
           file_language = language\<rparr>]"
  "attempt (path, type, language, Inl e) = Inl e"
  by (simp_all add: attempt_def)

lemma attempts_all:
  "map outcome planned = map Inr texts \<Longrightarrow>
     foldl pushFiles (Inr fs) (map attempt planned) =
       Inr (fs @ map2 written planned texts)"
proof (induction planned arbitrary: fs texts)
  case Nil
  then show ?case by simp
next
  case (Cons p planned)
  then obtain t ts where texts: "texts = t # ts" and p: "outcome p = Inr t"
    and rest: "map outcome planned = map Inr ts"
    by (cases texts) auto
  show ?case
    using Cons.IH[OF rest, of "fs @ [written p t]"]
    by (simp add: texts attempt_outcome(1)[OF p] pushFiles_Inr)
qed

lemma attempts_thrown:
  "map outcome planned = map Inr before @ Inl e # rest \<Longrightarrow>
     foldl pushFiles (Inr fs) (map attempt planned) = Inl e"
proof (induction planned arbitrary: fs before)
  case Nil
  then show ?case by simp
next
  case (Cons p planned)
  show ?case
  proof (cases before)
    case Nil
    with Cons.prems have "outcome p = Inl e" by simp
    then show ?thesis by (simp add: attempt_outcome pushFiles_Inr)
  next
    case (Cons t ts)
    with Cons.prems have p: "outcome p = Inr t"
      and rest: "map outcome planned = map Inr ts @ Inl e # rest"
      by simp_all
    show ?thesis
      using Cons.IH[OF rest, of "fs @ [written p t]"]
      by (simp add: attempt_outcome(1)[OF p] pushFiles_Inr)
  qed
qed

lemma outcome_written:
  "outcome = (\<lambda>(path, type, language, content). content)"
  "written = (\<lambda>(path, type, language, content) text.
      \<lparr>file_path = path, file_content = text, file_type = type, file_language = language\<rparr>)"
  by (auto simp add: fun_eq_iff)

lemma sample_entities:
  "dm_entities generateSample = [sampleUser, samplePost]"
  "ent_name sampleUser = ''User''" "ent_name samplePost = ''Post''"
  by (simp_all add: generateSample_def sampleUser_def samplePost_def)

lemma sample_features:
  "ft_authentication (cfg_features sampleConfig) = Some True"
  "ft_testing (cfg_features sampleConfig) = Some True"
  by (simp_all add: sampleConfig_def)

lemma NestJSGenerator_generate_sample:
  "NestJSGenerator_generate namedTemplates sampleConfig generateSample =
     \<lparr>gr_success = True,
      gr_files =
        map (\<lambda>(path, text, type, language).
               \<lparr>file_path = path, file_content = text, file_type = type,
                file_language = language\<rparr>)
          [(''package.json'', ''package'', Config, Some ''json''),
           (''src/main.ts'', ''main'', Source, Some ''typescript''),
           (''src/app.module.ts'', ''app module'', Source, Some ''typescript''),
           (''src/app.controller.ts'', ''app controller'', Source, Some ''typescript''),
           (''src/app.service.ts'', ''app service'', Source, Some ''typescript''),
           (''src/user/user.entity.ts'', ''entity User'', Source, Some ''typescript''),
           (''src/user/dto/create-user.dto.ts'', ''create User'', Source, Some ''typescript''),
           (''src/user/dto/update-user.dto.ts'', ''update User'', Source, Some ''typescript''),
           (''src/user/user.service.ts'', ''service User'', Source, Some ''typescript''),
           (''src/user/user.controller.ts'', ''controller User'', Source, Some ''typescript''),
           (''src/user/user.module.ts'', ''module User'', Source, Some ''typescript''),
           (''src/post/post.entity.ts'', ''entity Post'', Source, Some ''typescript''),
           (''src/post/dto/create-post.dto.ts'', ''create Post'', Source, Some ''typescript''),
           (''src/post/dto/update-post.dto.ts'', ''update Post'', Source, Some ''typescript''),
           (''src/post/post.service.ts'', ''service Post'', Source, Some ''typescript''),
           (''src/post/post.controller.ts'', ''controller Post'', Source, Some ''typescript''),
           (''src/post/post.module.ts'', ''module Post'', Source, Some ''typescript''),
           (''src/config/database.config.ts'', ''database'', Source, Some ''typescript''),
           (''.env.example'', ''env'', Config, None),
           (''src/auth/auth.module.ts'', ''auth module'', Source, Some ''typescript''),
           (''src/auth/auth.service.ts'', ''auth service'', Source, Some ''typescript''),
           (''src/auth/auth.controller.ts'', ''auth controller'', Source, Some ''typescript''),
           (''src/auth/strategies/jwt.strategy.ts'', ''jwt'', Source, Some ''typescript''),
           (''src/auth/dto/login.dto.ts'', ''login'', Source, Some ''typescript''),
           (''src/auth/dto/register.dto.ts'', ''register'', Source, Some ''typescript''),
           (''tsconfig.json'', ''tsconfig'', Config, Some ''json''),
           (''nest-cli.json'', ''nest-cli'', Config, Some ''json''),
           (''.eslintrc.js'', ''eslint'', Config, Some ''javascript''),
           (''.prettierrc'', ''prettier'', Config, Some ''json''),
           (''jest.config.js'', ''jest'', Config, Some ''javascript''),
           (''test/jest-e2e.json'', ''e2e'', Config, Some ''json'')],
      gr_errors = [], gr_warnings = []\<rparr>"
  unfolding NestJSGenerator_generate_table
  by (simp add: backendFileTable_def entityFileTable_def sample_entities sample_features
      sample_lower_case namedTemplates_def attempt_simps pushFiles_Inr pushFiles_empty
      succeeded_def)

lemma NestJSGenerator_generate_sample_thrown:
  "NestJSGenerator_generate
     (namedTemplates\<lparr>generateService :=
        (\<lambda>entity. if ent_name entity = ''Post'' then Inl (NonError ''no template'')
                  else Inr ''service'')\<rparr>)
     sampleConfig generateSample =
     \<lparr>gr_success = False, gr_files = [], gr_errors = [''no template''], gr_warnings = []\<rparr>"
  unfolding NestJSGenerator_generate_table
  by (simp add: backendFileTable_def entityFileTable_def sample_entities sample_features
      sample_lower_case namedTemplates_def attempt_simps pushFiles_Inr pushFiles_empty
      failed_def)

lemma foldl_member_kept:
  assumes "\<And>s x. g (f s x) = g s"
  shows "g (foldl f s xs) = g s"
  by (induction xs arbitrary: s) (simp_all add: assms)

lemma setComponentSchema_keeps:
  "oas_info (setComponentSchema name schema spec) = oas_info spec"
  "oas_tags (setComponentSchema name schema spec) = oas_tags spec"
  by (simp_all add: setComponentSchema_def)

lemma setPath_keeps:
  "oas_info (setPath path item spec) = oas_info spec"
  "oas_tags (setPath path item spec) = oas_tags spec"
  by (simp_all add: setPath_def)

lemma OpenAPIGenerator_generateSchemas_keeps:
  "oas_info (OpenAPIGenerator_generateSchemas dataModel spec) = oas_info spec"
  "oas_tags (OpenAPIGenerator_generateSchemas dataModel spec) = oas_tags spec"
  by (simp_all add: OpenAPIGenerator_generateSchemas_def Let_def
      setComponentSchema_keeps foldl_member_kept[where g = oas_info]
      foldl_member_kept[where g = oas_tags] split: option.splits)

lemma generatePaths_keeps:
  "oas_info (generatePaths dataModel spec) = oas_info spec"
  "oas_tags (generatePaths dataModel spec) = oas_tags spec"
  by (simp_all add: generatePaths_def Let_def setPath_keeps
      foldl_member_kept[where g = oas_info] foldl_member_kept[where g = oas_tags])

lemma generateTags_info: "oas_info (generateTags dataModel spec) = oas_info spec"
  by (simp add: generateTags_def foldl_member_kept[where g = oas_info])

lemma generateTags_names:
  "map tag_name (oas_tags (generateTags dataModel spec)) =
     map tag_name (oas_tags spec) @ map ent_name (dm_entities dataModel)"
proof -
  have "map tag_name (oas_tags (foldl (\<lambda>spec entity.
              spec\<lparr>oas_tags :=
                     oas_tags spec
                     @ [\<lparr>tag_name = ent_name entity,
                         tag_description =
                           orElse (ent_description entity) (ent_name entity @ '' operations'')\<rparr>]\<rparr>)
           spec entities)) = map tag_name (oas_tags spec) @ map ent_name entities"
    for entities
    by (induction entities arbitrary: spec) simp_all
  then show ?thesis by (simp add: generateTags_def)
qed

lemma generateOpenAPISpec_title:
  "oinfo_title (oas_info (generateOpenAPISpec config dataModel)) = prj_name (cfg_project config)"
  by (simp add: generateOpenAPISpec_def Let_def generateTags_info generatePaths_keeps
      OpenAPIGenerator_generateSchemas_keeps addSecuritySchemes_def)

lemma generateOpenAPISpec_tags:
  "map tag_name (oas_tags (generateOpenAPISpec config dataModel)) =
     map ent_name (dm_entities dataModel)"
  by (simp add: generateOpenAPISpec_def Let_def generateTags_names generatePaths_keeps
      OpenAPIGenerator_generateSchemas_keeps addSecuritySchemes_def)

lemma setters_keep:
  "spec_info (setSchema name schema spec) = spec_info spec"
  "spec_info (setChannel name channel spec) = spec_info spec"
  "spec_info (setMessage name message spec) = spec_info spec"
  "spec_asyncapi (setSchema name schema spec) = spec_asyncapi spec"
  "spec_asyncapi (setChannel name channel spec) = spec_asyncapi spec"
  "spec_asyncapi (setMessage name message spec) = spec_asyncapi spec"
  by (simp_all add: setSchema_def setChannel_def setMessage_def)

lemma generateEntityChannels_keeps:
  "spec_info (generateEntityChannels spec entity) = spec_info spec"
  "spec_asyncapi (generateEntityChannels spec entity) = spec_asyncapi spec"
  by (simp_all add: generateEntityChannels_def generateMessages_def Let_def setters_keep)

lemma generateSchemas_keeps:
  "spec_info (generateSchemas dataModel spec) = spec_info spec"
  "spec_asyncapi (generateSchemas dataModel spec) = spec_asyncapi spec"
  by (simp_all add: generateSchemas_def Let_def setters_keep
      foldl_member_kept[where g = spec_info] foldl_member_kept[where g = spec_asyncapi]
      split: option.splits)

lemma generateChannels_keeps:
  "spec_info (generateChannels dataModel spec) = spec_info spec"
  "spec_asyncapi (generateChannels dataModel spec) = spec_asyncapi spec"
  by (simp_all add: generateChannels_def generateSystemMessages_def Let_def setters_keep
      generateEntityChannels_keeps
      foldl_member_kept[where g = spec_info] foldl_member_kept[where g = spec_asyncapi])

lemma generateAsyncAPISpec_title:
  "info_title (spec_info (generateAsyncAPISpec config dataModel)) =
     prj_name (cfg_project config) @ '' Events''"
  "spec_asyncapi (generateAsyncAPISpec config dataModel) = ''2.6.0''"
  by (simp_all add: generateAsyncAPISpec_def Let_def generateMessageTraits_def
      generateChannels_keeps generateSchemas_keeps)

lemma OpenAPIGenerator_generate_titles:
  "OpenAPIGenerator_generate
     (\<lambda>spec. Inr (oinfo_title (oas_info spec)))
     (\<lambda>spec. Inr (concat (map tag_name (oas_tags spec)))) config dataModel =
     \<lparr>gr_success = True,
      gr_files = [\<lparr>file_path = ''openapi.json'', file_content = prj_name (cfg_project config),
                    file_type = Config, file_language = Some ''json''\<rparr>,
                  \<lparr>file_path = ''openapi.yaml'',
                    file_content = concat (map ent_name (dm_entities dataModel)),
                    file_type = Config, file_language = Some ''yaml''\<rparr>],
      gr_errors = [], gr_warnings = []\<rparr>"
  by (simp add: OpenAPIGenerator_generate_def succeeded_def generateOpenAPISpec_title
      generateOpenAPISpec_tags)

lemma AsyncAPIGenerator_generate_thrown:
  "AsyncAPIGenerator_generate
     (\<lambda>spec. Inr (info_title (spec_info spec)))
     (\<lambda>spec. Inl (NonError (''cannot write version '' @ spec_asyncapi spec)))
     config dataModel =
     \<lparr>gr_success = False, gr_files = [],
      gr_errors = [''cannot write version 2.6.0''], gr_warnings = []\<rparr>"
  by (simp add: AsyncAPIGenerator_generate_def failed_def generateAsyncAPISpec_title)

lemma OpenAPIGenerator_generate_outcomes:
  "(\<exists>json yaml.
       jsonStringify (generateOpenAPISpec config dataModel) = Inr json
       \<and> yamlStringify (generateOpenAPISpec config dataModel) = Inr yaml
       \<and> OpenAPIGenerator_generate jsonStringify yamlStringify config dataModel =
           \<lparr>gr_success = True,
            gr_files = [\<lparr>file_path = ''openapi.json'', file_content = json,
                          file_type = Config, file_language = Some ''json''\<rparr>,
                        \<lparr>file_path = ''openapi.yaml'', file_content = yaml,
                          file_type = Config, file_language = Some ''yaml''\<rparr>],
            gr_errors = [], gr_warnings = []\<rparr>)
   \<or> (\<exists>e. (jsonStringify (generateOpenAPISpec config dataModel) = Inl e
            \<or> (\<exists>json. jsonStringify (generateOpenAPISpec config dataModel) = Inr json
                  \<and> yamlStringify (generateOpenAPISpec config dataModel) = Inl e))
          \<and> OpenAPIGenerator_generate jsonStringify yamlStringify config dataModel =
              \<lparr>gr_success = False, gr_files = [],
               gr_errors = [case e of Error message \<Rightarrow> message | NonError text \<Rightarrow> text],
               gr_warnings = []\<rparr>)"
proof (cases "jsonStringify (generateOpenAPISpec config dataModel)")
  case (Inl e)
  then have "OpenAPIGenerator_generate jsonStringify yamlStringify config dataModel =
      \<lparr>gr_success = False, gr_files = [],
       gr_errors = [case e of Error message \<Rightarrow> message | NonError text \<Rightarrow> text],
       gr_warnings = []\<rparr>"
    by (cases e) (simp_all add: OpenAPIGenerator_generate_def failed_def)
  with Inl show ?thesis by (intro disjI2 exI[of _ e] conjI disjI1)
next
  case json: (Inr json)
  show ?thesis
  proof (cases "yamlStringify (generateOpenAPISpec config dataModel)")
    case (Inl e)
    then have "OpenAPIGenerator_generate jsonStringify yamlStringify config dataModel =
        \<lparr>gr_success = False, gr_files = [],
         gr_errors = [case e of Error message \<Rightarrow> message | NonError text \<Rightarrow> text],
         gr_warnings = []\<rparr>"
      by (cases e) (simp_all add: OpenAPIGenerator_generate_def failed_def json)
    moreover have "\<exists>json. jsonStringify (generateOpenAPISpec config dataModel) = Inr json
        \<and> yamlStringify (generateOpenAPISpec config dataModel) = Inl e"
      using json Inl by (intro exI[of _ json] conjI)
    ultimately show ?thesis by (intro disjI2 exI[of _ e] conjI disjI2)
  next
    case (Inr yaml)
    then have "OpenAPIGenerator_generate jsonStringify yamlStringify config dataModel =
           \<lparr>gr_success = True,
            gr_files = [\<lparr>file_path = ''openapi.json'', file_content = json,
                          file_type = Config, file_language = Some ''json''\<rparr>,
                        \<lparr>file_path = ''openapi.yaml'', file_content = yaml,
                          file_type = Config, file_language = Some ''yaml''\<rparr>],
            gr_errors = [], gr_warnings = []\<rparr>"
      by (simp add: OpenAPIGenerator_generate_def succeeded_def json)
    with json Inr show ?thesis by (intro disjI1 exI[of _ json] exI[of _ yaml] conjI)
  qed
qed

lemma AsyncAPIGenerator_generate_outcomes:
  "(\<exists>json yaml.
       jsonStringify (generateAsyncAPISpec config dataModel) = Inr json
       \<and> yamlStringify (generateAsyncAPISpec config dataModel) = Inr yaml
       \<and> AsyncAPIGenerator_generate jsonStringify yamlStringify config dataModel =
           \<lparr>gr_success = True,
            gr_files = [\<lparr>file_path = ''asyncapi.json'', file_content = json,
                          file_type = Config, file_language = Some ''json''\<rparr>,
                        \<lparr>file_path = ''asyncapi.yaml'', file_content = yaml,
                          file_type = Config, file_language = Some ''yaml''\<rparr>],
            gr_errors = [], gr_warnings = []\<rparr>)
   \<or> (\<exists>e. (jsonStringify (generateAsyncAPISpec config dataModel) = Inl e
            \<or> (\<exists>json. jsonStringify (generateAsyncAPISpec config dataModel) = Inr json
                  \<and> yamlStringify (generateAsyncAPISpec config dataModel) = Inl e))
          \<and> AsyncAPIGenerator_generate jsonStringify yamlStringify config dataModel =
              \<lparr>gr_success = False, gr_files = [],
               gr_errors = [case e of Error message \<Rightarrow> message | NonError text \<Rightarrow> text],
               gr_warnings = []\<rparr>)"
proof (cases "jsonStringify (generateAsyncAPISpec config dataModel)")
  case (Inl e)
  then have "AsyncAPIGenerator_generate jsonStringify yamlStringify config dataModel =
      \<lparr>gr_success = False, gr_files = [],
       gr_errors = [case e of Error message \<Rightarrow> message | NonError text \<Rightarrow> text],
       gr_warnings = []\<rparr>"
    by (cases e) (simp_all add: AsyncAPIGenerator_generate_def failed_def)
  with Inl show ?thesis by (intro disjI2 exI[of _ e] conjI disjI1)
next
  case json: (Inr json)
  show ?thesis
  proof (cases "yamlStringify (generateAsyncAPISpec config dataModel)")
    case (Inl e)
    then have "AsyncAPIGenerator_generate jsonStringify yamlStringify config dataModel =
        \<lparr>gr_success = False, gr_files = [],
         gr_errors = [case e of Error message \<Rightarrow> message | NonError text \<Rightarrow> text],
         gr_warnings = []\<rparr>"
      by (cases e) (simp_all add: AsyncAPIGenerator_generate_def failed_def json)
    moreover have "\<exists>json. jsonStringify (generateAsyncAPISpec config dataModel) = Inr json
        \<and> yamlStringify (generateAsyncAPISpec config dataModel) = Inl e"
      using json Inl by (intro exI[of _ json] conjI)
    ultimately show ?thesis by (intro disjI2 exI[of _ e] conjI disjI2)
  next
    case (Inr yaml)
    then have "AsyncAPIGenerator_generate jsonStringify yamlStringify config dataModel =
           \<lparr>gr_success = True,
            gr_files = [\<lparr>file_path = ''asyncapi.json'', file_content = json,
                          file_type = Config, file_language = Some ''json''\<rparr>,
                        \<lparr>file_path = ''asyncapi.yaml'', file_content = yaml,
                          file_type = Config, file_language = Some ''yaml''\<rparr>],
            gr_errors = [], gr_warnings = []\<rparr>"
      by (simp add: AsyncAPIGenerator_generate_def succeeded_def json)
    with json Inr show ?thesis by (intro disjI1 exI[of _ json] exI[of _ yaml] conjI)
  qed
qed

lemma NestJSGenerator_generate_outcomes:
  "(\<exists>texts.
       map (\<lambda>(path, type, language, content). content)
           (backendFileTable templates config dataModel) = map Inr texts
       \<and> NestJSGenerator_generate templates config dataModel =
           \<lparr>gr_success = True,
            gr_files =
              map2 (\<lambda>(path, type, language, content) text.
                      \<lparr>file_path = path, file_content = text, file_type = type,
                       file_language = language\<rparr>)
                   (backendFileTable templates config dataModel) texts,
            gr_errors = [], gr_warnings = []\<rparr>)
   \<or> (\<exists>before e rest.
         map (\<lambda>(path, type, language, content). content)
             (backendFileTable templates config dataModel) = map Inr before @ Inl e # rest
         \<and> NestJSGenerator_generate templates config dataModel =
             \<lparr>gr_success = False, gr_files = [],
              gr_errors = [case e of Error message \<Rightarrow> message | NonError text \<Rightarrow> text],
              gr_warnings = []\<rparr>)"
proof -
  let ?table = "backendFileTable templates config dataModel"
  from steps_split[of "map outcome ?table"]
  show ?thesis
  proof
    assume "\<exists>texts. map outcome ?table = map Inr texts"
    then obtain texts where texts: "map outcome ?table = map Inr texts" ..
    have "NestJSGenerator_generate templates config dataModel =
        \<lparr>gr_success = True, gr_files = map2 written ?table texts,
         gr_errors = [], gr_warnings = []\<rparr>"
      unfolding NestJSGenerator_generate_table attempts_all[OF texts]
      by (simp add: succeeded_def)
    with texts show ?thesis
      unfolding outcome_written by (intro disjI1 exI[of _ texts] conjI)
  next
    assume "\<exists>before e rest. map outcome ?table = map Inr before @ Inl e # rest"
    then obtain before e rest
      where thrown: "map outcome ?table = map Inr before @ Inl e # rest" by blast
    have "NestJSGenerator_generate templates config dataModel =
        \<lparr>gr_success = False, gr_files = [],
         gr_errors = [case e of Error message \<Rightarrow> message | NonError text \<Rightarrow> text],
         gr_warnings = []\<rparr>"
      unfolding NestJSGenerator_generate_table attempts_thrown[OF thrown]
      by (cases e) (simp_all add: failed_def)
    with thrown show ?thesis
      unfolding outcome_written
      by (intro disjI2 exI[of _ before] exI[of _ e] exI[of _ rest] conjI)
  qed
qed

text \<open>
  Claim C7. Each public \<^verbatim>\<open>generate\<close> returns a result object for every configuration and
  data model, whatever the code it calls inside its \<^verbatim>\<open>try\<close> block does.

  \<^item> \<^verbatim>\<open>OpenAPIGenerator.generate\<close> serialises the document built from the configuration and
    the data model. When both serialisers return, the result is \<^verbatim>\<open>success: true\<close> with no
    error and exactly two files of type config, \<^verbatim>\<open>openapi.json\<close> (language json) and then
    \<^verbatim>\<open>openapi.yaml\<close> (language yaml), holding the two serialisations. When a serialiser
    throws, the result is \<^verbatim>\<open>success: false\<close> with no files and one error: the message of
    the thrown \<^verbatim>\<open>Error\<close>, or the text of a thrown value that is not an \<^verbatim>\<open>Error\<close>.
  \<^item> \<^verbatim>\<open>AsyncAPIGenerator.generate\<close> does the same with \<^verbatim>\<open>asyncapi.json\<close> and
    \<^verbatim>\<open>asyncapi.yaml\<close>.
  \<^item> \<^verbatim>\<open>NestJSGenerator.generate\<close> produces the files of the table of the backend, in the
    order of the table, each with the text of its template. When every template returns,
    the result is \<^verbatim>\<open>success: true\<close> with no error and all the files of the table; when
    a template throws, the result is \<^verbatim>\<open>success: false\<close> with no files and the message of
    the first value thrown as its one error.

  Four instances follow: an OpenAPI document serialised by its title and by the names of
  its tags; an AsyncAPI document whose second serialiser throws a value that is not an
  \<^verbatim>\<open>Error\<close>; the thirty-one files of the backend of the sample model with authentication
  and testing enabled; and the same backend when the service template throws for the
  entity \<^verbatim>\<open>Post\<close>, after fourteen files were produced.
\<close>

theorem generate_never_throws:
  "((\<exists>json yaml.
          jsonStringify (generateOpenAPISpec config dataModel) = Inr json
          \<and> yamlStringify (generateOpenAPISpec config dataModel) = Inr yaml
          \<and> OpenAPIGenerator_generate jsonStringify yamlStringify config dataModel =
              \<lparr>gr_success = True,
               gr_files = [\<lparr>file_path = ''openapi.json'', file_content = json,
                             file_type = Config, file_language = Some ''json''\<rparr>,
                           \<lparr>file_path = ''openapi.yaml'', file_content = yaml,
                             file_type = Config, file_language = Some ''yaml''\<rparr>],
               gr_errors = [], gr_warnings = []\<rparr>)
      \<or> (\<exists>e. (jsonStringify (generateOpenAPISpec config dataModel) = Inl e
               \<or> (\<exists>json. jsonStringify (generateOpenAPISpec config dataModel) = Inr json
                     \<and> yamlStringify (generateOpenAPISpec config dataModel) = Inl e))
             \<and> OpenAPIGenerator_generate jsonStringify yamlStringify config dataModel =
                 \<lparr>gr_success = False, gr_files = [],
                  gr_errors = [case e of Error message \<Rightarrow> message | NonError text \<Rightarrow> text],
                  gr_warnings = []\<rparr>))
   \<and> ((\<exists>json yaml.
          jsonStringify' (generateAsyncAPISpec config dataModel) = Inr json
          \<and> yamlStringify' (generateAsyncAPISpec config dataModel) = Inr yaml
          \<and> AsyncAPIGenerator_generate jsonStringify' yamlStringify' config dataModel =
              \<lparr>gr_success = True,
               gr_files = [\<lparr>file_path = ''asyncapi.json'', file_content = json,
                             file_type = Config, file_language = Some ''json''\<rparr>,
                           \<lparr>file_path = ''asyncapi.yaml'', file_content = yaml,
                             file_type = Config, file_language = Some ''yaml''\<rparr>],
               gr_errors = [], gr_warnings = []\<rparr>)
      \<or> (\<exists>e. (jsonStringify' (generateAsyncAPISpec config dataModel) = Inl e
               \<or> (\<exists>json. jsonStringify' (generateAsyncAPISpec config dataModel) = Inr json
                     \<and> yamlStringify' (generateAsyncAPISpec config dataModel) = Inl e))
             \<and> AsyncAPIGenerator_generate jsonStringify' yamlStringify' config dataModel =
                 \<lparr>gr_success = False, gr_files = [],
                  gr_errors = [case e of Error message \<Rightarrow> message | NonError text \<Rightarrow> text],
                  gr_warnings = []\<rparr>))
   \<and> ((\<exists>texts.
          map (\<lambda>(path, type, language, content). content)
              (backendFileTable templates config dataModel) = map Inr texts
          \<and> NestJSGenerator_generate templates config dataModel =
              \<lparr>gr_success = True,
               gr_files =
                 map2 (\<lambda>(path, type, language, content) text.
                         \<lparr>file_path = path, file_content = text, file_type = type,
                          file_language = language\<rparr>)
                      (backendFileTable templates config dataModel) texts,
               gr_errors = [], gr_warnings = []\<rparr>)
      \<or> (\<exists>before e rest.
            map (\<lambda>(path, type, language, content). content)
                (backendFileTable templates config dataModel) = map Inr before @ Inl e # rest
            \<and> NestJSGenerator_generate templates config dataModel =
                \<lparr>gr_success = False, gr_files = [],
                 gr_errors = [case e of Error message \<Rightarrow> message | NonError text \<Rightarrow> text],
                 gr_warnings = []\<rparr>))
   \<and> (OpenAPIGenerator_generate
        (\<lambda>spec. Inr (oinfo_title (oas_info spec)))
        (\<lambda>spec. Inr (concat (map tag_name (oas_tags spec)))) config dataModel =
        \<lparr>gr_success = True,
         gr_files = [\<lparr>file_path = ''openapi.json'', file_content = prj_name (cfg_project config),
                       file_type = Config, file_language = Some ''json''\<rparr>,
                     \<lparr>file_path = ''openapi.yaml'',
                       file_content = concat (map ent_name (dm_entities dataModel)),
                       file_type = Config, file_language = Some ''yaml''\<rparr>],
         gr_errors = [], gr_warnings = []\<rparr>)
   \<and> (AsyncAPIGenerator_generate
        (\<lambda>spec. Inr (info_title (spec_info spec)))
        (\<lambda>spec. Inl (NonError (''cannot write version '' @ spec_asyncapi spec)))
        config dataModel =
        \<lparr>gr_success = False, gr_files = [],
         gr_errors = [''cannot write version 2.6.0''], gr_warnings = []\<rparr>)
   \<and> (NestJSGenerator_generate namedTemplates sampleConfig generateSample =
        \<lparr>gr_success = True,
         gr_files =
           map (\<lambda>(path, text, type, language).
                  \<lparr>file_path = path, file_content = text, file_type = type,
                   file_language = language\<rparr>)
             [(''package.json'', ''package'', Config, Some ''json''),
              (''src/main.ts'', ''main'', Source, Some ''typescript''),
              (''src/app.module.ts'', ''app module'', Source, Some ''typescript''),
              (''src/app.controller.ts'', ''app controller'', Source, Some ''typescript''),
              (''src/app.service.ts'', ''app service'', Source, Some ''typescript''),
              (''src/user/user.entity.ts'', ''entity User'', Source, Some ''typescript''),
              (''src/user/dto/create-user.dto.ts'', ''create User'', Source, Some ''typescript''),
              (''src/user/dto/update-user.dto.ts'', ''update User'', Source, Some ''typescript''),
              (''src/user/user.service.ts'', ''service User'', Source, Some ''typescript''),
              (''src/user/user.controller.ts'', ''controller User'', Source, Some ''typescript''),
              (''src/user/user.module.ts'', ''module User'', Source, Some ''typescript''),
              (''src/post/post.entity.ts'', ''entity Post'', Source, Some ''typescript''),
              (''src/post/dto/create-post.dto.ts'', ''create Post'', Source, Some ''typescript''),
              (''src/post/dto/update-post.dto.ts'', ''update Post'', Source, Some ''typescript''),
              (''src/post/post.service.ts'', ''service Post'', Source, Some ''typescript''),
              (''src/post/post.controller.ts'', ''controller Post'', Source, Some ''typescript''),
              (''src/post/post.module.ts'', ''module Post'', Source, Some ''typescript''),
              (''src/config/database.config.ts'', ''database'', Source, Some ''typescript''),
              (''.env.example'', ''env'', Config, None),
              (''src/auth/auth.module.ts'', ''auth module'', Source, Some ''typescript''),
              (''src/auth/auth.service.ts'', ''auth service'', Source, Some ''typescript''),
              (''src/auth/auth.controller.ts'', ''auth controller'', Source, Some ''typescript''),
              (''src/auth/strategies/jwt.strategy.ts'', ''jwt'', Source, Some ''typescript''),
              (''src/auth/dto/login.dto.ts'', ''login'', Source, Some ''typescript''),
              (''src/auth/dto/register.dto.ts'', ''register'', Source, Some ''typescript''),
              (''tsconfig.json'', ''tsconfig'', Config, Some ''json''),
              (''nest-cli.json'', ''nest-cli'', Config, Some ''json''),
              (''.eslintrc.js'', ''eslint'', Config, Some ''javascript''),
              (''.prettierrc'', ''prettier'', Config, Some ''json''),
              (''jest.config.js'', ''jest'', Config, Some ''javascript''),
              (''test/jest-e2e.json'', ''e2e'', Config, Some ''json'')],
         gr_errors = [], gr_warnings = []\<rparr>)
   \<and> (NestJSGenerator_generate
        (namedTemplates\<lparr>generateService :=
           (\<lambda>entity. if ent_name entity = ''Post'' then Inl (NonError ''no template'')
                     else Inr ''service'')\<rparr>)
        sampleConfig generateSample =
        \<lparr>gr_success = False, gr_files = [], gr_errors = [''no template''], gr_warnings = []\<rparr>)"
  by (intro conjI OpenAPIGenerator_generate_outcomes AsyncAPIGenerator_generate_outcomes
      NestJSGenerator_generate_outcomes OpenAPIGenerator_generate_titles
      AsyncAPIGenerator_generate_thrown NestJSGenerator_generate_sample
      NestJSGenerator_generate_sample_thrown)

section \<open>Fields omitted from the schemas\<close>

lemma objKeys_objSet: "set (objKeys (objSet obj k v)) = insert k (set (objKeys obj))"
proof (induction obj)
  case Nil
  then show ?case by (simp add: objKeys_def)
next
  case (Cons e obj)
  obtain a b where e: "e = (a, b)" by (cases e)
  show ?case using Cons e by (cases "a = k") (auto simp: objKeys_def)
qed

lemma propertyNames_setSchemaProperty [simp]:
  "propertyNames (setSchemaProperty name property schema) = insert name (propertyNames schema)"
  using objKeys_objSet[of "schemaProperties schema" name property]
  by (simp add: propertyNames_def setSchemaProperty_def schemaProperties_def)

lemma propertyNames_pushRequired [simp]:
  "propertyNames (pushRequired name schema) = propertyNames schema"
  by (simp add: propertyNames_def pushRequired_def schemaProperties_def)

lemma propertyNames_objectSchema [simp]: "propertyNames (objectSchema d) = {}"
  by (simp add: propertyNames_def objectSchema_def schemaProperties_def objKeys_def)

lemma propertyNames_addTimestamps [simp]:
  "propertyNames (addTimestamps entity schema) =
     propertyNames schema
     \<union> (if truthyBool (ent_timestamps entity) then {''createdAt'', ''updatedAt''} else {})"
  by (auto simp add: addTimestamps_def)

text \<open>The loop shared by the three schema builders, for any test \<open>skip\<close> and mapper \<open>m\<close>.\<close>

lemma propertyNames_fields_loop:
  "propertyNames
     (foldl (\<lambda>schema field.
               if skip field then schema
               else (let schema = setSchemaProperty (fld_name field) (m field) schema
                     in if truthyBool (dt_required (fld_dataType field))
                        then pushRequired (fld_name field) schema
                        else schema))
            schema flds)
   = propertyNames schema \<union> fld_name ` {f \<in> set flds. \<not> skip f}"
  by (induction flds arbitrary: schema) (auto simp add: Let_def)

lemma foldl_filter_skipped:
  assumes "\<And>a x. \<not> P x \<Longrightarrow> f a x = a"
  shows "foldl f a (filter P xs) = foldl f a xs"
  using assms by (induction xs arbitrary: a) simp_all

lemma entityToSchema_filter:
  "entityToSchema (entity\<lparr>ent_fields := filter (\<lambda>f. fld_relationship f = None) (ent_fields entity)\<rparr>)
   = entityToSchema entity"
  by (simp add: entityToSchema_def addTimestamps_def foldl_filter_skipped)

lemma entityToAsyncAPISchema_filter:
  "entityToAsyncAPISchema
     (entity\<lparr>ent_fields := filter (\<lambda>f. fld_relationship f = None) (ent_fields entity)\<rparr>)
   = entityToAsyncAPISchema entity"
  by (simp add: entityToAsyncAPISchema_def addTimestamps_def foldl_filter_skipped)

lemma entityToCreateDto_filter:
  "entityToCreateDto
     (entity\<lparr>ent_fields := filter (\<lambda>f. \<not> skippedInCreateDto f) (ent_fields entity)\<rparr>)
   = entityToCreateDto entity"
  by (simp add: entityToCreateDto_def skippedInCreateDto_def foldl_filter_skipped)

lemma propertyNames_entityToSchema:
  "propertyNames (entityToSchema entity) =
     fld_name ` {f \<in> set (ent_fields entity). fld_relationship f = None}
     \<union> (if truthyBool (ent_timestamps entity) then {''createdAt'', ''updatedAt''} else {})"
  using propertyNames_fields_loop[of "\<lambda>f. fld_relationship f \<noteq> None"
          "\<lambda>f. dataTypeToOpenAPIProperty (fld_dataType f)"
          "objectSchema (ent_description entity)" "ent_fields entity"]
  by (simp add: entityToSchema_def)

lemma propertyNames_entityToAsyncAPISchema:
  "propertyNames (entityToAsyncAPISchema entity) =
     fld_name ` {f \<in> set (ent_fields entity). fld_relationship f = None}
     \<union> (if truthyBool (ent_timestamps entity) then {''createdAt'', ''updatedAt''} else {})"
  using propertyNames_fields_loop[of "\<lambda>f. fld_relationship f \<noteq> None"
          "\<lambda>f. dataTypeToAsyncAPIProperty (fld_dataType f)"
          "objectSchema (ent_description entity)" "ent_fields entity"]
  by (simp add: entityToAsyncAPISchema_def)

lemma propertyNames_entityToCreateDto:
  "propertyNames (entityToCreateDto entity) =
     fld_name ` {f \<in> set (ent_fields entity). \<not> skippedInCreateDto f}"
  using propertyNames_fields_loop[of skippedInCreateDto
          "\<lambda>f. dataTypeToOpenAPIProperty (fld_dataType f)"
          "objectSchema (Some (''Data transfer object for creating '' @ ent_name entity))"
          "ent_fields entity"]
  by (simp add: entityToCreateDto_def skippedInCreateDto_def)

lemma distinct_names_not_in_image:
  assumes "distinct (map fld_name flds)" "f \<in> set flds" "\<not> keep f"
  shows "fld_name f \<notin> fld_name ` {g \<in> set flds. keep g}"
proof
  assume "fld_name f \<in> fld_name ` {g \<in> set flds. keep g}"
  then obtain g where g: "g \<in> set flds" "keep g" "fld_name g = fld_name f" by auto
  from assms(1) g(1) assms(2) g(3) have "g = f"
    by (meson distinct_map inj_onD)
  with g(2) assms(3) show False by simp
qed

text \<open>
  Claim C10. A field that carries a relationship contributes nothing to the entity schema
  of the OpenAPI document or to the state schema of the AsyncAPI document, and a field
  that is generated, a primary key or a relationship contributes nothing to the
  Create-DTO schema: each schema is the one built from the entity without these fields,
  and its property names are the names of the remaining fields (with the two timestamp
  properties for the entity schemas when timestamps are on). So, field names being unique
  within the entity, the name of a relationship, primary-key or generated field is never a
  property of the Create DTO, and the name of a relationship field is a property of an
  entity schema only where it is one of the two timestamp properties.
\<close>

theorem omitted_fields:
  "entityToSchema entity =
     entityToSchema
       (entity\<lparr>ent_fields := filter (\<lambda>f. fld_relationship f = None) (ent_fields entity)\<rparr>)
   \<and> entityToAsyncAPISchema entity =
     entityToAsyncAPISchema
       (entity\<lparr>ent_fields := filter (\<lambda>f. fld_relationship f = None) (ent_fields entity)\<rparr>)
   \<and> entityToCreateDto entity =
     entityToCreateDto
       (entity\<lparr>ent_fields := filter (\<lambda>f. \<not> skippedInCreateDto f) (ent_fields entity)\<rparr>)
   \<and> propertyNames (entityToSchema entity) =
       fld_name ` {f \<in> set (ent_fields entity). fld_relationship f = None}
       \<union> (if truthyBool (ent_timestamps entity) then {''createdAt'', ''updatedAt''} else {})
   \<and> propertyNames (entityToAsyncAPISchema entity) =
       fld_name ` {f \<in> set (ent_fields entity). fld_relationship f = None}
       \<union> (if truthyBool (ent_timestamps entity) then {''createdAt'', ''updatedAt''} else {})
   \<and> propertyNames (entityToCreateDto entity) =
       fld_name ` {f \<in> set (ent_fields entity). \<not> skippedInCreateDto f}
   \<and> (distinct (map fld_name (ent_fields entity)) \<longrightarrow>
        (\<forall>f \<in> set (ent_fields entity).
           (skippedInCreateDto f \<longrightarrow> fld_name f \<notin> propertyNames (entityToCreateDto entity))
           \<and> (fld_relationship f \<noteq> None \<longrightarrow>
                fld_name f \<notin> propertyNames (entityToSchema entity) - {''createdAt'', ''updatedAt''}
                \<and> fld_name f
                    \<notin> propertyNames (entityToAsyncAPISchema entity) - {''createdAt'', ''updatedAt''})))"
proof (intro conjI impI ballI)
  fix f
  assume d: "distinct (map fld_name (ent_fields entity))" and f: "f \<in> set (ent_fields entity)"
  {
    assume "skippedInCreateDto f"
    then show "fld_name f \<notin> propertyNames (entityToCreateDto entity)"
      using distinct_names_not_in_image[OF d f, of "\<lambda>g. \<not> skippedInCreateDto g"]
      by (simp add: propertyNames_entityToCreateDto)
  }
  {
    assume r: "fld_relationship f \<noteq> None"
    have n: "fld_name f \<notin> fld_name ` {g \<in> set (ent_fields entity). fld_relationship g = None}"
      using distinct_names_not_in_image[OF d f, of "\<lambda>g. fld_relationship g = None"] r by simp
    show "fld_name f \<notin> propertyNames (entityToSchema entity) - {''createdAt'', ''updatedAt''}"
      using n by (auto simp add: propertyNames_entityToSchema split: if_splits)
    show "fld_name f
            \<notin> propertyNames (entityToAsyncAPISchema entity) - {''createdAt'', ''updatedAt''}"
      using n by (auto simp add: propertyNames_entityToAsyncAPISchema split: if_splits)
  }
qed (simp_all add: entityToSchema_filter entityToAsyncAPISchema_filter entityToCreateDto_filter
       propertyNames_entityToSchema propertyNames_entityToAsyncAPISchema
       propertyNames_entityToCreateDto)

theorem omitted_fields_witness:
  "distinct (map fld_name (ent_fields samplePost))
   \<and> idField \<in> set (ent_fields samplePost)
   \<and> skippedInCreateDto idField
   \<and> fld_name idField \<notin> propertyNames (entityToCreateDto samplePost)"
proof -
  have d: "distinct (map fld_name (ent_fields samplePost))"
    by (simp add: samplePost_def plainField_def idField_def)
  have s: "skippedInCreateDto idField"
    by (simp add: skippedInCreateDto_def idField_def plainField_def truthyBool_def)
  have m: "idField \<in> set (ent_fields samplePost)"
    by (simp add: samplePost_def)
  from omitted_fields[of samplePost] d m s
  have "fld_name idField \<notin> propertyNames (entityToCreateDto samplePost)" by blast
  then show ?thesis using d s m by simp
qed

section \<open>Channels of the AsyncAPI document\<close>

lemma objSet_new: "k \<notin> set (objKeys obj) \<Longrightarrow> objSet obj k v = obj @ [(k, v)]"
  by (induction obj) (auto simp: objKeys_def)

lemma objKeys_Nil: "objKeys [] = []"
  by (simp add: objKeys_def)

lemma set_objSet_subset: "set (objSet obj k v) \<subseteq> insert (k, v) (set obj)"
proof (induction obj)
  case Nil
  then show ?case by simp
next
  case (Cons e obj)
  obtain a b where e: "e = (a, b)" by (cases e)
  show ?case using Cons e by (cases "a = k") auto
qed

lemma spec_setSchema [simp]:
  "spec_channels (setSchema n s spec) = spec_channels spec"
  "spec_messages (setSchema n s spec) = spec_messages spec"
  by (simp_all add: setSchema_def)

lemma spec_setChannel [simp]:
  "spec_channels (setChannel n c spec) = objSet (spec_channels spec) n c"
  "spec_messages (setChannel n c spec) = spec_messages spec"
  by (simp_all add: setChannel_def)

lemma spec_setMessage [simp]:
  "spec_channels (setMessage n m spec) = spec_channels spec"
  "spec_messages (setMessage n m spec) = objSet (spec_messages spec) n m"
  by (simp_all add: setMessage_def)

lemma foldl_keeps:
  assumes "\<And>a x. g (f a x) = g a"
  shows "g (foldl f a xs) = g a"
  using assms by (induction xs arbitrary: a) simp_all

lemma spec_generateSchemas [simp]:
  "spec_channels (generateSchemas dataModel spec) = spec_channels spec"
  "spec_messages (generateSchemas dataModel spec) = spec_messages spec"
  by (simp_all add: generateSchemas_def Let_def foldl_keeps split: option.splits)

lemma spec_generateEntityChannels:
  "spec_channels (generateEntityChannels spec entity) =
     objSet (objSet (objSet (spec_channels spec)
       (toLowerCase (ent_name entity) @ ''.created'') (entityChannel entity ''Created'' ''created''))
       (toLowerCase (ent_name entity) @ ''.updated'') (entityChannel entity ''Updated'' ''updated''))
       (toLowerCase (ent_name entity) @ ''.deleted'') (entityChannel entity ''Deleted'' ''deleted'')"
  "spec_messages (generateEntityChannels spec entity) =
     objSet (objSet (objSet (spec_messages spec)
       (ent_name entity @ ''CreatedMessage'') (entityMessage (ent_name entity) ''Created'' ''created''))
       (ent_name entity @ ''UpdatedMessage'') (entityMessage (ent_name entity) ''Updated'' ''updated''))
       (ent_name entity @ ''DeletedMessage'') (entityMessage (ent_name entity) ''Deleted'' ''deleted'')"
  by (simp_all add: generateEntityChannels_def generateMessages_def Let_def)

text \<open>The channel names after the loop over the entities, as a set.\<close>

lemma channel_names_loop:
  "set (objKeys (spec_channels (foldl generateEntityChannels spec entities))) =
     set (objKeys (spec_channels spec)) \<union> (\<Union>e \<in> set entities. set (entityChannelNames e))"
  by (induction entities arbitrary: spec)
     (auto simp add: spec_generateEntityChannels objKeys_objSet entityChannelNames_def)

text \<open>Two channel names are equal only for equal lower-cased names and the same event.\<close>

lemma channel_name_eq:
  assumes "length s = 8" "length t = 8"
  shows "(a @ s = b @ t) = (a = b \<and> s = t)"
  using assms by (simp add: append_eq_append_conv)

lemma entityChannelNames_disjoint:
  assumes "toLowerCase (ent_name e) \<noteq> toLowerCase (ent_name e')"
  shows "set (entityChannelNames e) \<inter> set (entityChannelNames e') = {}"
  using assms by (auto simp add: entityChannelNames_def channel_name_eq)

lemma entityChannelNames_distinct: "distinct (entityChannelNames e)"
  by (simp add: entityChannelNames_def)

lemma system_health_not_entity: "''system.health'' \<notin> set (entityChannelNames e)"
proof -
  have split: "''system.health'' = ''syste'' @ ''m.health''" by simp
  show ?thesis unfolding entityChannelNames_def split
    by (simp add: channel_name_eq del: append.simps)
qed

text \<open>The channel names after the loop, in order, when the lower-cased names differ.\<close>

lemma channel_names_loop_ordered:
  assumes "distinct (map (\<lambda>e. toLowerCase (ent_name e)) entities)"
    and "spec_channels spec = []"
  shows "objKeys (spec_channels (foldl generateEntityChannels spec entities)) =
           concat (map entityChannelNames entities)"
  using assms(1)
proof (induction entities rule: rev_induct)
  case Nil
  then show ?case using assms(2) by (simp add: objKeys_def)
next
  case (snoc e entities)
  let ?before = "foldl generateEntityChannels spec entities"
  have d: "distinct (map (\<lambda>e. toLowerCase (ent_name e)) entities)"
    and fresh: "\<forall>e' \<in> set entities. toLowerCase (ent_name e') \<noteq> toLowerCase (ent_name e)"
    using snoc.prems by (auto simp add: image_iff)
  have keys: "objKeys (spec_channels ?before) = concat (map entityChannelNames entities)"
    using snoc.IH[OF d] .
  have new: "set (entityChannelNames e) \<inter> set (objKeys (spec_channels ?before)) = {}"
  proof -
    have "set (entityChannelNames e) \<inter> set (entityChannelNames e') = {}"
      if "e' \<in> set entities" for e'
      using fresh that by (intro entityChannelNames_disjoint) auto
    then show ?thesis unfolding keys by auto
  qed
  let ?c = "toLowerCase (ent_name e) @ ''.created''"
  let ?u = "toLowerCase (ent_name e) @ ''.updated''"
  let ?d = "toLowerCase (ent_name e) @ ''.deleted''"
  have c: "?c \<notin> set (objKeys (spec_channels ?before))"
    and u: "?u \<notin> set (objKeys (spec_channels ?before))"
    and dl: "?d \<notin> set (objKeys (spec_channels ?before))"
    using new by (auto simp add: entityChannelNames_def)
  have "objKeys (spec_channels (generateEntityChannels ?before e)) =
          objKeys (spec_channels ?before) @ [?c, ?u, ?d]"
    using c u dl
    by (simp add: spec_generateEntityChannels objSet_new objKeys_def channel_name_eq)
  then have step: "objKeys (spec_channels (generateEntityChannels ?before e)) =
          objKeys (spec_channels ?before) @ entityChannelNames e"
    by (simp add: entityChannelNames_def)
  show ?case by (simp add: step keys)
qed

text \<open>Every channel stays bound while channels and their messages are added.\<close>

lemma bound_after_entity:
  assumes "\<forall>(name, channel) \<in> set (spec_channels spec). boundToMessage spec channel"
  shows "\<forall>(name, channel) \<in> set (spec_channels (generateEntityChannels spec entity)).
           boundToMessage (generateEntityChannels spec entity) channel"
proof -
  let ?spec' = "generateEntityChannels spec entity"
  have grow: "set (objKeys (spec_messages spec)) \<subseteq> set (objKeys (spec_messages ?spec'))"
    by (auto simp add: spec_generateEntityChannels objKeys_objSet)
  have new: "ent_name entity @ ''CreatedMessage'' \<in> set (objKeys (spec_messages ?spec'))"
    "ent_name entity @ ''UpdatedMessage'' \<in> set (objKeys (spec_messages ?spec'))"
    "ent_name entity @ ''DeletedMessage'' \<in> set (objKeys (spec_messages ?spec'))"
    by (simp_all add: spec_generateEntityChannels objKeys_objSet)
  have old: "boundToMessage spec channel \<Longrightarrow> boundToMessage ?spec' channel" for channel
    using grow by (auto simp add: boundToMessage_def)
  have ours: "boundToMessage ?spec' (entityChannel entity ''Created'' ''created'')"
    "boundToMessage ?spec' (entityChannel entity ''Updated'' ''updated'')"
    "boundToMessage ?spec' (entityChannel entity ''Deleted'' ''deleted'')"
    using new by (simp_all add: boundToMessage_def channelMessage_def entityChannel_def)
  have "set (spec_channels ?spec') \<subseteq>
          {(toLowerCase (ent_name entity) @ ''.created'', entityChannel entity ''Created'' ''created''),
           (toLowerCase (ent_name entity) @ ''.updated'', entityChannel entity ''Updated'' ''updated''),
           (toLowerCase (ent_name entity) @ ''.deleted'', entityChannel entity ''Deleted'' ''deleted'')}
          \<union> set (spec_channels spec)"
  proof -
    let ?c1 = "objSet (spec_channels spec) (toLowerCase (ent_name entity) @ ''.created'')
                 (entityChannel entity ''Created'' ''created'')"
    let ?c2 = "objSet ?c1 (toLowerCase (ent_name entity) @ ''.updated'')
                 (entityChannel entity ''Updated'' ''updated'')"
    show ?thesis
      unfolding spec_generateEntityChannels
      using set_objSet_subset[of "spec_channels spec"
              "toLowerCase (ent_name entity) @ ''.created''"
              "entityChannel entity ''Created'' ''created''"]
            set_objSet_subset[of ?c1 "toLowerCase (ent_name entity) @ ''.updated''"
              "entityChannel entity ''Updated'' ''updated''"]
            set_objSet_subset[of ?c2 "toLowerCase (ent_name entity) @ ''.deleted''"
              "entityChannel entity ''Deleted'' ''deleted''"]
      by blast
  qed
  then show ?thesis using assms old ours by fastforce
qed

lemma bound_after_loop:
  assumes "\<forall>(name, channel) \<in> set (spec_channels spec). boundToMessage spec channel"
  shows "\<forall>(name, channel) \<in> set (spec_channels (foldl generateEntityChannels spec entities)).
           boundToMessage (foldl generateEntityChannels spec entities) channel"
  using assms
proof (induction entities arbitrary: spec)
  case Nil
  then show ?case by simp
next
  case (Cons e entities)
  show ?case using Cons.IH[OF bound_after_entity[OF Cons.prems]] by simp
qed

lemma bound_generateChannels:
  assumes "spec_channels spec = []"
  shows "\<forall>(name, channel) \<in> set (spec_channels (generateChannels dataModel spec)).
           boundToMessage (generateChannels dataModel spec) channel"
proof -
  let ?loop = "foldl generateEntityChannels spec (dm_entities dataModel)"
  let ?health = "\<lparr>ch_description = ''System health check events'', ch_publish = None,
                   ch_subscribe = Some \<lparr>op_operationId = ''publishHealthCheck'',
                                        op_summary = ''Publish system health status'',
                                        op_message = ''#/components/messages/HealthCheckMessage''\<rparr>\<rparr>"
  let ?spec' = "generateChannels dataModel spec"
  have loop: "\<forall>(name, channel) \<in> set (spec_channels ?loop). boundToMessage ?loop channel"
    using bound_after_loop[of spec] assms by simp
  have chans: "spec_channels ?spec' = objSet (spec_channels ?loop) ''system.health'' ?health"
    and msgs: "set (objKeys (spec_messages ?spec')) =
                 insert ''HealthCheckMessage'' (set (objKeys (spec_messages ?loop)))"
    by (simp_all add: generateChannels_def generateSystemMessages_def Let_def objKeys_objSet)
  have old: "boundToMessage ?loop channel \<Longrightarrow> boundToMessage ?spec' channel" for channel
    using msgs by (auto simp add: boundToMessage_def)
  have health: "boundToMessage ?spec' ?health"
    using msgs by (simp add: boundToMessage_def channelMessage_def)
  have "set (spec_channels ?spec') \<subseteq> insert (''system.health'', ?health) (set (spec_channels ?loop))"
    unfolding chans by (rule set_objSet_subset)
  then show ?thesis using loop old health by fastforce
qed

lemma spec_generateMessageTraits [simp]:
  "spec_channels (generateMessageTraits spec) = spec_channels spec"
  "spec_messages (generateMessageTraits spec) = spec_messages spec"
  by (simp_all add: generateMessageTraits_def)

lemma generateAsyncAPISpec_steps:
  "\<exists>spec. spec_channels spec = [] \<and> spec_messages spec = []
      \<and> generateAsyncAPISpec config dataModel =
          generateMessageTraits (generateChannels dataModel spec)"
proof (cases "truthyString (prj_author (cfg_project config))")
  case True
  let ?spec = "generateSchemas dataModel
      \<lparr>spec_asyncapi = ''2.6.0'',
       spec_info = \<lparr>info_title = prj_name (cfg_project config) @ '' Events'',
                    info_version = prj_version (cfg_project config),
                    info_description =
                      Some (''Event-driven API for '' @ prj_name (cfg_project config)),
                    info_contact = prj_author (cfg_project config)\<rparr>,
       spec_servers = generateServers,
       spec_channels = [], spec_messages = [], spec_schemas = [],
       spec_messageTraits = None\<rparr>"
  have "generateAsyncAPISpec config dataModel =
          generateMessageTraits (generateChannels dataModel ?spec)"
    using True by (simp add: generateAsyncAPISpec_def Let_def)
  moreover have "spec_channels ?spec = []" "spec_messages ?spec = []" by simp_all
  ultimately show ?thesis by blast
next
  case False
  let ?spec = "generateSchemas dataModel
      \<lparr>spec_asyncapi = ''2.6.0'',
       spec_info = \<lparr>info_title = prj_name (cfg_project config) @ '' Events'',
                    info_version = prj_version (cfg_project config),
                    info_description =
                      Some (''Event-driven API for '' @ prj_name (cfg_project config)),
                    info_contact = None\<rparr>,
       spec_servers = generateServers,
       spec_channels = [], spec_messages = [], spec_schemas = [],
       spec_messageTraits = None\<rparr>"
  have "generateAsyncAPISpec config dataModel =
          generateMessageTraits (generateChannels dataModel ?spec)"
    using False by (simp add: generateAsyncAPISpec_def Let_def)
  moreover have "spec_channels ?spec = []" "spec_messages ?spec = []" by simp_all
  ultimately show ?thesis by blast
qed

lemma spec_channels_generateChannels:
  "spec_channels (generateChannels dataModel spec) =
     objSet (spec_channels (foldl generateEntityChannels spec (dm_entities dataModel)))
       ''system.health''
       \<lparr>ch_description = ''System health check events'', ch_publish = None,
        ch_subscribe = Some \<lparr>op_operationId = ''publishHealthCheck'',
                             op_summary = ''Publish system health status'',
                             op_message = ''#/components/messages/HealthCheckMessage''\<rparr>\<rparr>"
  by (simp add: generateChannels_def generateSystemMessages_def Let_def)

text \<open>
  Claim C9, as amended. For every configuration and model, the channels of the generated
  AsyncAPI document are the three channels \<^verbatim>\<open>{name}.created\<close>, \<^verbatim>\<open>{name}.updated\<close> and
  \<^verbatim>\<open>{name}.deleted\<close> of every entity, \<open>name\<close> being the entity name in lower case, and the
  system-wide channel \<^verbatim>\<open>system.health\<close>. When the lower-cased entity names differ from
  each other these are exactly three channels per entity, in the order of the entities,
  followed by \<^verbatim>\<open>system.health\<close>. Every channel of the document refers to a message
  definition that the document contains. For the sample model of User and Post the
  channels are the six entity channels and \<^verbatim>\<open>system.health\<close>.
\<close>

theorem asyncapi_channels:
  "set (objKeys (spec_channels (generateAsyncAPISpec config dataModel))) =
     (\<Union>e \<in> set (dm_entities dataModel). set (entityChannelNames e)) \<union> {''system.health''}
   \<and> (distinct (map (\<lambda>e. toLowerCase (ent_name e)) (dm_entities dataModel)) \<longrightarrow>
        objKeys (spec_channels (generateAsyncAPISpec config dataModel)) =
          concat (map entityChannelNames (dm_entities dataModel)) @ [''system.health''])
   \<and> (\<forall>(name, channel) \<in> set (spec_channels (generateAsyncAPISpec config dataModel)).
        boundToMessage (generateAsyncAPISpec config dataModel) channel)
   \<and> objKeys (spec_channels (generateAsyncAPISpec config generateSample)) =
       [''user.created'', ''user.updated'', ''user.deleted'',
        ''post.created'', ''post.updated'', ''post.deleted'', ''system.health'']"
proof -
  have ordered: "objKeys (spec_channels (generateAsyncAPISpec c m)) =
          concat (map entityChannelNames (dm_entities m)) @ [''system.health'']"
    if d: "distinct (map (\<lambda>e. toLowerCase (ent_name e)) (dm_entities m))" for c m
  proof -
    obtain spec where spec: "spec_channels spec = []" "spec_messages spec = []"
      "generateAsyncAPISpec c m = generateMessageTraits (generateChannels m spec)"
      using generateAsyncAPISpec_steps by blast
    have loop: "objKeys (spec_channels (foldl generateEntityChannels spec (dm_entities m))) =
                  concat (map entityChannelNames (dm_entities m))"
      using channel_names_loop_ordered[OF d spec(1)] .
    have "''system.health''
            \<notin> set (objKeys (spec_channels (foldl generateEntityChannels spec (dm_entities m))))"
      using system_health_not_entity by (simp add: loop)
    then have "spec_channels (generateChannels m spec) =
        spec_channels (foldl generateEntityChannels spec (dm_entities m))
        @ [(''system.health'',
            \<lparr>ch_description = ''System health check events'', ch_publish = None,
             ch_subscribe = Some \<lparr>op_operationId = ''publishHealthCheck'',
                                  op_summary = ''Publish system health status'',
                                  op_message = ''#/components/messages/HealthCheckMessage''\<rparr>\<rparr>)]"
      unfolding spec_channels_generateChannels by (rule objSet_new)
    then show ?thesis
      using loop by (simp add: spec(3) objKeys_def)
  qed
  obtain spec where spec: "spec_channels spec = []" "spec_messages spec = []"
    "generateAsyncAPISpec config dataModel =
       generateMessageTraits (generateChannels dataModel spec)"
    using generateAsyncAPISpec_steps by blast
  have names: "set (objKeys (spec_channels (generateAsyncAPISpec config dataModel))) =
     (\<Union>e \<in> set (dm_entities dataModel). set (entityChannelNames e)) \<union> {''system.health''}"
    using channel_names_loop[of spec "dm_entities dataModel"] spec(1)
    by (simp add: spec(3) spec_channels_generateChannels objKeys_objSet objKeys_Nil)
  have bound: "\<forall>(name, channel) \<in> set (spec_channels (generateAsyncAPISpec config dataModel)).
        boundToMessage (generateAsyncAPISpec config dataModel) channel"
    using bound_generateChannels[OF spec(1), of dataModel]
    by (simp add: spec(3) boundToMessage_def)
  have "distinct (map (\<lambda>e. toLowerCase (ent_name e)) (dm_entities generateSample))"
    by (simp add: generateSample_def sampleUser_def samplePost_def sample_lower_case)
  from ordered[OF this, of config]
  have sample: "objKeys (spec_channels (generateAsyncAPISpec config generateSample)) =
       [''user.created'', ''user.updated'', ''user.deleted'',
        ''post.created'', ''post.updated'', ''post.deleted'', ''system.health'']"
    by (simp add: generateSample_def sampleUser_def samplePost_def entityChannelNames_def
        sample_lower_case)
  show ?thesis
  proof (intro conjI impI)
    show "set (objKeys (spec_channels (generateAsyncAPISpec config dataModel))) =
      (\<Union>e \<in> set (dm_entities dataModel). set (entityChannelNames e)) \<union> {''system.health''}"
      by (rule names)
    show "objKeys (spec_channels (generateAsyncAPISpec config dataModel)) =
          concat (map entityChannelNames (dm_entities dataModel)) @ [''system.health'']"
      if "distinct (map (\<lambda>e. toLowerCase (ent_name e)) (dm_entities dataModel))"
      using ordered[OF that] .
    show "\<forall>(name, channel) \<in> set (spec_channels (generateAsyncAPISpec config dataModel)).
        boundToMessage (generateAsyncAPISpec config dataModel) channel"
      by (rule bound)
    show "objKeys (spec_channels (generateAsyncAPISpec config generateSample)) =
       [''user.created'', ''user.updated'', ''user.deleted'',
        ''post.created'', ''post.updated'', ''post.deleted'', ''system.health'']"
      by (rule sample)
  qed
qed

text \<open>
  Claim C9 as stated fails for the sample model: the channels of the document are seven,
  and \<^verbatim>\<open>system.health\<close> is one of them.
\<close>

theorem asyncapi_channels_sample:
  "length (spec_channels (generateAsyncAPISpec sampleConfig generateSample)) = 7
   \<and> ''system.health''
       \<in> set (objKeys (spec_channels (generateAsyncAPISpec sampleConfig generateSample)))
   \<and> set (objKeys (spec_channels (generateAsyncAPISpec sampleConfig generateSample))) \<noteq>
       {''user.created'', ''user.updated'', ''user.deleted'',
        ''post.created'', ''post.updated'', ''post.deleted''}"
proof -
  have d: "distinct (map (\<lambda>e. toLowerCase (ent_name e)) (dm_entities generateSample))"
    by (simp add: generateSample_def sampleUser_def samplePost_def sample_lower_case)
  have keys: "objKeys (spec_channels (generateAsyncAPISpec sampleConfig generateSample)) =
       [''user.created'', ''user.updated'', ''user.deleted'',
        ''post.created'', ''post.updated'', ''post.deleted'', ''system.health'']"
    using asyncapi_channels[of sampleConfig generateSample] by (elim conjE)
  have "length (objKeys (spec_channels (generateAsyncAPISpec sampleConfig generateSample))) = 7"
    unfolding keys by simp
  then have len: "length (spec_channels (generateAsyncAPISpec sampleConfig generateSample)) = 7"
    by (simp add: objKeys_def)
  have mem: "''system.health''
       \<in> set (objKeys (spec_channels (generateAsyncAPISpec sampleConfig generateSample)))"
    unfolding keys by simp
  have ne: "set (objKeys (spec_channels (generateAsyncAPISpec sampleConfig generateSample))) \<noteq>
       {''user.created'', ''user.updated'', ''user.deleted'',
        ''post.created'', ''post.updated'', ''post.deleted''}"
  proof
    assume "set (objKeys (spec_channels (generateAsyncAPISpec sampleConfig generateSample))) =
       {''user.created'', ''user.updated'', ''user.deleted'',
        ''post.created'', ''post.updated'', ''post.deleted''}"
    with mem have "''system.health'' \<in> {''user.created'', ''user.updated'', ''user.deleted'',
        ''post.created'', ''post.updated'', ''post.deleted''}"
      by simp
    then show False by simp
  qed
  from len mem ne show ?thesis by (intro conjI)
qed

lemma objSet_mem: "(k, v) \<in> set (objSet obj k v)"
proof (induction obj)
  case Nil
  then show ?case by simp
next
  case (Cons e obj)
  obtain a b where e: "e = (a, b)" by (cases e)
  show ?case using Cons e by (cases "a = k") auto
qed

lemma objSet_keeps: "(k', v') \<in> set obj \<Longrightarrow> k' \<noteq> k \<Longrightarrow> (k', v') \<in> set (objSet obj k v)"
proof (induction obj)
  case Nil
  then show ?case by simp
next
  case (Cons e obj)
  obtain a b where e: "e = (a, b)" by (cases e)
  show ?case using Cons e by (cases "a = k") auto
qed

lemma last_entity_channel:
  "(toLowerCase (ent_name e) @ ''.deleted'', entityChannel e ''Deleted'' ''deleted'')
     \<in> set (spec_channels (generateChannels
                (dataModel\<lparr>dm_entities := entities @ [e]\<rparr>) spec))"
proof -
  have "(toLowerCase (ent_name e) @ ''.deleted'', entityChannel e ''Deleted'' ''deleted'')
          \<in> set (spec_channels (foldl generateEntityChannels spec (entities @ [e])))"
    by (simp add: spec_generateEntityChannels objSet_mem)
  moreover have "toLowerCase (ent_name e) @ ''.deleted'' \<noteq> ''system.health''"
    using system_health_not_entity[of e] by (auto simp add: entityChannelNames_def)
  ultimately show ?thesis
    unfolding spec_channels_generateChannels by (simp add: objSet_keeps)
qed

theorem asyncapi_channels_witness:
  "distinct (map (\<lambda>e. toLowerCase (ent_name e)) (dm_entities generateSample))
   \<and> objKeys (spec_channels (generateAsyncAPISpec sampleConfig generateSample)) =
       concat (map entityChannelNames (dm_entities generateSample)) @ [''system.health'']
   \<and> (''post.deleted'', entityChannel samplePost ''Deleted'' ''deleted'')
       \<in> set (spec_channels (generateAsyncAPISpec sampleConfig generateSample))
   \<and> boundToMessage (generateAsyncAPISpec sampleConfig generateSample)
        (entityChannel samplePost ''Deleted'' ''deleted'')"
proof -
  have d: "distinct (map (\<lambda>e. toLowerCase (ent_name e)) (dm_entities generateSample))"
    by (simp add: generateSample_def sampleUser_def samplePost_def sample_lower_case)
  note inst = asyncapi_channels[of sampleConfig generateSample]
  have ordered: "objKeys (spec_channels (generateAsyncAPISpec sampleConfig generateSample)) =
       concat (map entityChannelNames (dm_entities generateSample)) @ [''system.health'']"
    using inst[THEN conjunct2, THEN conjunct1] d by (rule mp)
  obtain spec where spec:
    "generateAsyncAPISpec sampleConfig generateSample =
       generateMessageTraits (generateChannels generateSample spec)"
    using generateAsyncAPISpec_steps by blast
  have sample: "generateSample = generateSample\<lparr>dm_entities := [sampleUser] @ [samplePost]\<rparr>"
    by (simp add: generateSample_def)
  have "(toLowerCase (ent_name samplePost) @ ''.deleted'',
         entityChannel samplePost ''Deleted'' ''deleted'')
          \<in> set (spec_channels (generateAsyncAPISpec sampleConfig generateSample))"
    unfolding spec spec_generateMessageTraits
    using last_entity_channel[where e = samplePost and dataModel = generateSample
            and entities = "[sampleUser]" and spec = spec] sample
    by simp
  then have mem: "(''post.deleted'', entityChannel samplePost ''Deleted'' ''deleted'')
       \<in> set (spec_channels (generateAsyncAPISpec sampleConfig generateSample))"
    by (simp add: samplePost_def sample_lower_case)
  have bound: "\<forall>(name, channel)
        \<in> set (spec_channels (generateAsyncAPISpec sampleConfig generateSample)).
        boundToMessage (generateAsyncAPISpec sampleConfig generateSample) channel"
    using inst[THEN conjunct2, THEN conjunct2, THEN conjunct1] .
  from bound mem
  have "boundToMessage (generateAsyncAPISpec sampleConfig generateSample)
          (entityChannel samplePost ''Deleted'' ''deleted'')"
    by fast
  with d ordered mem show ?thesis by (intro conjI)
qed

section \<open>Business rules: accumulation and the exception of the parser\<close>

lemma foldl_appends:
  assumes "\<And>a x. f a x = a @ g x"
  shows "foldl f a xs = a @ concat (map g xs)"
  using assms by (induction xs arbitrary: a) simp_all

lemma parserCheckRelationship_appends:
  "parserCheckRelationship entityNames entity errs field =
     errs @ relationshipViolations entityNames entity field"
  by (simp add: parserCheckRelationship_def relationshipViolations_def quoted_def Let_def
      split: option.splits)

lemma parserCheckEntity_appends:
  "parserCheckEntity entityNames errs entity = errs @ entityViolations entityNames entity"
proof -
  have "(filter (\<lambda>f. truthyBool (fld_isPrimaryKey f)) (ent_fields entity) = [])
          = (\<not> (\<exists>f \<in> set (ent_fields entity). truthyBool (fld_isPrimaryKey f)))"
    by (simp add: filter_empty_conv)
  then show ?thesis
    by (simp add: parserCheckEntity_def entityViolations_def Let_def
        foldl_appends[OF parserCheckRelationship_appends])
qed

lemma parserCheckEnumReference_appends:
  "parserCheckEnumReference enumNames entity errs field =
     errs @ enumReferenceViolations enumNames entity field"
  by (simp add: parserCheckEnumReference_def enumReferenceViolations_def quoted_def
      split: option.splits EnumMember.splits list.splits)

lemma checkDuplicateEntityNames_result:
  "checkDuplicateEntityNames entities ({}, []) =
     (set (map ent_name entities), duplicateNameViolations entities)"
proof (induction entities rule: rev_induct)
  case Nil
  then show ?case by (simp add: checkDuplicateEntityNames_def duplicateNameViolations_def)
next
  case (snoc e entities)
  have same: "[''Duplicate entity name: '' @ ent_name ((entities @ [e]) ! i).
                 i \<leftarrow> [0..<length entities],
                 ent_name ((entities @ [e]) ! i) \<in> set (map ent_name (take i (entities @ [e])))]
            = duplicateNameViolations entities"
    unfolding duplicateNameViolations_def
    by (intro arg_cong[where f = concat] map_cong) (simp_all add: nth_append)
  have "duplicateNameViolations (entities @ [e]) =
          duplicateNameViolations entities
          @ (if ent_name e \<in> set (map ent_name entities)
             then [''Duplicate entity name: '' @ ent_name e] else [])"
    using same by (simp add: duplicateNameViolations_def)
  then show ?case using snoc
    by (simp add: checkDuplicateEntityNames_def)
qed

lemma parserBusinessRuleErrors_violations:
  "parserBusinessRuleErrors dataModel = businessRuleViolations dataModel"
proof -
  have inner: "foldl (parserCheckEnumReference enumNames entity) errs (ent_fields entity)
      = errs @ concat (map (enumReferenceViolations enumNames entity) (ent_fields entity))"
    for enumNames entity errs
    by (rule foldl_appends[OF parserCheckEnumReference_appends])
  show ?thesis
    by (simp add: parserBusinessRuleErrors_def businessRuleViolations_def
        checkDuplicateEntityNames_result Let_def
        foldl_appends[OF parserCheckEntity_appends]
        foldl_appends[where f = "\<lambda>errs entity.
            foldl (parserCheckEnumReference enumNames entity) errs (ent_fields entity)"
          for enumNames, OF inner])
qed

lemma onlyAppends_refl [simp]: "onlyAppends r r"
  by (simp add: onlyAppends_def)

lemma onlyAppends_trans: "onlyAppends a b \<Longrightarrow> onlyAppends b c \<Longrightarrow> onlyAppends a c"
  by (auto simp add: onlyAppends_def)

lemma onlyAppends_push [simp]:
  "onlyAppends r (pushError m r)" "onlyAppends r (pushWarning m r)"
  by (simp_all add: onlyAppends_def pushError_def pushWarning_def)

lemma onlyAppends_valid [simp]: "onlyAppends r (r'\<lparr>valid := b\<rparr>) = onlyAppends r r'"
  by (simp add: onlyAppends_def)

lemma onlyAppends_foldl:
  assumes "onlyAppends r a" and "\<And>r x. onlyAppends r (f r x)"
  shows "onlyAppends r (foldl f a xs)"
  using assms(1)
proof (induction xs arbitrary: a)
  case Nil
  then show ?case by simp
next
  case (Cons x xs)
  have "onlyAppends r (f a x)" using onlyAppends_trans[OF Cons.prems assms(2)] .
  then show ?case using Cons.IH by simp
qed

lemma onlyAppends_foldl_snd:
  assumes "onlyAppends r a" and "\<And>s r x. onlyAppends r (snd (f (s, r) x))"
  shows "onlyAppends r (snd (foldl f (s, a) xs))"
  using assms(1)
proof (induction xs arbitrary: s a)
  case Nil
  then show ?case by simp
next
  case (Cons x xs)
  obtain s' a' where step: "f (s, a) x = (s', a')" by (cases "f (s, a) x")
  have "onlyAppends a a'" using assms(2)[of a s x] step by simp
  then have "onlyAppends r a'" using onlyAppends_trans[OF Cons.prems] by simp
  then show ?case using Cons.IH[of a' s'] step by simp
qed

lemma onlyAppends_pushed:
  "onlyAppends r r' \<Longrightarrow> onlyAppends r (pushError m r')"
  "onlyAppends r r' \<Longrightarrow> onlyAppends r (pushWarning m r')"
  using onlyAppends_trans onlyAppends_push by blast+

lemma onlyAppends_Let: "onlyAppends r (f x) \<Longrightarrow> onlyAppends r (Let x f)"
  by simp

lemma onlyAppends_If:
  "onlyAppends r a \<Longrightarrow> onlyAppends r b \<Longrightarrow> onlyAppends r (if c then a else b)"
  by simp

lemma onlyAppends_case_option:
  "onlyAppends r a \<Longrightarrow> (\<And>v. onlyAppends r (b v)) \<Longrightarrow> onlyAppends r (case_option a b x)"
  by (cases x) simp_all

lemma onlyAppends_case_prod:
  "(\<And>a b. onlyAppends r (f a b)) \<Longrightarrow> onlyAppends r (case_prod f p)"
  by (cases p) simp

lemmas onlyAppends_intros =
  onlyAppends_refl onlyAppends_pushed onlyAppends_Let onlyAppends_If onlyAppends_case_option
  onlyAppends_case_prod

lemma onlyAppends_checkFieldRelationship:
  "onlyAppends r r' \<Longrightarrow> onlyAppends r (checkFieldRelationship entityNames entity r' field)"
  unfolding checkFieldRelationship_def by (intro onlyAppends_intros)

lemma onlyAppends_validateEntityRelationships:
  "onlyAppends r r' \<Longrightarrow> onlyAppends r (validateEntityRelationships dataModel r')"
  unfolding validateEntityRelationships_def Let_def
  by (intro onlyAppends_foldl onlyAppends_checkFieldRelationship onlyAppends_refl)

lemma onlyAppends_validateFieldDataType:
  "onlyAppends r r' \<Longrightarrow> onlyAppends r (validateFieldDataType entityName field strict r')"
  unfolding validateFieldDataType_def by (intro onlyAppends_intros)

lemma onlyAppends_checkEntityFields:
  "onlyAppends r r' \<Longrightarrow> onlyAppends r (checkEntityFields strict r' entity)"
proof -
  assume start: "onlyAppends r r'"
  have body: "onlyAppends r (snd p) \<Longrightarrow>
      onlyAppends r
        (case p of
           (fieldNames, result) \<Rightarrow>
             let primaryKeys = filter (\<lambda>f. truthyBool (fld_isPrimaryKey f)) (ent_fields entity);
                 result =
                   (if length primaryKeys = 0
                    then pushError (''Entity '' @ ent_name entity
                                    @ '': must have at least one primary key field'') result
                    else result);
                 generatedPrimaryKeys = filter (\<lambda>f. truthyBool (fld_isGenerated f)) primaryKeys
             in if length generatedPrimaryKeys > 1
                then pushError (''Entity '' @ ent_name entity
                                @ '': cannot have multiple generated primary keys'') result
                else result)" for p
    by (cases p) (simp only: prod.case snd_conv, intro onlyAppends_intros)
  show ?thesis
    unfolding checkEntityFields_def
    apply (rule onlyAppends_Let)
    apply (rule body)
    apply (rule onlyAppends_foldl_snd[OF start])
    apply (simp only: prod.case Let_def snd_conv)
    apply (intro onlyAppends_Let onlyAppends_validateFieldDataType onlyAppends_If
             onlyAppends_pushed onlyAppends_refl)
    done
qed

lemma onlyAppends_validateEntityFields:
  "onlyAppends r r' \<Longrightarrow> onlyAppends r (validateEntityFields dataModel strict r')"
  unfolding validateEntityFields_def
  by (intro onlyAppends_foldl onlyAppends_checkEntityFields onlyAppends_refl)

lemma onlyAppends_validateNamingConventions:
  "onlyAppends r r' \<Longrightarrow> onlyAppends r (validateNamingConventions dataModel strict r')"
  unfolding validateNamingConventions_def
  by (intro onlyAppends_Let onlyAppends_case_option onlyAppends_foldl onlyAppends_If
         onlyAppends_pushed onlyAppends_refl)


lemma onlyAppends_checkCircularRelationships:
  "onlyAppends r r' \<Longrightarrow> onlyAppends r (checkCircularRelationships dataModel r')"
proof -
  assume start: "onlyAppends r r'"
  have step: "onlyAppends a
      (snd (if ent_name entity \<notin> visited st
            then (let (found, st') = hasCycle g (ent_name entity) st
                  in if found
                     then (st', pushWarning (circularWarning (ent_name entity)) a)
                     else (st', a))
            else (st, a)))" for a st entity g
    by (cases "hasCycle g (ent_name entity) st") (simp del: hasCycle.simps)
  show ?thesis
    unfolding checkCircularRelationships_def Let_def
    apply (rule onlyAppends_foldl_snd[OF start])
    apply (simp only: prod.case)
    apply (rule step[unfolded Let_def])
    done
qed

lemma onlyAppends_commandChecks: "onlyAppends r (commandChecks dataModel strict r)"
  unfolding commandChecks_def ValidateCommand_validateBusinessRules_def
    validateRelationshipLogic_def
  by (intro onlyAppends_checkCircularRelationships onlyAppends_validateNamingConventions
         onlyAppends_validateEntityFields onlyAppends_validateEntityRelationships
         onlyAppends_refl)

lemma join_newline_joinedLines: "join [CHR 0x0A] messages = joinedLines messages"
  by (induction messages rule: joinedLines.induct) simp_all

lemma validateAndParse_conforming:
  "validateAndParse (Conforming dataModel) =
     (if businessRuleViolations dataModel = [] then Inr dataModel
      else Inl (Error (''Business rule validation failed:'' @ [CHR 0x0A]
                       @ joinedLines (businessRuleViolations dataModel))))"
  by (simp add: DataModelParser_validateBusinessRules_def parserBusinessRuleErrors_violations
      newline_def join_newline_joinedLines)

lemma validateDataModel_checks:
  "parseFromFile modelFile = Inr dataModel \<Longrightarrow>
     validateDataModel modelFile strict result =
       (commandChecks dataModel strict result)
         \<lparr>valid := (errors (commandChecks dataModel strict result) = [])\<rparr>"
  by (cases modelFile) (simp_all add: validateDataModel_def commandChecks_def Let_def)

lemma validateDataModel_caught:
  "parseFromFile (FileContent ext parsed) = Inl (Error message) \<Longrightarrow>
     validateDataModel (FileContent ext parsed) strict result =
       result\<lparr>errors := errors result @ [''Data model validation failed: '' @ message]\<rparr>"
  by (simp add: validateDataModel_def pushError_def)

lemma validateDataModel_json:
  "validateDataModel (FileContent ''.json'' (Inr (Conforming dataModel))) strict result =
     (if businessRuleViolations dataModel = []
      then (commandChecks dataModel strict result)
             \<lparr>valid := (errors (commandChecks dataModel strict result) = [])\<rparr>
      else result\<lparr>errors := errors result
               @ [''Data model validation failed: Business rule validation failed:''
                  @ [CHR 0x0A] @ joinedLines (businessRuleViolations dataModel)]\<rparr>)"
proof (cases "businessRuleViolations dataModel = []")
  case True
  then have "parseFromFile (FileContent ''.json'' (Inr (Conforming dataModel))) = Inr dataModel"
    by (simp add: parseFromJson_def validateAndParse_conforming del: validateAndParse.simps)
  from validateDataModel_checks[OF this] True show ?thesis by simp
next
  case False
  then have "parseFromFile (FileContent ''.json'' (Inr (Conforming dataModel))) =
      Inl (Error (''Business rule validation failed:'' @ [CHR 0x0A]
                  @ joinedLines (businessRuleViolations dataModel)))"
    by (simp add: parseFromJson_def validateAndParse_conforming del: validateAndParse.simps)
  from validateDataModel_caught[OF this] False show ?thesis by simp
qed

lemma validateDataModel_yaml:
  assumes "ext = ''.yaml'' \<or> ext = ''.yml''"
  shows "validateDataModel (FileContent ext (Inr (Conforming dataModel))) strict result =
     (if businessRuleViolations dataModel = []
      then (commandChecks dataModel strict result)
             \<lparr>valid := (errors (commandChecks dataModel strict result) = [])\<rparr>
      else result\<lparr>errors := errors result
               @ [''Data model validation failed: Invalid YAML: Business rule validation failed:''
                  @ [CHR 0x0A] @ joinedLines (businessRuleViolations dataModel)]\<rparr>)"
proof (cases "businessRuleViolations dataModel = []")
  case True
  then have "parseFromFile (FileContent ext (Inr (Conforming dataModel))) = Inr dataModel"
    using assms
    by (auto simp add: parseFromYaml_def validateAndParse_conforming
        simp del: validateAndParse.simps)
  from validateDataModel_checks[OF this] True show ?thesis by simp
next
  case False
  then have "parseFromFile (FileContent ext (Inr (Conforming dataModel))) =
      Inl (Error (''Invalid YAML: Business rule validation failed:'' @ [CHR 0x0A]
                  @ joinedLines (businessRuleViolations dataModel)))"
    using assms
    by (auto simp add: parseFromYaml_def validateAndParse_conforming
        simp del: validateAndParse.simps)
  from validateDataModel_caught[OF this] False show ?thesis by simp
qed

lemma onlyAppends_validateDataModel:
  "onlyAppends result (validateDataModel modelFile strict result)"
proof (cases "parseFromFile modelFile")
  case (Inl e)
  then show ?thesis by (cases modelFile) (simp_all add: validateDataModel_def)
next
  case (Inr dataModel)
  show ?thesis
    using onlyAppends_commandChecks[of result dataModel strict]
    by (simp add: validateDataModel_checks[OF Inr])
qed

text \<open>
  Claim C4, as amended. The business rules of the parser are evaluated one by one, on
  every entity and field, and each violation adds one message: the array of errors is the
  list of all violations. The parser then throws one \<^verbatim>\<open>Error\<close> that carries all the
  messages, each on its own line after the heading, exactly when there is a violation,
  and returns normally otherwise. \<^verbatim>\<open>validateDataModel\<close> catches that exception and
  records it as one entry of \<^verbatim>\<open>errors\<close>, without running the checks of the command and
  without a warning: for a JSON file the entry is the message of the parser behind
  \<^verbatim>\<open>Data model validation failed: \<close>, for a YAML file the parser has wrapped it once more
  in \<^verbatim>\<open>Invalid YAML: \<close>. On a model the parser accepts it runs the checks of the command
  and sets \<^verbatim>\<open>valid\<close> to whether \<^verbatim>\<open>errors\<close> is empty. Whatever it is given,
  \<^verbatim>\<open>validateDataModel\<close> returns, keeps the messages already in \<^verbatim>\<open>errors\<close> and \<^verbatim>\<open>warnings\<close>,
  and only appends to them; whether a non-empty \<^verbatim>\<open>errors\<close> is fatal is left to the caller.
\<close>

theorem business_rules_accumulate:
  "parserBusinessRuleErrors dataModel = businessRuleViolations dataModel
   \<and> DataModelParser_validateBusinessRules dataModel =
       (if businessRuleViolations dataModel = [] then Inr ()
        else Inl (Error (''Business rule validation failed:'' @ [CHR 0x0A]
                         @ joinedLines (businessRuleViolations dataModel))))
   \<and> validateDataModel (FileContent ''.json'' (Inr (Conforming dataModel))) strict result =
       (if businessRuleViolations dataModel = []
        then (commandChecks dataModel strict result)
               \<lparr>valid := (errors (commandChecks dataModel strict result) = [])\<rparr>
        else result\<lparr>errors := errors result
                 @ [''Data model validation failed: Business rule validation failed:''
                    @ [CHR 0x0A] @ joinedLines (businessRuleViolations dataModel)]\<rparr>)
   \<and> validateDataModel (FileContent ''.yaml'' (Inr (Conforming dataModel))) strict result =
       (if businessRuleViolations dataModel = []
        then (commandChecks dataModel strict result)
               \<lparr>valid := (errors (commandChecks dataModel strict result) = [])\<rparr>
        else result\<lparr>errors := errors result
                 @ [''Data model validation failed: Invalid YAML: Business rule validation failed:''
                    @ [CHR 0x0A] @ joinedLines (businessRuleViolations dataModel)]\<rparr>)
   \<and> validateDataModel (FileContent ''.yml'' (Inr (Conforming dataModel))) strict result =
       validateDataModel (FileContent ''.yaml'' (Inr (Conforming dataModel))) strict result
   \<and> onlyAppends result (validateDataModel modelFile strict result)"
proof (intro conjI)
  show "parserBusinessRuleErrors dataModel = businessRuleViolations dataModel"
    by (rule parserBusinessRuleErrors_violations)
  show "DataModelParser_validateBusinessRules dataModel =
       (if businessRuleViolations dataModel = [] then Inr ()
        else Inl (Error (''Business rule validation failed:'' @ [CHR 0x0A]
                         @ joinedLines (businessRuleViolations dataModel))))"
    by (simp add: DataModelParser_validateBusinessRules_def parserBusinessRuleErrors_violations
        newline_def join_newline_joinedLines)
  show "validateDataModel (FileContent ''.json'' (Inr (Conforming dataModel))) strict result =
       (if businessRuleViolations dataModel = []
        then (commandChecks dataModel strict result)
               \<lparr>valid := (errors (commandChecks dataModel strict result) = [])\<rparr>
        else result\<lparr>errors := errors result
                 @ [''Data model validation failed: Business rule validation failed:''
                    @ [CHR 0x0A] @ joinedLines (businessRuleViolations dataModel)]\<rparr>)"
    by (rule validateDataModel_json)
  show "validateDataModel (FileContent ''.yaml'' (Inr (Conforming dataModel))) strict result =
       (if businessRuleViolations dataModel = []
        then (commandChecks dataModel strict result)
               \<lparr>valid := (errors (commandChecks dataModel strict result) = [])\<rparr>
        else result\<lparr>errors := errors result
                 @ [''Data model validation failed: Invalid YAML: Business rule validation failed:''
                    @ [CHR 0x0A] @ joinedLines (businessRuleViolations dataModel)]\<rparr>)"
    by (rule validateDataModel_yaml) simp
  show "validateDataModel (FileContent ''.yml'' (Inr (Conforming dataModel))) strict result =
       validateDataModel (FileContent ''.yaml'' (Inr (Conforming dataModel))) strict result"
    by (simp add: validateDataModel_yaml)
  show "onlyAppends result (validateDataModel modelFile strict result)"
    by (rule onlyAppends_validateDataModel)
qed

lemmas sample_defs = generateSample_def sampleUser_def samplePost_def idField_def plainField_def
  plainType_def relationTo_def noRules_def sampleWithoutEnums_def sampleWithoutForeignKey_def
  commentModel_def

lemmas parser_defs = parserBusinessRuleErrors_def checkDuplicateEntityNames_def
  parserCheckEntity_def parserCheckRelationship_def parserCheckEnumReference_def
  truthyBool_def truthyString_def truthyNat_def

lemmas command_defs = validateEntityRelationships_def
  checkFieldRelationship_def validateEntityFields_def checkEntityFields_def
  validateFieldDataType_def validateNamingConventions_def
  ValidateCommand_validateBusinessRules_def validateRelationshipLogic_def
  checkCircularRelationships_def buildRelationshipGraph_def addEntityToGraph_def graphPush_def
  neighborsOf_def objGet_def pushError_def pushWarning_def newResult_def
  validationMaxLength_def isUpper_def isLower_def isDigit_def quoted_def circularWarning_def
  truthyBool_def truthyString_def truthyNat_def hasCycle.simps

text \<open>
  Claim C4 as stated fails: the business-rule validation of the parser throws. On a model
  that breaks three rules it throws one \<^verbatim>\<open>Error\<close> whose message lists the three
  violations.
\<close>

theorem parser_business_rules_throw:
  "DataModelParser_validateBusinessRules commentModel =
     Inl (Error (''Business rule validation failed:'' @ [CHR 0x0A]
                 @ ''Entity Comment.post: relationship target '' @ [CHR 0x27] @ ''Post''
                 @ [CHR 0x27] @ '' does not exist'' @ [CHR 0x0A]
                 @ ''Entity Comment.post: manyToOne relationship requires foreignKey''
                 @ [CHR 0x0A]
                 @ ''Entity Comment: must have at least one primary key field''))"
  by (simp add: DataModelParser_validateBusinessRules_def sample_defs parser_defs newline_def)

section \<open>Enum references and relationship keys in validation\<close>

text \<open>For an array under \<^verbatim>\<open>enum\<close> the reference check of the parser adds no error.\<close>

lemma parserCheckEnumReference_array:
  "dt_enum (fld_dataType field) = Some (EnumArray values) \<Longrightarrow>
     parserCheckEnumReference enumNames entity errs field = errs"
  by (simp add: parserCheckEnumReference_def split: option.splits)

text \<open>
  Claim C2 at the sample model without its enum definitions, read from a JSON file. The
  field \<^verbatim>\<open>role\<close> has the one-element array \<^verbatim>\<open>['UserRole']\<close> under \<^verbatim>\<open>enum\<close> and no enum
  \<^verbatim>\<open>UserRole\<close> is defined, so the claim expects an error for the field. The parser accepts
  the model, and the validate command reports it valid, with no error and no warning.
\<close>

theorem dangling_enum_reference_accepted:
  "DataModelParser_validateBusinessRules sampleWithoutEnums = Inr ()
   \<and> validateDataModel (FileContent ''.json'' (Inr (Conforming sampleWithoutEnums)))
        False newResult =
       \<lparr>valid = True, errors = [], warnings = []\<rparr>"
proof -
  have parser: "businessRuleViolations sampleWithoutEnums = []"
    unfolding parserBusinessRuleErrors_violations[symmetric]
    by (simp add: sample_defs parser_defs)
  have v1: "validateEntityRelationships sampleWithoutEnums newResult = newResult"
    by (simp add: sample_defs command_defs)
  have v2: "validateEntityFields sampleWithoutEnums False newResult = newResult"
    by (simp add: sample_defs command_defs)
  have v3: "validateNamingConventions sampleWithoutEnums False newResult = newResult"
    by (simp add: sample_defs command_defs)
  have v4: "ValidateCommand_validateBusinessRules sampleWithoutEnums newResult = newResult"
    by (simp add: sample_defs command_defs)
  have checks: "commandChecks sampleWithoutEnums False newResult = newResult"
    by (simp add: commandChecks_def v1 v2 v3 v4)
  have "validateDataModel (FileContent ''.json'' (Inr (Conforming sampleWithoutEnums)))
          False newResult =
          \<lparr>valid = True, errors = [], warnings = []\<rparr>"
    by (simp add: validateDataModel_json parser checks) (simp add: newResult_def)
  moreover have "DataModelParser_validateBusinessRules sampleWithoutEnums = Inr ()"
    by (simp add: DataModelParser_validateBusinessRules_def parserBusinessRuleErrors_violations
        parser)
  ultimately show ?thesis by simp
qed

text \<open>
  Claim C3 at the sample model with the \<^verbatim>\<open>foreignKey\<close> of the manyToOne relationship
  \<^verbatim>\<open>Post.author\<close> removed, read from a JSON file; every other rule passes. The claim
  expects no error and a warning that mentions the field. \<^verbatim>\<open>validateEntityRelationships\<close>
  of the command does give that warning and no error, but it is never reached: the parser
  reports the same field as an error and throws, and \<^verbatim>\<open>validateDataModel\<close> returns that
  error, no warning, and the model not valid.
\<close>

theorem missing_foreign_key_is_an_error:
  "validateDataModel (FileContent ''.json'' (Inr (Conforming sampleWithoutForeignKey)))
     False newResult =
     \<lparr>valid = False,
      errors = [''Data model validation failed: Business rule validation failed:'' @ [CHR 0x0A]
                @ ''Entity Post.author: manyToOne relationship requires foreignKey''],
      warnings = []\<rparr>
   \<and> validateEntityRelationships sampleWithoutForeignKey newResult =
     \<lparr>valid = False, errors = [],
      warnings = [''Entity Post.author: manyToOne relationship should specify foreignKey'']\<rparr>"
proof -
  have parser: "businessRuleViolations sampleWithoutForeignKey =
      [''Entity Post.author: manyToOne relationship requires foreignKey'']"
    unfolding parserBusinessRuleErrors_violations[symmetric]
    by (simp add: sample_defs parser_defs)
  have "validateDataModel (FileContent ''.json'' (Inr (Conforming sampleWithoutForeignKey)))
     False newResult =
     \<lparr>valid = False,
      errors = [''Data model validation failed: Business rule validation failed:'' @ [CHR 0x0A]
                @ ''Entity Post.author: manyToOne relationship requires foreignKey''],
      warnings = []\<rparr>"
    by (simp add: validateDataModel_json parser newResult_def newline_def)
  moreover have "validateEntityRelationships sampleWithoutForeignKey newResult =
     \<lparr>valid = False, errors = [],
      warnings = [''Entity Post.author: manyToOne relationship should specify foreignKey'']\<rparr>"
    by (simp add: sample_defs command_defs)
  ultimately show ?thesis by simp
qed

section \<open>The relationship graph and its cycles\<close>

lemma objGet_objSet: "objGet (objSet obj k v) k' = (if k' = k then Some v else objGet obj k')"
proof (induction obj)
  case Nil
  then show ?case by (simp add: objGet_def)
next
  case (Cons e obj)
  obtain a b where e: "e = (a, b)" by (cases e)
  show ?case using Cons e by (cases "a = k") (auto simp add: objGet_def)
qed

lemma objKeys_objSet_list:
  "objKeys (objSet obj k v) = (if k \<in> set (objKeys obj) then objKeys obj else objKeys obj @ [k])"
proof (induction obj)
  case Nil
  then show ?case by (simp add: objKeys_def)
next
  case (Cons e obj)
  obtain a b where e: "e = (a, b)" by (cases e)
  show ?case using Cons e by (cases "a = k") (auto simp add: objKeys_def)
qed

text \<open>The inner loop over the fields pushes the targets to the array of the entity.\<close>

lemma graph_fields_loop:
  assumes "objGet g name = Some targets"
  shows "objGet (foldl (\<lambda>entityGraph field.
              case fld_relationship field of
                None \<Rightarrow> entityGraph
              | Some relationship \<Rightarrow>
                  if rel_type relationship \<noteq> OneToMany
                  then graphPush entityGraph name (rel_target relationship)
                  else entityGraph) g flds) k
       = (if k = name
          then Some (targets @ concat (map (\<lambda>field.
                    case fld_relationship field of
                      None \<Rightarrow> []
                    | Some relationship \<Rightarrow>
                        if rel_type relationship = OneToMany then []
                        else [rel_target relationship]) flds))
          else objGet g k)"
    and "objKeys (foldl (\<lambda>entityGraph field.
              case fld_relationship field of
                None \<Rightarrow> entityGraph
              | Some relationship \<Rightarrow>
                  if rel_type relationship \<noteq> OneToMany
                  then graphPush entityGraph name (rel_target relationship)
                  else entityGraph) g flds) = objKeys g"
  using assms
proof (induction flds arbitrary: g targets)
  case Nil
  {
    case 1
    then show ?case by simp
  next
    case 2
    then show ?case by simp
  }
next
  case (Cons field flds)
  have key: "name \<in> set (objKeys g)" if "objGet g name = Some ts" for ts g
    using that by (auto simp add: objGet_def objKeys_def dest: map_of_SomeD intro: rev_image_eqI)
  {
    case 1
    show ?case
    proof (cases "fld_relationship field")
      case None
      then show ?thesis using Cons.IH(1)[OF 1] by simp
    next
      case (Some relationship)
      show ?thesis
      proof (cases "rel_type relationship = OneToMany")
        case True
        then show ?thesis using Some Cons.IH(1)[OF 1] by simp
      next
        case False
        have pushed: "objGet (graphPush g name (rel_target relationship)) name
                      = Some (targets @ [rel_target relationship])"
          using 1 by (simp add: graphPush_def objGet_objSet)
        have other: "k \<noteq> name \<Longrightarrow>
            objGet (graphPush g name (rel_target relationship)) k = objGet g k"
          using 1 by (simp add: graphPush_def objGet_objSet)
        show ?thesis using Some False Cons.IH(1)[OF pushed] other by simp
      qed
    qed
  next
    case 2
    show ?case
    proof (cases "fld_relationship field")
      case None
      then show ?thesis using Cons.IH(2)[OF 2] by simp
    next
      case (Some relationship)
      show ?thesis
      proof (cases "rel_type relationship = OneToMany")
        case True
        then show ?thesis using Some Cons.IH(2)[OF 2] by simp
      next
        case False
        have pushed: "objGet (graphPush g name (rel_target relationship)) name
                      = Some (targets @ [rel_target relationship])"
          using 2 by (simp add: graphPush_def objGet_objSet)
        have keys: "objKeys (graphPush g name (rel_target relationship)) = objKeys g"
          using 2 key[OF 2] by (simp add: graphPush_def objKeys_objSet_list)
        show ?thesis using Some False Cons.IH(2)[OF pushed] keys by simp
      qed
    qed
  }
qed


lemma addEntityToGraph_keys:
  "objKeys (addEntityToGraph g entity) =
     (if ent_name entity \<in> set (objKeys g) then objKeys g else objKeys g @ [ent_name entity])"
  using graph_fields_loop(2)[where g = "objSet g (ent_name entity) []"
          and name = "ent_name entity" and targets = "[]" and flds = "ent_fields entity"]
  by (simp add: addEntityToGraph_def objGet_objSet objKeys_objSet_list)


lemma buildRelationshipGraph_keys:
  "set (objKeys (buildRelationshipGraph dataModel)) = set (map ent_name (dm_entities dataModel))
   \<and> distinct (objKeys (buildRelationshipGraph dataModel))"
proof -
  have "set (objKeys (foldl addEntityToGraph [] entities)) = set (map ent_name entities)
        \<and> distinct (objKeys (foldl addEntityToGraph [] entities))" for entities
  proof (induction entities rule: rev_induct)
    case Nil
    then show ?case by (simp add: objKeys_def)
  next
    case (snoc e entities)
    then show ?case by (auto simp add: addEntityToGraph_keys)
  qed
  then show ?thesis by (simp add: buildRelationshipGraph_def)
qed




























end
